(* ===== verification/Prelude.thy ===== *)
theory Prelude
  imports Complex_Main "HOL-Library.Word" "HOL-Library.Sublist"
begin

text \<open>
  Shared vocabulary of the development: the JavaScript built-ins that the
  repository's TypeScript calls (\<open>Math.round\<close>, \<open>Array.prototype.find\<close>,
  \<open>findIndex\<close>, \<open>slice\<close> with a negative start, \<open>padStart\<close>, the
  \<open>||\<close> default on strings), written as executable HOL functions, and the list
  and map lemmas that the component theories share.  JavaScript numbers that the
  code uses as integers are \<open>int\<close>; an expression whose divisor may be zero
  yields a \<open>js_num\<close>, which also holds \<open>NaN\<close> and the infinities.
\<close>

named_theorems js_simps "evaluation equations of the JavaScript built-ins"
named_theorems inv_simps "unfolding rules of the component invariants"

subsection \<open>Numbers\<close>

text \<open>
  The values a JavaScript arithmetic expression over integers can take: an
  integer, or one of the IEEE special values that division by zero produces.
\<close>

datatype js_num = Num int | NaN | Infinity | NegInfinity

text \<open>\<open>Math.round\<close>: the nearest integer, halves rounded towards \<open>+\<infinity>\<close>.\<close>

definition js_round :: "rat \<Rightarrow> int" where
  "js_round x = \<lfloor>x + 1 / 2\<rfloor>"

lemma js_round_mono: "x \<le> y \<Longrightarrow> js_round x \<le> js_round y"
  unfolding js_round_def by (intro floor_mono) simp

lemma js_round_of_int [simp]: "js_round (of_int k) = k"
  unfolding js_round_def by linarith

lemma js_round_nearest: "of_int (js_round x) - 1 / 2 \<le> x \<and> x < of_int (js_round x) + 1 / 2"
  unfolding js_round_def by linarith

text \<open>
  The rounded ratio \<open>Math.round(c / t * 100)\<close> in integer arithmetic: the form
  the code's callers compute, checked against the rational definition.
\<close>

lemma js_round_percent:
  assumes "0 < t"
  shows "js_round (of_int c / of_int t * 100) = (200 * c + t) div (2 * t)"
proof -
  have "of_int c / of_int t * 100 + 1 / 2 = (of_int (200 * c + t) / of_int (2 * t) :: rat)"
    using assms by (simp add: field_simps)
  then show ?thesis
    unfolding js_round_def by (simp only: floor_divide_of_int_eq)
qed

text \<open>
  \<open>Math.round((c / t) * 100)\<close> for integers \<open>c\<close> and \<open>t\<close>, in exact rational
  arithmetic; \<open>0 / 0\<close> is \<open>NaN\<close> and \<open>c / 0\<close> an infinity of the sign of \<open>c\<close>.
\<close>

definition js_percent :: "int \<Rightarrow> int \<Rightarrow> js_num" where
  "js_percent c t =
     (if t = 0 then (if c = 0 then NaN else if 0 < c then Infinity else NegInfinity)
      else Num (js_round (of_int c / of_int t * 100)))"

text \<open>\<open>x >= p\<close> for a number \<open>x\<close> and an integer \<open>p\<close>: false for \<open>NaN\<close>.\<close>

fun js_ge :: "js_num \<Rightarrow> int \<Rightarrow> bool" where
  "js_ge (Num k) p = (p \<le> k)"
| "js_ge NaN p = False"
| "js_ge Infinity p = True"
| "js_ge NegInfinity p = False"

lemma js_percent_pos [simp]: "0 < t \<Longrightarrow> js_percent c t = Num ((200 * c + t) div (2 * t))"
  using js_round_percent [of t c] by (auto simp: js_percent_def)

lemma js_percent_bounds:
  assumes "0 < t" "0 \<le> c" "c \<le> t" "js_percent c t = Num k"
  shows "0 \<le> k \<and> k \<le> 100"
proof -
  from assms have k: "k = (200 * c + t) div (2 * t)" by simp
  have "0 \<le> (200 * c + t) div (2 * t)"
    using assms(1,2) by (simp add: pos_imp_zdiv_nonneg_iff)
  moreover have "(200 * c + t) div (2 * t) \<le> (t + 100 * (2 * t)) div (2 * t)"
    by (rule zdiv_mono1) (use assms in linarith)+
  moreover have "(t + 100 * (2 * t)) div (2 * t) = 100"
    using assms(1) by (simp add: div_pos_pos_trivial)
  ultimately show ?thesis using k by simp
qed

subsection \<open>Arrays\<close>

text \<open>The position of the first element with a property (\<open>findIndex\<close> before the \<open>-1\<close> convention).\<close>

fun find_idx :: "('a \<Rightarrow> bool) \<Rightarrow> 'a list \<Rightarrow> nat option" where
  "find_idx P [] = None"
| "find_idx P (x # xs) = (if P x then Some 0 else map_option Suc (find_idx P xs))"

text \<open>\<open>Array.prototype.findIndex\<close>: the first index, or \<open>-1\<close>.\<close>

definition js_findIndex :: "('a \<Rightarrow> bool) \<Rightarrow> 'a list \<Rightarrow> int" where
  "js_findIndex P xs = (case find_idx P xs of None \<Rightarrow> -1 | Some i \<Rightarrow> int i)"

lemma find_idx_None_iff: "find_idx P xs = None \<longleftrightarrow> (\<forall>x\<in>set xs. \<not> P x)"
  by (induction xs) auto

lemma find_idx_SomeD:
  "find_idx P xs = Some i \<Longrightarrow> i < length xs \<and> P (xs ! i) \<and> (\<forall>j<i. \<not> P (xs ! j))"
proof (induction xs arbitrary: i)
  case Nil
  then show ?case by simp
next
  case (Cons x xs)
  then show ?case
    by (auto split: if_splits simp: less_Suc_eq_0_disj)
qed

lemma js_findIndex_nonneg_iff: "0 \<le> js_findIndex P xs \<longleftrightarrow> (\<exists>x\<in>set xs. P x)"
proof (cases "find_idx P xs")
  case None
  then have "\<forall>x\<in>set xs. \<not> P x" by (simp only: find_idx_None_iff)
  with None show ?thesis by (simp add: js_findIndex_def)
next
  case (Some i)
  with find_idx_SomeD [OF Some] show ?thesis by (auto simp: js_findIndex_def)
qed

text \<open>
  Replacing the first entry with key \<open>k\<close> in an association list, or appending
  when there is none, is an update of the map the list stands for.
\<close>

lemma map_of_update_first:
  assumes "i < length xs" "fst (xs ! i) = k" "\<forall>j<i. fst (xs ! j) \<noteq> k"
  shows "map_of (xs[i := (k, v)]) = (map_of xs)(k \<mapsto> v)"
  using assms
proof (induction xs arbitrary: i)
  case Nil
  then show ?case by simp
next
  case (Cons y ys)
  show ?case
  proof (cases i)
    case 0
    with Cons.prems show ?thesis by (cases y) (auto simp: fun_eq_iff)
  next
    case (Suc m)
    with Cons.prems have "fst y \<noteq> k" by auto
    moreover from Cons.prems Suc have "map_of (ys[m := (k, v)]) = (map_of ys)(k \<mapsto> v)"
      by (intro Cons.IH) auto
    ultimately show ?thesis using Suc by (cases y) (auto simp: fun_eq_iff)
  qed
qed

lemma map_of_append_new:
  assumes "k \<notin> fst ` set xs"
  shows "map_of (xs @ [(k, v)]) = (map_of xs)(k \<mapsto> v)"
proof -
  from assms have "map_of xs k = None" by (simp add: map_of_eq_None_iff)
  then show ?thesis by (auto simp: fun_eq_iff map_add_def split: option.split)
qed

text \<open>\<open>xs.slice(-n)\<close>: the last \<open>n\<close> elements; \<open>slice(-0)\<close> is \<open>slice(0)\<close>, the whole array.\<close>

definition js_slice_last :: "nat \<Rightarrow> 'a list \<Rightarrow> 'a list" where
  "js_slice_last n xs = (if n = 0 then xs else drop (length xs - n) xs)"

lemma js_slice_last_length [simp]: "0 < n \<Longrightarrow> length (js_slice_last n xs) = min n (length xs)"
  by (simp add: js_slice_last_def)

lemma js_slice_last_suffix: "suffix (js_slice_last n xs) xs"
  by (simp add: js_slice_last_def suffix_drop)

lemma js_slice_last_short [simp]: "length xs \<le> n \<Longrightarrow> js_slice_last n xs = xs"
  by (simp add: js_slice_last_def)

lemma js_slice_last_snoc_last:
  "0 < n \<Longrightarrow> last (js_slice_last n (xs @ [x])) = x"
  by (simp add: js_slice_last_def)

text \<open>Cutting to the last \<open>n\<close> before appending loses nothing that the cut after keeps.\<close>

lemma js_slice_last_append_idem:
  "js_slice_last n (js_slice_last n xs @ ys) = js_slice_last n (xs @ ys)"
proof (cases "n = 0")
  case True
  then show ?thesis by (simp add: js_slice_last_def)
next
  case False
  have "drop (length xs - n) xs @ ys = drop (length xs - n) (xs @ ys)" by simp
  moreover have "length xs + length ys - (length xs - n + n) + (length xs - n) =
      length xs + length ys - n"
    by arith
  ultimately show ?thesis using False by (simp add: js_slice_last_def)
qed

subsection \<open>Strings\<close>

text \<open>\<open>s.padStart(n, c)\<close> with a one-character pad.\<close>

definition pad_start :: "nat \<Rightarrow> char \<Rightarrow> string \<Rightarrow> string" where
  "pad_start n c s = replicate (n - length s) c @ s"

lemma pad_start_length [simp]: "length (pad_start n c s) = max n (length s)"
  by (simp add: pad_start_def)

text \<open>\<open>s.replace(/c/g, r)\<close>: every occurrence of the character \<open>c\<close> replaced by \<open>r\<close>.\<close>

definition js_replace_char :: "char \<Rightarrow> string \<Rightarrow> string \<Rightarrow> string" where
  "js_replace_char c r s = concat (map (\<lambda>x. if x = c then r else [x]) s)"

text \<open>\<open>s.split(c)[0]\<close>: the text before the first \<open>c\<close>.\<close>

definition js_split_first :: "char \<Rightarrow> string \<Rightarrow> string" where
  "js_split_first c s = takeWhile (\<lambda>x. x \<noteq> c) s"

text \<open>
  \<open>String.prototype.trim\<close>: white space and line terminators removed at both
  ends.  Characters are code units below 256 here, so the white space is tab, line
  feed, vertical tab, form feed, carriage return, space and no-break space.
\<close>

definition js_is_space :: "char \<Rightarrow> bool" where
  "js_is_space c \<longleftrightarrow> c \<in> set [CHR 0x09, CHR 0x0A, CHR 0x0B, CHR 0x0C, CHR 0x0D, CHR 0x20, CHR 0xA0]"

definition js_trim :: "string \<Rightarrow> string" where
  "js_trim s = rev (dropWhile js_is_space (rev (dropWhile js_is_space s)))"

text \<open>
  \<open>String.prototype.toLowerCase\<close> on the code units below 256: the ASCII capitals and
  the Latin-1 capitals (except the multiplication sign) map to their small letters.
\<close>

definition upper_chars :: string where
  "upper_chars = ''ABCDEFGHIJKLMNOPQRSTUVWXYZ'' @ [CHR 0xC0, CHR 0xC1, CHR 0xC2, CHR 0xC3, CHR 0xC4, CHR 0xC5, CHR 0xC6, CHR 0xC7, CHR 0xC8, CHR 0xC9, CHR 0xCA, CHR 0xCB, CHR 0xCC, CHR 0xCD, CHR 0xCE, CHR 0xCF, CHR 0xD0, CHR 0xD1, CHR 0xD2, CHR 0xD3, CHR 0xD4, CHR 0xD5, CHR 0xD6, CHR 0xD8, CHR 0xD9, CHR 0xDA, CHR 0xDB, CHR 0xDC, CHR 0xDD, CHR 0xDE]"

definition lower_chars :: string where
  "lower_chars = ''abcdefghijklmnopqrstuvwxyz'' @ [CHR 0xE0, CHR 0xE1, CHR 0xE2, CHR 0xE3, CHR 0xE4, CHR 0xE5, CHR 0xE6, CHR 0xE7, CHR 0xE8, CHR 0xE9, CHR 0xEA, CHR 0xEB, CHR 0xEC, CHR 0xED, CHR 0xEE, CHR 0xEF, CHR 0xF0, CHR 0xF1, CHR 0xF2, CHR 0xF3, CHR 0xF4, CHR 0xF5, CHR 0xF6, CHR 0xF8, CHR 0xF9, CHR 0xFA, CHR 0xFB, CHR 0xFC, CHR 0xFD, CHR 0xFE]"

definition js_toLowerCase :: "string \<Rightarrow> string" where
  "js_toLowerCase s = map (\<lambda>c. case map_of (zip upper_chars lower_chars) c of Some d \<Rightarrow> d | None \<Rightarrow> c) s"

text \<open>\<open>s.includes(t)\<close>: \<open>t\<close> occurs in \<open>s\<close> as a contiguous piece.\<close>

fun js_includes :: "string \<Rightarrow> string \<Rightarrow> bool" where
  "js_includes [] t = (t = [])"
| "js_includes (c # cs) t = (take (length t) (c # cs) = t \<or> js_includes cs t)"

text \<open>\<open>s || d\<close> for a string \<open>s\<close>: the empty string is falsy.\<close>

definition js_str_or :: "string \<Rightarrow> string \<Rightarrow> string" where
  "js_str_or s d = (if s = [] then d else s)"

lemma js_str_or_nonempty [simp]: "d \<noteq> [] \<Longrightarrow> js_str_or s d \<noteq> []"
  by (simp add: js_str_or_def)

lemma js_replace_char_append [simp]:
  "js_replace_char c r (xs @ ys) = js_replace_char c r xs @ js_replace_char c r ys"
  by (simp add: js_replace_char_def)

lemma js_replace_char_Cons [simp]:
  "js_replace_char c r (x # xs) = (if x = c then r else [x]) @ js_replace_char c r xs"
  by (simp add: js_replace_char_def)

lemma js_replace_char_Nil [simp]: "js_replace_char c r [] = []"
  by (simp add: js_replace_char_def)

lemma dropWhile_keeps: "x \<in> set xs \<Longrightarrow> \<not> P x \<Longrightarrow> x \<in> set (dropWhile P xs)"
  by (induction xs) auto

lemma js_trim_keeps: "x \<in> set s \<Longrightarrow> \<not> js_is_space x \<Longrightarrow> x \<in> set (js_trim s)"
  by (simp add: js_trim_def dropWhile_keeps)

lemma set_js_trim: "set (js_trim s) \<subseteq> set s"
  by (auto simp: js_trim_def) (metis set_dropWhileD set_rev)

lemma dropWhile_idem [simp]: "dropWhile P (dropWhile P xs) = dropWhile P xs"
  by (induction xs) auto

lemma dropWhile_rev_prefix:
  assumes "u = [] \<or> \<not> P (hd u)"
  shows "dropWhile P (rev (dropWhile P (rev u))) = rev (dropWhile P (rev u))"
proof (cases "dropWhile P (rev u) = []")
  case True
  then show ?thesis by (simp only: True rev.simps dropWhile.simps)
next
  case False
  have "suffix (dropWhile P (rev u)) (rev u)" by (rule suffix_dropWhile)
  then have "prefix (rev (dropWhile P (rev u))) u" by (simp add: suffix_to_prefix)
  with False have "hd (rev (dropWhile P (rev u))) = hd u"
    by (metis Nil_is_rev_conv prefix_Nil prefix_def hd_append2)
  with assms False show ?thesis
    by (auto simp: dropWhile_eq_self_iff)
qed

lemma js_trim_idem [simp]: "js_trim (js_trim s) = js_trim s"
proof -
  have "dropWhile js_is_space s = [] \<or> \<not> js_is_space (hd (dropWhile js_is_space s))"
    using hd_dropWhile by blast
  then show ?thesis by (simp add: js_trim_def dropWhile_rev_prefix)
qed

lemma js_includes_iff: "js_includes s t \<longleftrightarrow> sublist t s"
proof (induction s)
  case Nil
  then show ?case by simp
next
  case (Cons c cs)
  have "take (length t) (c # cs) = t \<longleftrightarrow> prefix t (c # cs)"
    by (metis append_take_drop_id prefix_def append_eq_conv_conj)
  with Cons show ?case by (simp add: sublist_Cons_right)
qed

lemma js_replace_char_id [simp]: "js_replace_char c [c] s = s"
  by (induction s) auto

lemma js_replace_char_absent: "c \<notin> set s \<Longrightarrow> js_replace_char c r s = s"
  by (induction s) auto

lemma set_js_replace_char: "set (js_replace_char c r s) = (set s - {c}) \<union> (if c \<in> set s then set r else {})"
  by (induction s) auto

lemma pred_option_weaken: "pred_option P x \<Longrightarrow> (\<And>y. P y \<Longrightarrow> Q y) \<Longrightarrow> pred_option Q x"
  by (cases x) auto

declare js_percent_def [js_simps] js_round_def [js_simps] js_findIndex_def [js_simps] js_slice_last_def [js_simps]
  pad_start_def [js_simps] js_str_or_def [js_simps] js_split_first_def [js_simps]
  js_trim_def [js_simps] js_toLowerCase_def [js_simps]

end
