(* ===== verification/ExamTypes.thy ===== *)
theory ExamTypes
  imports Prelude
begin

text \<open>
  The exam data model of \<open>src/capacita-seguros/src/types/exam.ts\<close>: the interfaces
  \<open>Question\<close>, \<open>UserAnswer\<close>, \<open>Exam\<close> and \<open>ExamResult\<close> as records, the
  difficulty union as a datatype, and the built-in sample exam (\<open>sampleQuestions\<close>,
  \<open>sampleExam\<close>).  Field names that clash between records, or with HOL constants
  (\<open>id\<close>), carry the record's name.  Prompt and option texts are kept with their
  accented letters replaced by their base letters and the Spanish opening marks
  dropped; no operation of the program reads them.
\<close>

datatype difficulty = Easy | Medium | Hard

record question =
  question_id :: string
  question_text :: string
  options :: "string list"
  correctAnswer :: int
  category :: string
  difficulty :: difficulty

record user_answer =
  questionId :: string
  selectedAnswer :: int
  isCorrect :: bool

record exam =
  exam_id :: string
  title :: string
  description :: string
  exam_category :: string
  questions :: "question list"
  timeLimit :: int
  passingScore :: int

record exam_result =
  result_id :: string
  examId :: string
  userId :: string
  score :: js_num
  totalQuestions :: int
  correctAnswers :: int
  wrongAnswers :: int
  timeSpent :: int
  result_answers :: "user_answer list"
  completedAt :: string

subsection \<open>The built-in sample exam\<close>

definition sampleQuestions :: "question list" where
  "sampleQuestions = [
    \<lparr>question_id = ''1'',
     question_text = ''Segun la LISF, cual es el objeto de la regulacion de las instituciones de seguros?'',
     options = [''Proteger los intereses del publico asegurado'', ''Maximizar las ganancias de las aseguradoras'',
                ''Facilitar la venta de seguros'', ''Reducir la competencia entre aseguradoras''],
     correctAnswer = 0, category = ''Regulacion'', difficulty = Easy\<rparr>,
    \<lparr>question_id = ''2'',
     question_text = ''Que tipo de seguros son los que cubren riesgos provenientes de fuerzas naturales?'',
     options = [''Seguros de vida'', ''Seguros de danos'', ''Seguros de gastos medicos'', ''Seguros de automoviles''],
     correctAnswer = 1, category = ''Seguros de Danos'', difficulty = Easy\<rparr>,
    \<lparr>question_id = ''3'',
     question_text = ''La Comision Nacional de Seguros y Fianzas (CNSF) depende de:'',
     options = [''La Secretaria de Hacienda y Credito Publico'', ''El Banco de Mexico'',
                ''La Secretaria de Economia'', ''El Congreso de la Union''],
     correctAnswer = 0, category = ''Regulacion'', difficulty = Medium\<rparr>,
    \<lparr>question_id = ''4'',
     question_text = ''Cual es el plazo maximo para que una aseguradora deba pronunciarse sobre el pago de un siniestro?'',
     options = [''30 dias naturales'', ''60 dias naturales'', ''90 dias naturales'', ''180 dias naturales''],
     correctAnswer = 2, category = ''Siniestros'', difficulty = Medium\<rparr>,
    \<lparr>question_id = ''5'',
     question_text = ''El contrato de seguros debe contener de forma obligatoria:'',
     options = [''Solo el nombre del agente que vende el seguro'', ''La cantidad de asegurados en la poliza'',
                ''Los derechos y obligaciones de las partes'', ''El historial de reclamaciones del asegurado''],
     correctAnswer = 2, category = ''Contratos'', difficulty = Medium\<rparr>,
    \<lparr>question_id = ''6'',
     question_text = ''Que es la prima en un contrato de seguros?'',
     options = [''El monto que paga la aseguradora al asegurado'', ''El precio del seguro que paga el contratante'',
                ''El deducible del seguro'', ''La comision del agente''],
     correctAnswer = 1, category = ''Conceptos Basicos'', difficulty = Easy\<rparr>,
    \<lparr>question_id = ''7'',
     question_text = ''La reserva tecnica de una aseguradora se refiere a:'',
     options = [''Las oficinas fisicas de la empresa'', ''Los recursos destinados a cumplir compromisos con asegurados'',
                ''El capital social de la compania'', ''Los activos fijos de la institucion''],
     correctAnswer = 1, category = ''Finanzas'', difficulty = Hard\<rparr>,
    \<lparr>question_id = ''8'',
     question_text = ''Que documento acredita la existencia de un contrato de seguros?'',
     options = [''La cotizacion'', ''La poliza'', ''El recibo de pago'', ''La solicitud de seguro''],
     correctAnswer = 1, category = ''Contratos'', difficulty = Easy\<rparr>,
    \<lparr>question_id = ''9'',
     question_text = ''El aseguramiento de riesgos implica que:'',
     options = [''El riesgo desaparece completamente'', ''El riesgo se transfiere a la aseguradora'',
                ''El riesgo se comparte con el gobierno'', ''El riesgo se reduce a cero''],
     correctAnswer = 1, category = ''Conceptos Basicos'', difficulty = Easy\<rparr>,
    \<lparr>question_id = ''10'',
     question_text = ''La inspeccion del riesgo por parte de la aseguradora se realiza:'',
     options = [''Despues de ocurrido un siniestro'', ''Antes de emitir la poliza'',
                ''Solo cuando hay un incremento en la prima'', ''Una vez al anio obligatoriamente''],
     correctAnswer = 1, category = ''Underwriting'', difficulty = Medium\<rparr>]"

definition sampleExam :: exam where
  "sampleExam = \<lparr>exam_id = ''examen-cnsf-2.1'', title = ''Simulador Examen CNSF 2.1'',
     description = ''Examen de practica sobre la Ley de Instituciones de Seguros y Fianzas'',
     exam_category = ''Regulacion'', questions = sampleQuestions, timeLimit = 15, passingScore = 70\<rparr>"

text \<open>
  Well-formed exam data: question identifiers are pairwise distinct and every
  question's correct index names one of its options.  Nothing in the program checks
  this; it is the property of the sample data that the store's lemmas can rely on.
\<close>

definition wf_exam :: "exam \<Rightarrow> bool" where
  "wf_exam e \<longleftrightarrow> distinct (map question_id (questions e)) \<and>
     list_all (\<lambda>q. 0 \<le> correctAnswer q \<and> correctAnswer q < int (length (options q))) (questions e)"

lemma sampleExam_wf: "wf_exam sampleExam"
  by (simp add: wf_exam_def sampleExam_def sampleQuestions_def)

lemma sampleExam_shape [simp]:
  "length (questions sampleExam) = 10" "timeLimit sampleExam = 15" "passingScore sampleExam = 70"
  by (simp_all add: sampleExam_def sampleQuestions_def)

text \<open>
  The built-in exam is well-typed data of the \<open>Exam\<close> interface as the store
  uses it: question ids are distinct, every question has four options and a correct
  index that names one of them, the time limit is positive and the pass mark is a
  percentage.
\<close>

theorem sampleExam_well_typed:
  "wf_exam sampleExam \<and> list_all (\<lambda>q. length (options q) = 4) (questions sampleExam) \<and>
   0 < timeLimit sampleExam \<and> 0 \<le> passingScore sampleExam \<and> passingScore sampleExam \<le> 100"
  by (simp add: wf_exam_def sampleExam_def sampleQuestions_def)

end
