(* ===== verification/AuthTypes.thy ===== *)
theory AuthTypes
  imports Prelude
begin

text \<open>
  The session data model of \<open>src/capacita-seguros/src/types/auth.ts\<close>: the
  \<open>User\<close> interface with its role union, the login credentials, and the
  \<open>AuthState\<close> fields that the session store (\<open>store/authStore.ts\<close>) keeps.
  The exam store reads the user of this state when it stamps a result, so the
  record lives in a theory of its own that both stores import.
\<close>

datatype role = Admin | Agent | Supervisor

record user =
  user_id :: string
  name :: string
  email :: string
  company :: string
  role :: role
  avatar :: "string option"

record login_credentials =
  cred_email :: string
  cred_password :: string
  cred_company :: string

record auth_state =
  user :: "user option"
  isAuthenticated :: bool
  isLoading :: bool
  error :: "string option"

end
