(* ===== verification/SecureId.thy ===== *)
theory SecureId
  imports Prelude
begin

text \<open>
  \<open>generateSecureId\<close> of \<open>store/authStore.ts\<close> (and its copy in
  \<open>store/examStore.ts\<close>): sixteen bytes from \<open>crypto.getRandomValues\<close>, each
  written by \<open>byte.toString(16).padStart(2, '0')\<close>, joined.  The random bytes are
  the function's input here (an \<open>8 word\<close> list), so what is proved holds for any
  outcome of the generator: the identifier has two lowercase hexadecimal digits per
  byte, and it determines the bytes (a decoder recovers them), so distinct random
  draws give distinct identifiers.
\<close>

text \<open>\<open>Number.prototype.toString(16)\<close> on a non-negative integer.\<close>

definition hex_digits :: string where
  "hex_digits = ''0123456789abcdef''"

fun to_hex :: "nat \<Rightarrow> string" where
  "to_hex n = (if n < 16 then [hex_digits ! n] else to_hex (n div 16) @ [hex_digits ! (n mod 16)])"

declare to_hex.simps [simp del]

definition byte_hex :: "8 word \<Rightarrow> string" where
  "byte_hex b = pad_start 2 (CHR ''0'') (to_hex (unat b))"

definition generateSecureId :: "8 word list \<Rightarrow> string" where
  "generateSecureId array = concat (map byte_hex array)"

subsection \<open>Decoding\<close>

text \<open>The inverse reading of an identifier, two digits per byte.\<close>

definition hex_val :: "char \<Rightarrow> nat option" where
  "hex_val c = find_idx (\<lambda>d. d = c) hex_digits"

fun parse_hex_bytes :: "string \<Rightarrow> 8 word list option" where
  "parse_hex_bytes [] = Some []"
| "parse_hex_bytes [c] = None"
| "parse_hex_bytes (c1 # c2 # cs) =
     (case (hex_val c1, hex_val c2, parse_hex_bytes cs) of
        (Some h, Some l, Some bs) \<Rightarrow> Some (word_of_nat (16 * h + l) # bs)
      | _ \<Rightarrow> None)"

subsection \<open>Properties\<close>

lemma hex_val_digit: "d < 16 \<Longrightarrow> hex_val (hex_digits ! d) = Some d"
  by (auto simp: hex_val_def hex_digits_def less_Suc_eq numeral_eq_Suc)

lemma to_hex_small: "n < 16 \<Longrightarrow> to_hex n = [hex_digits ! n]"
  by (simp add: to_hex.simps)

lemma byte_hex_digits:
  "byte_hex b = [hex_digits ! (unat b div 16), hex_digits ! (unat b mod 16)]"
proof -
  have n: "unat b < 256" using unsigned_less [of b] by simp
  show ?thesis
  proof (cases "unat b < 16")
    case True
    then show ?thesis
      by (simp add: byte_hex_def to_hex_small pad_start_def hex_digits_def)
  next
    case False
    with n have "unat b div 16 < 16" by simp
    with False show ?thesis
      by (simp add: byte_hex_def to_hex.simps [of "unat b"] to_hex_small pad_start_def)
  qed
qed

lemma parse_hex_bytes_inverse: "parse_hex_bytes (generateSecureId bs) = Some bs"
proof (induction bs)
  case Nil
  then show ?case by (simp add: generateSecureId_def)
next
  case (Cons b bs)
  have "unat b < 256" using unsigned_less [of b] by simp
  then have "unat b div 16 < 16" by simp
  moreover have "16 * (unat b div 16) + unat b mod 16 = unat b" by simp
  ultimately show ?case using Cons
    by (simp add: generateSecureId_def byte_hex_digits hex_val_digit)
qed

lemma generateSecureId_inj:
  assumes "generateSecureId bs = generateSecureId bs'"
  shows "bs = bs'"
proof -
  have "Some bs = parse_hex_bytes (generateSecureId bs)"
    by (simp only: parse_hex_bytes_inverse)
  also have "\<dots> = Some bs'"
    by (simp only: assms parse_hex_bytes_inverse)
  finally show ?thesis by simp
qed

lemma length_byte_hex [simp]: "length (byte_hex b) = 2"
  by (simp add: byte_hex_digits)

lemma generateSecureId_length: "length (generateSecureId bs) = 2 * length bs"
  by (induction bs) (simp_all add: generateSecureId_def)

lemma generateSecureId_hex_chars: "set (generateSecureId bs) \<subseteq> set hex_digits"
proof -
  have "\<And>b. set (byte_hex b) \<subseteq> set hex_digits"
  proof -
    fix b :: "8 word"
    have "unat b < 256" using unsigned_less [of b] by simp
    then have "unat b div 16 < length hex_digits" "unat b mod 16 < length hex_digits"
      by (simp_all add: hex_digits_def)
    then show "set (byte_hex b) \<subseteq> set hex_digits"
      by (simp add: byte_hex_digits)
  qed
  then show ?thesis by (auto simp: generateSecureId_def)
qed

text \<open>
  C13. An identifier made from any sequence of random bytes has exactly two lowercase
  hexadecimal digits per byte and reads back to the bytes it was made from; in
  particular sixteen bytes give a 32-character identifier, and different draws give
  different identifiers.
\<close>

theorem generateSecureId_roundtrip:
  "parse_hex_bytes (generateSecureId bs) = Some bs \<and>
   length (generateSecureId bs) = 2 * length bs \<and>
   set (generateSecureId bs) \<subseteq> set hex_digits"
  using parse_hex_bytes_inverse generateSecureId_length generateSecureId_hex_chars by blast

lemma generateSecureId_example: "generateSecureId [0xab, 0x05, 0] = ''ab0500''"
  by (simp add: generateSecureId_def byte_hex_digits hex_digits_def)

end
