(* ===== verification/ExamHistory.thy ===== *)
theory ExamHistory
  imports ExamTypes
begin

text \<open>
  The durable result history that \<open>completeExam\<close> of \<open>store/examStore.ts\<close>
  maintains under the \<open>localStorage\<close> key \<open>'examResults'\<close>.  The key holds
  either nothing, a JSON array of results, or text that \<open>JSON.parse\<close> rejects (or
  that is not an array, so that the spread \<open>[...existingResults, result]\<close> throws);
  \<open>read_history\<close> is \<open>JSON.parse(localStorage.getItem('examResults') || '[]')\<close>
  with a throw as \<open>None\<close>.  Whether \<open>setItem\<close> succeeds (the storage quota) is
  the input \<open>write_ok\<close>.  Every exception is caught and logged by the code, so a
  failure leaves the stored history as it was.
\<close>

datatype history_store = NoHistory | StoredResults "exam_result list" | Unreadable

fun read_history :: "history_store \<Rightarrow> exam_result list option" where
  "read_history NoHistory = Some []"
| "read_history (StoredResults xs) = Some xs"
| "read_history Unreadable = None"

definition saveExamResult :: "bool \<Rightarrow> exam_result \<Rightarrow> history_store \<Rightarrow> history_store" where
  "saveExamResult write_ok result h =
     (case read_history h of
        None \<Rightarrow> h
      | Some existingResults \<Rightarrow>
          (let limitedResults = js_slice_last 100 (existingResults @ [result])
           in if write_ok then StoredResults limitedResults else h))"

text \<open>The history is bounded: what the key holds never exceeds the cap.\<close>

fun history_bounded :: "history_store \<Rightarrow> bool" where
  "history_bounded (StoredResults xs) = (length xs \<le> 100)"
| "history_bounded _ = True"

lemma saveExamResult_failed_read: "read_history h = None \<Longrightarrow> saveExamResult w r h = h"
  by (simp add: saveExamResult_def)

lemma saveExamResult_failed_write: "saveExamResult False r h = h"
  by (simp add: saveExamResult_def split: option.split)

lemma saveExamResult_written:
  "read_history h = Some xs \<Longrightarrow> saveExamResult True r h = StoredResults (js_slice_last 100 (xs @ [r]))"
  by (simp add: saveExamResult_def)

lemma saveExamResult_bounded: "history_bounded (saveExamResult w r h) \<or> saveExamResult w r h = h"
  by (cases w) (auto simp: saveExamResult_def split: option.split)

text \<open>
  C12. Results saved one after the other, each write succeeding, are kept in
  completion order after what the key held, and the key holds the most recent hundred
  of them: the oldest are evicted first.
\<close>

lemma saveExamResult_fold:
  "read_history h = Some xs \<Longrightarrow>
   fold (saveExamResult True) rs h = (if rs = [] then h else StoredResults (js_slice_last 100 (xs @ rs)))"
proof (induction rs arbitrary: h xs)
  case Nil
  then show ?case by simp
next
  case (Cons r rs)
  let ?h = "saveExamResult True r h"
  have h: "?h = StoredResults (js_slice_last 100 (xs @ [r]))"
    using Cons.prems by (rule saveExamResult_written)
  then have "read_history ?h = Some (js_slice_last 100 (xs @ [r]))" by simp
  then have "fold (saveExamResult True) rs ?h =
      (if rs = [] then ?h else StoredResults (js_slice_last 100 (js_slice_last 100 (xs @ [r]) @ rs)))"
    by (rule Cons.IH)
  then show ?case using h by (simp add: js_slice_last_append_idem)
qed

theorem saveExamResult_fold_witness:
  "fold (saveExamResult True)
     (map (\<lambda>i. \<lparr>result_id = ''r'', examId = ''examen-cnsf-2.1'', userId = ''anonymous'', score = Num 0,
                  totalQuestions = 10, correctAnswers = 0, wrongAnswers = 10, timeSpent = int i,
                  result_answers = [], completedAt = ''t''\<rparr>) [1..<102]) NoHistory =
   StoredResults
     (map (\<lambda>i. \<lparr>result_id = ''r'', examId = ''examen-cnsf-2.1'', userId = ''anonymous'', score = Num 0,
                  totalQuestions = 10, correctAnswers = 0, wrongAnswers = 10, timeSpent = int i,
                  result_answers = [], completedAt = ''t''\<rparr>) [2..<102])"
proof -
  have "read_history NoHistory = Some []" by simp
  from saveExamResult_fold [OF this] show ?thesis
    by (simp add: js_slice_last_def drop_map numeral_2_eq_2 del: upt_rec_numeral)
qed

end
