(* ===== verification/ExamStore.thy ===== *)
theory ExamStore
  imports ExamTypes AuthTypes SecureId ExamHistory
begin

text \<open>
  The exam attempt store \<open>useExamStore\<close> of \<open>store/examStore.ts\<close>.  Its state
  (\<open>ExamState\<close>) is the record \<open>exam_state\<close>; each action is a function from the
  state to the new state, the \<open>set\<close> calls written as record updates and every
  early \<open>return\<close> as a branch that returns the state unchanged.  \<open>completeExam\<close>
  also touches the durable history (\<open>ExamHistory\<close>) and reads the session store, so
  it takes the session state, the random bytes of \<open>generateSecureId\<close>, the
  timestamp and the outcome of the storage write as inputs and returns the pair of
  the new state and the new history.  The store's \<open>persist\<close> middleware keeps only
  \<open>results\<close>; a fresh page therefore starts from the defaults with the persisted
  result rehydrated, which is \<open>exam_initial\<close>.  The page \<open>SimuladorExamen.tsx\<close>
  also writes \<open>currentQuestionIndex\<close> directly (\<open>useExamStore.setState\<close> from the
  question dots); that write is \<open>jumpToQuestion\<close>.
\<close>

record exam_state =
  currentExam :: "exam option"
  currentQuestionIndex :: int
  answers :: "user_answer list"
  timeRemaining :: int
  isExamStarted :: bool
  isExamCompleted :: bool
  results :: "exam_result option"

definition exam_initial :: "exam_result option \<Rightarrow> exam_state" where
  "exam_initial persisted =
     \<lparr>currentExam = None, currentQuestionIndex = 0, answers = [], timeRemaining = 0,
      isExamStarted = False, isExamCompleted = False, results = persisted\<rparr>"

text \<open>The copy of \<open>generateSecureId\<close> that \<open>examStore.ts\<close> keeps to avoid an import cycle.\<close>

definition exam_generateSecureId :: "8 word list \<Rightarrow> string" where
  "exam_generateSecureId array = concat (map byte_hex array)"

subsection \<open>Actions\<close>

definition startExam :: "exam option \<Rightarrow> exam_state \<Rightarrow> exam_state" where
  "startExam exam st =
     (let selectedExam = (case exam of Some e \<Rightarrow> e | None \<Rightarrow> sampleExam)
      in st\<lparr>currentExam := Some selectedExam, currentQuestionIndex := 0, answers := [],
            timeRemaining := timeLimit selectedExam * 60, isExamStarted := True,
            isExamCompleted := False, results := None\<rparr>)"

definition answerQuestion :: "string \<Rightarrow> int \<Rightarrow> exam_state \<Rightarrow> exam_state" where
  "answerQuestion qid sel st =
     (case currentExam st of
        None \<Rightarrow> st
      | Some e \<Rightarrow>
          (case find (\<lambda>q. question_id q = qid) (questions e) of
             None \<Rightarrow> st
           | Some q \<Rightarrow>
               (let correct = (correctAnswer q = sel);
                    existingIndex = js_findIndex (\<lambda>a. questionId a = qid) (answers st);
                    newAnswer = \<lparr>questionId = qid, selectedAnswer = sel, isCorrect = correct\<rparr>
                in if 0 \<le> existingIndex
                   then st\<lparr>answers := (answers st)[nat existingIndex := newAnswer]\<rparr>
                   else st\<lparr>answers := answers st @ [newAnswer]\<rparr>)))"

definition nextQuestion :: "exam_state \<Rightarrow> exam_state" where
  "nextQuestion st =
     (case currentExam st of
        None \<Rightarrow> st
      | Some e \<Rightarrow>
          if currentQuestionIndex st < int (length (questions e)) - 1
          then st\<lparr>currentQuestionIndex := currentQuestionIndex st + 1\<rparr> else st)"

definition previousQuestion :: "exam_state \<Rightarrow> exam_state" where
  "previousQuestion st =
     (if 0 < currentQuestionIndex st
      then st\<lparr>currentQuestionIndex := currentQuestionIndex st - 1\<rparr> else st)"

text \<open>
  The result that \<open>completeExam\<close> builds: the acting user's id (\<open>user?.id ||
  'anonymous'\<close>), the number of answers marked correct, the question count, the
  rounded percentage, and the time used.
\<close>

definition completeExam_result ::
  "auth_state \<Rightarrow> 8 word list \<Rightarrow> string \<Rightarrow> exam \<Rightarrow> exam_state \<Rightarrow> exam_result" where
  "completeExam_result auth bytes now e st =
     (let uid = js_str_or (case user auth of None \<Rightarrow> [] | Some u \<Rightarrow> user_id u) ''anonymous'';
          c = int (length (filter isCorrect (answers st)));
          t = int (length (questions e))
      in \<lparr>result_id = exam_generateSecureId bytes, examId = exam_id e, userId = uid,
          score = js_percent c t, totalQuestions = t, correctAnswers = c, wrongAnswers = t - c,
          timeSpent = timeLimit e * 60 - timeRemaining st, result_answers = answers st,
          completedAt = now\<rparr>)"

definition completeExam ::
  "auth_state \<Rightarrow> 8 word list \<Rightarrow> string \<Rightarrow> bool \<Rightarrow> exam_state \<Rightarrow> history_store \<Rightarrow>
   exam_state \<times> history_store" where
  "completeExam auth bytes now write_ok st h =
     (case currentExam st of
        None \<Rightarrow> (st, h)
      | Some e \<Rightarrow>
          (let result = completeExam_result auth bytes now e st
           in (st\<lparr>isExamCompleted := True, results := Some result\<rparr>,
               saveExamResult write_ok result h)))"

definition resetExam :: "exam_state \<Rightarrow> exam_state" where
  "resetExam st =
     st\<lparr>currentExam := None, currentQuestionIndex := 0, answers := [], timeRemaining := 0,
        isExamStarted := False, isExamCompleted := False, results := None\<rparr>"

definition tick :: "exam_state \<Rightarrow> exam_state" where
  "tick st =
     (if isExamCompleted st \<or> timeRemaining st \<le> 0 then st
      else st\<lparr>timeRemaining := timeRemaining st - 1\<rparr>)"

definition jumpToQuestion :: "int \<Rightarrow> exam_state \<Rightarrow> exam_state" where
  "jumpToQuestion index st = st\<lparr>currentQuestionIndex := index\<rparr>"

subsection \<open>Events and reachable states\<close>

text \<open>
  One constructor per call into the store.  \<open>Complete\<close> carries what the call reads
  from outside the store: the session state, the sixteen random bytes, the clock and
  whether \<open>localStorage.setItem\<close> succeeds.
\<close>

datatype exam_event =
    Start "exam option"
  | Answer string int
  | Next
  | Previous
  | Complete auth_state "8 word list" string bool
  | Reset
  | Tick
  | Jump int

fun exam_step :: "exam_event \<Rightarrow> exam_state \<times> history_store \<Rightarrow> exam_state \<times> history_store" where
  "exam_step (Start e) (st, h) = (startExam e st, h)"
| "exam_step (Answer qid sel) (st, h) = (answerQuestion qid sel st, h)"
| "exam_step Next (st, h) = (nextQuestion st, h)"
| "exam_step Previous (st, h) = (previousQuestion st, h)"
| "exam_step (Complete a bytes now w) (st, h) = completeExam a bytes now w st h"
| "exam_step Reset (st, h) = (resetExam st, h)"
| "exam_step Tick (st, h) = (tick st, h)"
| "exam_step (Jump i) (st, h) = (jumpToQuestion i st, h)"

text \<open>
  The calls the program can make: \<open>generateSecureId\<close> draws exactly sixteen bytes,
  and the page jumps only to the index of one of the rendered question dots.
\<close>

fun exam_event_ok :: "exam_event \<Rightarrow> exam_state \<Rightarrow> bool" where
  "exam_event_ok (Complete a bytes now w) st = (length bytes = 16)"
| "exam_event_ok (Jump i) st =
     (case currentExam st of None \<Rightarrow> False | Some e \<Rightarrow> 0 \<le> i \<and> i < int (length (questions e)))"
| "exam_event_ok ev st = True"

inductive exam_reachable :: "exam_state \<times> history_store \<Rightarrow> bool" where
  init: "exam_reachable (exam_initial persisted, h)"
| step: "exam_reachable (st, h) \<Longrightarrow> exam_event_ok ev st \<Longrightarrow> exam_reachable (exam_step ev (st, h))"


subsection \<open>Runs\<close>

text \<open>A sequence of calls, applied in order, and whether each call is one the program can make.\<close>

fun exam_run :: "exam_event list \<Rightarrow> exam_state \<times> history_store \<Rightarrow> exam_state \<times> history_store" where
  "exam_run [] s = s"
| "exam_run (ev # evs) s = exam_run evs (exam_step ev s)"

fun exam_run_ok :: "exam_event list \<Rightarrow> exam_state \<times> history_store \<Rightarrow> bool" where
  "exam_run_ok [] s = True"
| "exam_run_ok (ev # evs) s = (exam_event_ok ev (fst s) \<and> exam_run_ok evs (exam_step ev s))"

subsection \<open>Invariant and abstraction\<close>

text \<open>
  What the store keeps true between its fields.  The answers of an attempt are keyed
  by question: no two for one question, and each refers to a question of the exam
  with its \<open>isCorrect\<close> flag computed against the first question of that id.
\<close>

definition answers_wf :: "exam \<Rightarrow> user_answer list \<Rightarrow> bool" where
  "answers_wf e as \<longleftrightarrow> distinct (map questionId as) \<and>
     list_all (\<lambda>a. case find (\<lambda>q. question_id q = questionId a) (questions e) of
                     None \<Rightarrow> False
                   | Some q \<Rightarrow> isCorrect a = (correctAnswer q = selectedAnswer a)) as"

definition exam_inv :: "exam_state \<Rightarrow> bool" where
  "exam_inv st \<longleftrightarrow>
     (isExamStarted st \<longleftrightarrow> currentExam st \<noteq> None) \<and>
     (isExamCompleted st \<longrightarrow> currentExam st \<noteq> None \<and> results st \<noteq> None) \<and>
     0 \<le> currentQuestionIndex st \<and>
     (case currentExam st of
        None \<Rightarrow> answers st = [] \<and> currentQuestionIndex st = 0 \<and> timeRemaining st = 0
      | Some e \<Rightarrow>
          (currentQuestionIndex st = 0 \<or> currentQuestionIndex st < int (length (questions e))) \<and>
          answers_wf e (answers st) \<and>
          min 0 (timeLimit e * 60) \<le> timeRemaining st \<and> timeRemaining st \<le> timeLimit e * 60)"

text \<open>The answers as the map from question id to the selected option and its correctness.\<close>

definition answer_map :: "user_answer list \<Rightarrow> string \<rightharpoonup> int \<times> bool" where
  "answer_map as = map_of (map (\<lambda>a. (questionId a, (selectedAnswer a, isCorrect a))) as)"

declare exam_inv_def [inv_simps] answers_wf_def [inv_simps]

subsection \<open>The invariant holds in every reachable state\<close>

lemma exam_generateSecureId_eq: "exam_generateSecureId = generateSecureId"
  by (simp add: fun_eq_iff exam_generateSecureId_def generateSecureId_def)

lemma answers_wf_upsert:
  assumes wf: "answers_wf e as" and q: "find (\<lambda>q. question_id q = qid) (questions e) = Some q"
  shows "answers_wf e (if 0 \<le> js_findIndex (\<lambda>a. questionId a = qid) as
            then as[nat (js_findIndex (\<lambda>a. questionId a = qid) as) :=
                    \<lparr>questionId = qid, selectedAnswer = sel, isCorrect = (correctAnswer q = sel)\<rparr>]
            else as @ [\<lparr>questionId = qid, selectedAnswer = sel, isCorrect = (correctAnswer q = sel)\<rparr>])"
    (is "answers_wf e (if _ then as[_ := ?a] else _)")
proof -
  have new: "case find (\<lambda>q. question_id q = questionId ?a) (questions e) of None \<Rightarrow> False
               | Some q \<Rightarrow> isCorrect ?a = (correctAnswer q = selectedAnswer ?a)"
    using q by simp
  show ?thesis
  proof (cases "find_idx (\<lambda>a. questionId a = qid) as")
    case None
    then have "\<forall>a\<in>set as. questionId a \<noteq> qid" by (simp add: find_idx_None_iff)
    with wf new None show ?thesis
      by (auto simp: answers_wf_def js_findIndex_def)
  next
    case (Some i)
    note i = find_idx_SomeD [OF Some]
    have "map questionId as ! i = qid" using i by simp
    then have "(map questionId as)[i := qid] = map questionId as" by (metis list_update_id)
    then have "map questionId (as[i := ?a]) = map questionId as" by (simp add: map_update)
    moreover have "set (as[i := ?a]) \<subseteq> insert ?a (set as)" by (rule set_update_subset_insert)
    ultimately show ?thesis using wf new Some
      by (auto simp: answers_wf_def js_findIndex_def list_all_iff)
  qed
qed

lemma answerQuestion_found:
  assumes "currentExam st = Some e" "find (\<lambda>q. question_id q = qid) (questions e) = Some q"
  shows "answerQuestion qid sel st = st\<lparr>answers :=
           (if 0 \<le> js_findIndex (\<lambda>a. questionId a = qid) (answers st)
            then (answers st)[nat (js_findIndex (\<lambda>a. questionId a = qid) (answers st)) :=
                    \<lparr>questionId = qid, selectedAnswer = sel, isCorrect = (correctAnswer q = sel)\<rparr>]
            else answers st @ [\<lparr>questionId = qid, selectedAnswer = sel, isCorrect = (correctAnswer q = sel)\<rparr>])\<rparr>"
  using assms by (simp add: answerQuestion_def Let_def)

lemma answerQuestion_ignored:
  "currentExam st = None \<or> (\<exists>e. currentExam st = Some e \<and> find (\<lambda>q. question_id q = qid) (questions e) = None)
   \<Longrightarrow> answerQuestion qid sel st = st"
  by (auto simp: answerQuestion_def)

lemma exam_inv_initial: "exam_inv (exam_initial r)"
  by (simp add: exam_inv_def exam_initial_def)

lemma exam_inv_startExam: "exam_inv (startExam ex st)"
  by (simp add: exam_inv_def startExam_def answers_wf_def Let_def split: option.split)

lemma exam_inv_answerQuestion:
  assumes "exam_inv st"
  shows "exam_inv (answerQuestion qid sel st)"
proof (cases "currentExam st")
  case None
  then show ?thesis using assms by (simp add: answerQuestion_ignored)
next
  case (Some e)
  show ?thesis
  proof (cases "find (\<lambda>q. question_id q = qid) (questions e)")
    case None
    then show ?thesis using assms Some by (simp add: answerQuestion_ignored)
  next
    case (Some q)
    have "answers_wf e (answers st)" using assms \<open>currentExam st = Some e\<close> by (simp add: exam_inv_def)
    from answers_wf_upsert [OF this Some, of sel] assms \<open>currentExam st = Some e\<close> Some
    show ?thesis by (simp add: answerQuestion_found exam_inv_def)
  qed
qed

lemma exam_inv_nextQuestion: "exam_inv st \<Longrightarrow> exam_inv (nextQuestion st)"
  by (auto simp: exam_inv_def nextQuestion_def split: option.splits)

lemma exam_inv_previousQuestion: "exam_inv st \<Longrightarrow> exam_inv (previousQuestion st)"
  by (auto simp: exam_inv_def previousQuestion_def split: option.splits)

lemma exam_inv_completeExam: "exam_inv st \<Longrightarrow> exam_inv (fst (completeExam a bytes now w st h))"
  by (auto simp: exam_inv_def completeExam_def Let_def split: option.splits)

lemma exam_inv_resetExam: "exam_inv (resetExam st)"
  by (simp add: exam_inv_def resetExam_def)

lemma exam_inv_tick: "exam_inv st \<Longrightarrow> exam_inv (tick st)"
  by (auto simp: exam_inv_def tick_def split: option.splits)

lemma exam_inv_jumpToQuestion:
  "exam_inv st \<Longrightarrow> exam_event_ok (Jump i) st \<Longrightarrow> exam_inv (jumpToQuestion i st)"
  by (auto simp: exam_inv_def jumpToQuestion_def split: option.splits)

lemma exam_inv_step:
  assumes "exam_inv st" "exam_event_ok ev st"
  shows "exam_inv (fst (exam_step ev (st, h)))"
  using assms
  by (cases ev) (simp_all add: exam_inv_startExam exam_inv_answerQuestion exam_inv_nextQuestion
      exam_inv_previousQuestion exam_inv_completeExam exam_inv_resetExam exam_inv_tick
      exam_inv_jumpToQuestion del: exam_event_ok.simps)

lemma reachable_exam_inv: "exam_reachable s \<Longrightarrow> exam_inv (fst s)"
proof (induction rule: exam_reachable.induct)
  case (init persisted h)
  then show ?case by (simp add: exam_inv_initial)
next
  case (step st h ev)
  then show ?case by (simp add: exam_inv_step)
qed

lemma find_question_SomeD:
  "find (\<lambda>q. question_id q = k) qs = Some q \<Longrightarrow> q \<in> set qs \<and> question_id q = k"
  by (induction qs) (auto split: if_splits)

lemma answers_wf_length:
  assumes "answers_wf e as"
  shows "length as \<le> length (questions e)"
proof -
  from assms have d: "distinct (map questionId as)" by (simp add: answers_wf_def)
  have "set (map questionId as) \<subseteq> set (map question_id (questions e))"
  proof
    fix k assume "k \<in> set (map questionId as)"
    then obtain a where a: "a \<in> set as" "questionId a = k" by auto
    with assms obtain q where "find (\<lambda>q. question_id q = k) (questions e) = Some q"
      by (auto simp: answers_wf_def list_all_iff split: option.splits)
    then show "k \<in> set (map question_id (questions e))"
      by (auto dest: find_question_SomeD)
  qed
  then have "card (set (map questionId as)) \<le> card (set (map question_id (questions e)))"
    by (simp add: card_mono)
  also have "\<dots> \<le> length (questions e)"
    using card_length [of "map question_id (questions e)"] by simp
  finally show ?thesis using distinct_card [OF d] by simp
qed

text \<open>
  C2. The result \<open>completeExam\<close> builds in any reachable state is consistent: the
  correct count lies between 0 and the question count, correct plus wrong is the
  total, the score is an integer percentage in \<open>[0, 100]\<close> (\<open>NaN\<close> exactly when the
  exam has no questions), and the time spent is non-negative and, for a
  non-negative limit, at most the allotment.
\<close>

theorem completeExam_result_sound:
  assumes "exam_reachable (st, h)" "currentExam st = Some e"
    and "results (fst (completeExam a bytes now w st h)) = Some r"
  shows "0 \<le> correctAnswers r \<and> correctAnswers r \<le> totalQuestions r \<and>
         correctAnswers r + wrongAnswers r = totalQuestions r \<and>
         (0 < totalQuestions r \<longrightarrow> (\<exists>k. score r = Num k \<and> 0 \<le> k \<and> k \<le> 100)) \<and>
         (totalQuestions r = 0 \<longrightarrow> score r = NaN) \<and>
         0 \<le> timeSpent r \<and> (0 \<le> timeLimit e \<longrightarrow> timeSpent r \<le> timeLimit e * 60)"
proof -
  have inv: "exam_inv st" using reachable_exam_inv [OF assms(1)] by simp
  then have wf: "answers_wf e (answers st)"
    and tr: "min 0 (timeLimit e * 60) \<le> timeRemaining st" "timeRemaining st \<le> timeLimit e * 60"
    using assms(2) by (simp_all add: exam_inv_def)
  have r: "r = completeExam_result a bytes now e st"
    using assms(2,3) by (simp add: completeExam_def Let_def)
  let ?c = "int (length (filter isCorrect (answers st)))" and ?t = "int (length (questions e))"
  have ct: "?c \<le> ?t"
    using answers_wf_length [OF wf] length_filter_le [of isCorrect "answers st"] by linarith
  have score: "0 < ?t \<longrightarrow> (\<exists>k. js_percent ?c ?t = Num k \<and> 0 \<le> k \<and> k \<le> 100)"
  proof
    assume t: "0 < ?t"
    then have p: "js_percent ?c ?t = Num ((200 * ?c + ?t) div (2 * ?t))" by (rule js_percent_pos)
    with js_percent_bounds [OF t _ ct p] show "\<exists>k. js_percent ?c ?t = Num k \<and> 0 \<le> k \<and> k \<le> 100"
      by simp
  qed
  have nan: "?t = 0 \<longrightarrow> js_percent ?c ?t = NaN"
  proof
    assume t0: "?t = 0"
    with ct have "?c = 0" by simp
    with t0 show "js_percent ?c ?t = NaN" by (simp add: js_percent_def)
  qed
  have rr: "correctAnswers r = ?c" "totalQuestions r = ?t" "wrongAnswers r = ?t - ?c"
    "score r = js_percent ?c ?t" "timeSpent r = timeLimit e * 60 - timeRemaining st"
    by (simp_all add: r completeExam_result_def Let_def)
  show ?thesis
    unfolding rr using ct score nan tr by auto
qed

text \<open>
  C3. Answering a question of the bound exam updates the answers, read as a map from
  question id to the selected option and its correctness, at that question only
  (re-answering replaces, never appends a second entry), with correctness computed
  against the question's correct index; no other field of the state changes.
\<close>

theorem answerQuestion_refines:
  assumes "currentExam st = Some e" "find (\<lambda>q. question_id q = qid) (questions e) = Some q"
  shows "answer_map (answers (answerQuestion qid sel st)) =
           (answer_map (answers st))(qid \<mapsto> (sel, correctAnswer q = sel)) \<and>
         answerQuestion qid sel st = st\<lparr>answers := answers (answerQuestion qid sel st)\<rparr>"
proof -
  let ?f = "\<lambda>a. (questionId a, (selectedAnswer a, isCorrect a))"
  let ?a = "\<lparr>questionId = qid, selectedAnswer = sel, isCorrect = (correctAnswer q = sel)\<rparr>"
  have eq: "answerQuestion qid sel st = st\<lparr>answers := answers (answerQuestion qid sel st)\<rparr>"
    using assms by (simp add: answerQuestion_found)
  have "answer_map (answers (answerQuestion qid sel st)) =
          (answer_map (answers st))(qid \<mapsto> (sel, correctAnswer q = sel))"
  proof (cases "find_idx (\<lambda>a. questionId a = qid) (answers st)")
    case None
    then have "qid \<notin> fst ` set (map ?f (answers st))"
      by (auto simp: find_idx_None_iff)
    with None assms show ?thesis
      by (simp add: answerQuestion_found answer_map_def js_findIndex_def map_of_append_new
          del: map_of_append)
  next
    case (Some i)
    note i = find_idx_SomeD [OF Some]
    have "map ?f ((answers st)[i := ?a]) = (map ?f (answers st))[i := (qid, (sel, correctAnswer q = sel))]"
      by (simp add: map_update)
    moreover have "map_of ((map ?f (answers st))[i := (qid, (sel, correctAnswer q = sel))]) =
        (map_of (map ?f (answers st)))(qid \<mapsto> (sel, correctAnswer q = sel))"
      using i by (intro map_of_update_first) auto
    ultimately show ?thesis using Some assms
      by (simp add: answerQuestion_found answer_map_def js_findIndex_def)
  qed
  with eq show ?thesis by blast
qed

lemma previousQuestion_funpow:
  assumes "0 \<le> currentQuestionIndex st"
  shows "(previousQuestion ^^ n) st = st\<lparr>currentQuestionIndex := max 0 (currentQuestionIndex st - int n)\<rparr>"
proof (induction n)
  case 0
  then show ?case using assms by simp
next
  case (Suc n)
  then show ?case by (auto simp: previousQuestion_def)
qed

lemma exam_reachable_run:
  "exam_reachable s \<Longrightarrow> exam_run_ok evs s \<Longrightarrow> exam_reachable (exam_run evs s)"
proof (induction evs arbitrary: s)
  case Nil
  then show ?case by simp
next
  case (Cons ev evs)
  obtain st h where s: "s = (st, h)" by fastforce
  with Cons.prems have "exam_reachable (exam_step ev (st, h))"
    by (auto intro: exam_reachable.step)
  with Cons s show ?case by simp
qed

lemma completeExam_result_frame:
  "completeExam_result a bytes now e (st\<lparr>isExamCompleted := c, results := r\<rparr>) =
   completeExam_result a bytes now e st"
  by (simp add: completeExam_result_def)

lemma completeExam_completes:
  "currentExam st = Some e \<Longrightarrow>
   completeExam a bytes now w st h =
     (st\<lparr>isExamCompleted := True, results := Some (completeExam_result a bytes now e st)\<rparr>,
      saveExamResult w (completeExam_result a bytes now e st) h)"
  by (simp add: completeExam_def Let_def)

lemma exam_run_append: "exam_run (xs @ ys) s = exam_run ys (exam_run xs s)"
  by (induction xs arbitrary: s) simp_all

lemma exam_run_ticks: "exam_run (replicate n Tick) (st, h) = ((tick ^^ n) st, h)"
  by (induction n arbitrary: st) (simp_all add: funpow_Suc_right del: funpow.simps)

lemma tick_funpow:
  assumes "\<not> isExamCompleted st" "0 \<le> timeRemaining st"
  shows "(tick ^^ n) st = st\<lparr>timeRemaining := max 0 (timeRemaining st - int n)\<rparr>"
proof (induction n)
  case 0
  then show ?case using assms by simp
next
  case (Suc n)
  then show ?case using assms by (auto simp: tick_def)
qed

subsection \<open>Properties of the store\<close>

text \<open>
  C1. In every state the program can reach, the flags agree with the bound exam
  (started exactly when an exam is bound, completed only with an exam and a result),
  the question index stays in \<open>[0, N-1]\<close> (or is 0 for an exam without questions),
  no question has two answers, every answer refers to a question of the exam and its
  \<open>isCorrect\<close> flag is the comparison with that question's correct index, and the
  remaining time lies between 0 and the allotment \<open>timeLimit * 60\<close>.
\<close>

theorem exam_reachable_invariants:
  assumes "exam_reachable (st, h)"
  shows "(isExamStarted st \<longleftrightarrow> currentExam st \<noteq> None) \<and>
         (isExamCompleted st \<longrightarrow> results st \<noteq> None) \<and>
         (case currentExam st of
            None \<Rightarrow> answers st = [] \<and> currentQuestionIndex st = 0
          | Some e \<Rightarrow>
              0 \<le> currentQuestionIndex st \<and>
              (currentQuestionIndex st = 0 \<or> currentQuestionIndex st < int (length (questions e))) \<and>
              distinct (map questionId (answers st)) \<and>
              (\<forall>a\<in>set (answers st). \<exists>q\<in>set (questions e).
                  question_id q = questionId a \<and> isCorrect a = (correctAnswer q = selectedAnswer a)) \<and>
              timeRemaining st \<le> timeLimit e * 60 \<and>
              (0 \<le> timeLimit e \<longrightarrow> 0 \<le> timeRemaining st))"
proof -
  have inv: "exam_inv st" using reachable_exam_inv [OF assms] by simp
  have ans: "\<exists>q\<in>set (questions e). question_id q = questionId a \<and> isCorrect a = (correctAnswer q = selectedAnswer a)"
    if "answers_wf e (answers st)" "a \<in> set (answers st)" for e a
  proof -
    from that obtain q where q: "find (\<lambda>q. question_id q = questionId a) (questions e) = Some q"
      and c: "isCorrect a = (correctAnswer q = selectedAnswer a)"
      by (auto simp: answers_wf_def list_all_iff split: option.splits)
    from find_question_SomeD [OF q] c show ?thesis by blast
  qed
  show ?thesis
    using inv ans by (auto simp: exam_inv_def answers_wf_def split: option.splits)
qed

theorem exam_reachable_invariants_witness:
  "exam_reachable (startExam (Some sampleExam) (exam_initial None), NoHistory) \<and>
   currentQuestionIndex (startExam (Some sampleExam) (exam_initial None)) = 0 \<and>
   timeRemaining (startExam (Some sampleExam) (exam_initial None)) = 900"
proof -
  have r: "exam_reachable (startExam (Some sampleExam) (exam_initial None), NoHistory)"
    using exam_reachable.step [OF exam_reachable.init [of None NoHistory], of "Start (Some sampleExam)"]
    by simp
  from exam_reachable_invariants [OF r] r show ?thesis
    by (simp add: startExam_def)
qed

theorem completeExam_result_sound_witness:
  "exam_reachable (startExam (Some sampleExam) (exam_initial None), NoHistory) \<and>
   currentExam (startExam (Some sampleExam) (exam_initial None)) = Some sampleExam \<and>
   correctAnswers (completeExam_result \<lparr>user = None, isAuthenticated = False, isLoading = False, error = None\<rparr>
      (replicate 16 0) ''2026-01-01T00:00:00.000Z'' sampleExam (startExam (Some sampleExam) (exam_initial None)))
   \<le> totalQuestions (completeExam_result \<lparr>user = None, isAuthenticated = False, isLoading = False, error = None\<rparr>
      (replicate 16 0) ''2026-01-01T00:00:00.000Z'' sampleExam (startExam (Some sampleExam) (exam_initial None)))"
proof -
  let ?a = "\<lparr>user = None, isAuthenticated = False, isLoading = False, error = None\<rparr>"
  let ?st = "startExam (Some sampleExam) (exam_initial None)"
  have r: "exam_reachable (?st, NoHistory)"
    using exam_reachable.step [OF exam_reachable.init [of None NoHistory], of "Start (Some sampleExam)"]
    by simp
  have e: "currentExam ?st = Some sampleExam" by (simp add: startExam_def)
  have res: "results (fst (completeExam ?a (replicate 16 0) ''2026-01-01T00:00:00.000Z'' True ?st NoHistory)) =
      Some (completeExam_result ?a (replicate 16 0) ''2026-01-01T00:00:00.000Z'' sampleExam ?st)"
    using e by (simp add: completeExam_completes)
  from completeExam_result_sound [OF r e res] r e show ?thesis by simp
qed

theorem answerQuestion_refines_witness:
  "answer_map (answers (answerQuestion ''3'' 2 (startExam (Some sampleExam) (exam_initial None)))) ''3'' =
   Some (2, False)"
proof -
  let ?st = "startExam (Some sampleExam) (exam_initial None)"
  have e: "currentExam ?st = Some sampleExam" by (simp add: startExam_def)
  have q: "find (\<lambda>q. question_id q = ''3'') (questions sampleExam) = Some (sampleQuestions ! 2)"
    by (simp add: sampleExam_def sampleQuestions_def)
  have "correctAnswer (sampleQuestions ! 2) = 0" by (simp add: sampleQuestions_def)
  with answerQuestion_refines [OF e q, of 2] show ?thesis by simp
qed

text \<open>
  C4. \<open>completeExam\<close> has no guard on \<open>isExamCompleted\<close>: calling it a second time
  on a completed attempt (the page's auto-complete effect and the confirm button can
  both fire) appends a second history entry for the same attempt, identical to the
  first but for its fresh id and timestamp.
\<close>

theorem completeExam_twice_duplicates:
  assumes "currentExam st = Some e" "read_history h = Some xs" "length xs + 2 \<le> 100"
  shows "isExamCompleted (fst (completeExam a b1 n1 True st h)) \<and>
         snd (completeExam a b2 n2 True (fst (completeExam a b1 n1 True st h)) (snd (completeExam a b1 n1 True st h))) =
           StoredResults (xs @ [completeExam_result a b1 n1 e st,
                                (completeExam_result a b1 n1 e st)\<lparr>result_id := exam_generateSecureId b2, completedAt := n2\<rparr>])"
proof -
  let ?r1 = "completeExam_result a b1 n1 e st"
  have h1: "saveExamResult True ?r1 h = StoredResults (xs @ [?r1])"
    using assms(2,3) by (simp add: saveExamResult_written)
  have "completeExam_result a b2 n2 e (st\<lparr>isExamCompleted := True, results := Some ?r1\<rparr>) =
        ?r1\<lparr>result_id := exam_generateSecureId b2, completedAt := n2\<rparr>"
    by (simp add: completeExam_result_def Let_def)
  moreover have "saveExamResult True r2 (StoredResults (xs @ [?r1])) = StoredResults (xs @ [?r1, r2])" for r2
    using assms(3) by (simp add: saveExamResult_written)
  ultimately show ?thesis using assms(1) h1 by (simp add: completeExam_completes)
qed

theorem completeExam_twice_duplicates_witness:
  "snd (completeExam \<lparr>user = None, isAuthenticated = False, isLoading = False, error = None\<rparr> (replicate 16 1) ''t2'' True
     (fst (completeExam \<lparr>user = None, isAuthenticated = False, isLoading = False, error = None\<rparr> (replicate 16 0) ''t1'' True
        (startExam (Some sampleExam) (exam_initial None)) NoHistory))
     (snd (completeExam \<lparr>user = None, isAuthenticated = False, isLoading = False, error = None\<rparr> (replicate 16 0) ''t1'' True
        (startExam (Some sampleExam) (exam_initial None)) NoHistory))) =
   StoredResults [completeExam_result \<lparr>user = None, isAuthenticated = False, isLoading = False, error = None\<rparr>
                    (replicate 16 0) ''t1'' sampleExam (startExam (Some sampleExam) (exam_initial None)),
                  (completeExam_result \<lparr>user = None, isAuthenticated = False, isLoading = False, error = None\<rparr>
                    (replicate 16 0) ''t1'' sampleExam (startExam (Some sampleExam) (exam_initial None)))
                    \<lparr>result_id := exam_generateSecureId (replicate 16 1), completedAt := ''t2''\<rparr>]"
proof -
  have e: "currentExam (startExam (Some sampleExam) (exam_initial None)) = Some sampleExam"
    by (simp add: startExam_def)
  have "read_history NoHistory = Some []" by simp
  from completeExam_twice_duplicates [OF e this] show ?thesis by simp
qed

text \<open>
  C5. Completion is not terminal in the code, contrary to the data model's "no further
  answer/navigate mutation": in a reachable completed attempt \<open>answerQuestion\<close>
  still records an answer and \<open>nextQuestion\<close> still moves the index.
\<close>

theorem completed_not_terminal:
  "let s = completeExam \<lparr>user = None, isAuthenticated = False, isLoading = False, error = None\<rparr>
             (replicate 16 0) ''t'' True (startExam (Some sampleExam) (exam_initial None)) NoHistory
   in exam_reachable s \<and> isExamCompleted (fst s) \<and>
      answers (answerQuestion ''1'' 0 (fst s)) \<noteq> answers (fst s) \<and>
      currentQuestionIndex (nextQuestion (fst s)) \<noteq> currentQuestionIndex (fst s)"
proof -
  let ?a = "\<lparr>user = None, isAuthenticated = False, isLoading = False, error = None\<rparr>"
  let ?st = "startExam (Some sampleExam) (exam_initial None)"
  have r: "exam_reachable (?st, NoHistory)"
    using exam_reachable.step [OF exam_reachable.init [of None NoHistory], of "Start (Some sampleExam)"]
    by simp
  have "exam_reachable (exam_step (Complete ?a (replicate 16 0) ''t'' True) (?st, NoHistory))"
    by (rule exam_reachable.step [OF r]) simp
  then show ?thesis
    by (simp add: completeExam_def startExam_def exam_initial_def answerQuestion_def nextQuestion_def
        sampleExam_def sampleQuestions_def js_findIndex_def Let_def)
qed

text \<open>
  C6. \<open>nextQuestion\<close> called \<open>n\<close> times moves the index up by \<open>n\<close> but never past the
  last question, and does nothing without a bound exam; from index 0 on an exam of
  \<open>N\<close> questions, \<open>N\<close> calls leave it at \<open>N - 1\<close>.
\<close>

theorem nextQuestion_iterate:
  "(nextQuestion ^^ n) st =
     (case currentExam st of
        None \<Rightarrow> st
      | Some e \<Rightarrow> st\<lparr>currentQuestionIndex :=
          max (currentQuestionIndex st) (min (currentQuestionIndex st + int n) (int (length (questions e)) - 1))\<rparr>)"
proof (induction n)
  case 0
  then show ?case by (simp split: option.split)
next
  case (Suc n)
  then show ?case by (auto simp: nextQuestion_def split: option.splits)
qed

text \<open>
  C7. \<open>tick\<close> called \<open>n\<close> times counts the remaining time down by \<open>n\<close> seconds and
  stops at 0; on a completed attempt, or with no time left, it changes nothing.
\<close>

theorem tick_iterate:
  "(tick ^^ n) st =
     (if isExamCompleted st \<or> timeRemaining st \<le> 0 then st
      else st\<lparr>timeRemaining := max 0 (timeRemaining st - int n)\<rparr>)"
proof (induction n)
  case 0
  then show ?case by simp
next
  case (Suc n)
  then show ?case by (auto simp: tick_def)
qed

text \<open>
  C8. A failing history write (unreadable stored text, or \<open>setItem\<close> throwing) is
  swallowed: the attempt is still marked completed with its result, and the stored
  history is left as it was.
\<close>

theorem completeExam_persist_failure:
  assumes "currentExam st = Some e" "\<not> w \<or> read_history h = None"
  shows "completeExam a bytes now w st h =
           (st\<lparr>isExamCompleted := True, results := Some (completeExam_result a bytes now e st)\<rparr>, h)"
  using assms by (auto simp: completeExam_completes saveExamResult_failed_read saveExamResult_failed_write)

theorem completeExam_persist_failure_witness:
  "completeExam \<lparr>user = None, isAuthenticated = False, isLoading = False, error = None\<rparr> (replicate 16 0) ''t'' True
     (startExam (Some sampleExam) (exam_initial None)) Unreadable =
   ((startExam (Some sampleExam) (exam_initial None))\<lparr>isExamCompleted := True,
      results := Some (completeExam_result \<lparr>user = None, isAuthenticated = False, isLoading = False, error = None\<rparr>
        (replicate 16 0) ''t'' sampleExam (startExam (Some sampleExam) (exam_initial None)))\<rparr>, Unreadable)"
proof -
  have e: "currentExam (startExam (Some sampleExam) (exam_initial None)) = Some sampleExam"
    by (simp add: startExam_def)
  have "\<not> True \<or> read_history Unreadable = None" by simp
  from completeExam_persist_failure [OF e this] show ?thesis .
qed

text \<open>
  Scenario 7 of the specification: start the sample exam (10 questions, 15 minutes,
  passing score 70), answer every question with its correct option, complete: the
  result has score 100, 10 correct and 0 wrong answers, and passes.
\<close>

theorem scenario_all_correct:
  "let s = exam_run ([Start (Some sampleExam)] @
             map (\<lambda>q. Answer (question_id q) (correctAnswer q)) sampleQuestions @
             [Complete a bytes now w]) (exam_initial None, h)
   in \<exists>r. results (fst s) = Some r \<and> score r = Num 100 \<and> correctAnswers r = 10 \<and>
          wrongAnswers r = 0 \<and> js_ge (score r) (passingScore sampleExam)"
  by (simp add: exam_run_append startExam_def exam_initial_def answerQuestion_def completeExam_def
      completeExam_result_def sampleExam_def sampleQuestions_def js_findIndex_def Let_def)

text \<open>
  Scenario 8 of the specification: the same exam with only questions 1 to 7
  answered, correctly, and 8 to 10 left open: 7 correct, 3 wrong, score 70, exactly the
  passing score, which passes.
\<close>

theorem scenario_seven_correct:
  "let s = exam_run ([Start (Some sampleExam)] @
             map (\<lambda>q. Answer (question_id q) (correctAnswer q)) (take 7 sampleQuestions) @
             [Complete a bytes now w]) (exam_initial None, h)
   in \<exists>r. results (fst s) = Some r \<and> score r = Num 70 \<and> correctAnswers r = 7 \<and>
          wrongAnswers r = 3 \<and> js_ge (score r) (passingScore sampleExam)"
  by (simp add: exam_run_append startExam_def exam_initial_def answerQuestion_def completeExam_def
      completeExam_result_def sampleExam_def sampleQuestions_def js_findIndex_def Let_def)

text \<open>
  Scenario 9 of the specification: after starting the sample exam, 900 ticks
  (15 minutes) bring the remaining time to 0, and any further ticks leave the whole
  state unchanged.
\<close>

theorem scenario_timer_runs_out:
  "timeRemaining (fst (exam_run (Start (Some sampleExam) # replicate 900 Tick) (exam_initial None, h))) = 0 \<and>
   exam_run (Start (Some sampleExam) # replicate (900 + k) Tick) (exam_initial None, h) =
   exam_run (Start (Some sampleExam) # replicate 900 Tick) (exam_initial None, h)"
proof -
  let ?st = "startExam (Some sampleExam) (exam_initial None)"
  have st: "\<not> isExamCompleted ?st" "timeRemaining ?st = 900"
    by (simp_all add: startExam_def exam_initial_def)
  have n: "(tick ^^ n) ?st = ?st\<lparr>timeRemaining := max 0 (900 - int n)\<rparr>" for n
    using tick_funpow [of ?st n] st by simp
  show ?thesis by (simp add: exam_run_ticks n)
qed



end
