(* ===== verification/AuthStore.thy ===== *)
theory AuthStore
  imports AuthTypes SecureId "HOL-Library.Char_ord"
begin

text \<open>
  The session store \<open>useAuthStore\<close> of \<open>store/authStore.ts\<close> and the helpers
  defined there: the e-mail pattern \<open>EMAIL_REGEX\<close>, \<open>validatePasswordStrength\<close>,
  \<open>sanitizeInput\<close>, the stub \<open>verifyPassword\<close> and the table \<open>DEMO_USERS\<close>.
  Character classes are the ASCII ranges of the regular expressions.
  \<open>login\<close> is \<open>async\<close>: what it does before its \<open>await\<close> of an 800 ms timer
  (\<open>login_begin\<close>) and what it does after (\<open>login_finish\<close>) are separate steps,
  and other calls into the store (a \<open>logout\<close>, another login) may run in between.
  The later \<open>await verifyPassword(...)\<close> resolves within the same macrotask, so no
  user event interleaves there.  The \<open>persist\<close> middleware keeps \<open>user\<close> and
  \<open>isAuthenticated\<close>; a page reload (\<open>auth_rehydrate\<close>) restores those two fields
  over the defaults and drops every pending login.
\<close>

subsection \<open>Character classes and the e-mail pattern\<close>

definition is_upper :: "char \<Rightarrow> bool" where
  "is_upper c \<longleftrightarrow> CHR ''A'' \<le> c \<and> c \<le> CHR ''Z''"

definition is_lower :: "char \<Rightarrow> bool" where
  "is_lower c \<longleftrightarrow> CHR ''a'' \<le> c \<and> c \<le> CHR ''z''"

definition is_digit :: "char \<Rightarrow> bool" where
  "is_digit c \<longleftrightarrow> CHR ''0'' \<le> c \<and> c \<le> CHR ''9''"

definition is_letter :: "char \<Rightarrow> bool" where
  "is_letter c \<longleftrightarrow> is_upper c \<or> is_lower c"

definition email_local_char :: "char \<Rightarrow> bool" where
  "email_local_char c \<longleftrightarrow> is_letter c \<or> is_digit c \<or> c \<in> set ''._%+-''"

definition email_domain_char :: "char \<Rightarrow> bool" where
  "email_domain_char c \<longleftrightarrow> is_letter c \<or> is_digit c \<or> c \<in> set ''.-''"

text \<open>
  \<open>EMAIL_REGEX.test(s)\<close> for \<open>/^[a-zA-Z0-9._%+-]+@[a-zA-Z0-9.-]+\\.[a-zA-Z]{2,}$/\<close>,
  as a scan: the local part runs to the first \<open>@\<close> (the local class has no
  \<open>@\<close>), the top-level domain is what follows the last dot (it has only letters).
\<close>

definition EMAIL_REGEX_test :: "string \<Rightarrow> bool" where
  "EMAIL_REGEX_test s =
     (let local = takeWhile (\<lambda>c. c \<noteq> CHR ''@'') s;
          rest = dropWhile (\<lambda>c. c \<noteq> CHR ''@'') s
      in case rest of
           [] \<Rightarrow> False
         | _ # domain \<Rightarrow>
             (let tld = rev (takeWhile (\<lambda>c. c \<noteq> CHR ''.'') (rev domain));
                  d = take (length domain - length tld - 1) domain
              in local \<noteq> [] \<and> list_all email_local_char local \<and>
                 length tld < length domain \<and> d \<noteq> [] \<and> list_all email_domain_char d \<and>
                 2 \<le> length tld \<and> list_all is_letter tld))"

text \<open>The language of the regular expression, for the equivalence proof.\<close>

definition email_regex_lang :: "string \<Rightarrow> bool" where
  "email_regex_lang s \<longleftrightarrow>
     (\<exists>l d t. s = l @ CHR ''@'' # d @ CHR ''.'' # t \<and>
        l \<noteq> [] \<and> list_all email_local_char l \<and> d \<noteq> [] \<and> list_all email_domain_char d \<and>
        2 \<le> length t \<and> list_all is_letter t)"

subsection \<open>Password strength, sanitizer, demo users\<close>

record pw_validation =
  valid :: bool
  message :: string

text \<open>The class \<open>[@$!%*?&.,#%^&*()_+\\-=\\[\\]{};':"\\\\|,.<>/`~]\<close>, character by character.\<close>

definition special_chars :: string where
  "special_chars = ''@$!%*?&.,#%^&*()_+-=[]{};'' @ [CHR 0x27] @ '':'' @ [CHR 0x22, CHR 0x5C] @ ''|,.<>/`~''"

definition validatePasswordStrength :: "string \<Rightarrow> pw_validation" where
  "validatePasswordStrength password =
     (if length password < 12
      then \<lparr>valid = False, message = ''La contrasena debe tener al menos 12 caracteres''\<rparr>
      else if \<not> (\<exists>c\<in>set password. is_upper c)
      then \<lparr>valid = False, message = ''La contrasena debe contener al menos una mayuscula''\<rparr>
      else if \<not> (\<exists>c\<in>set password. is_lower c)
      then \<lparr>valid = False, message = ''La contrasena debe contener al menos una minuscula''\<rparr>
      else if \<not> (\<exists>c\<in>set password. is_digit c)
      then \<lparr>valid = False, message = ''La contrasena debe contener al menos un numero''\<rparr>
      else if \<not> (\<exists>c\<in>set password. c \<in> set special_chars)
      then \<lparr>valid = False, message = ''La contrasena debe contener al menos un caracter especial''\<rparr>
      else \<lparr>valid = True, message = ''Contrasena valida''\<rparr>)"

text \<open>The six chained \<open>replace\<close> calls, ampersand first.\<close>

definition sanitizeInput :: "string \<Rightarrow> string" where
  "sanitizeInput input =
     js_replace_char CHR ''/'' ''&#x2F;''
      (js_replace_char (CHR 0x27) ''&#x27;''
       (js_replace_char (CHR 0x22) ''&quot;''
        (js_replace_char CHR ''>'' ''&gt;''
         (js_replace_char CHR ''<'' ''&lt;''
          (js_replace_char CHR ''&'' ''&amp;'' input)))))"

definition DEMO_USERS_HASH :: string where
  "DEMO_USERS_HASH = ''$2b$12$LQv3c1yqBWVHxkd0LHAkCOYz6TtxMQJqhN8/X4aYJGYxMnC6C5.Oy''"

definition verifyPassword :: "string \<Rightarrow> string \<Rightarrow> bool" where
  "verifyPassword password hash = (valid (validatePasswordStrength password) \<and> 12 \<le> length password)"

text \<open>
  \<open>DEMO_USERS: Record<string, Omit<User, 'id'>>\<close>: the entries are users whose
  \<open>user_id\<close> is left empty, to be set at login.
\<close>

definition DEMO_USERS :: "string \<rightharpoonup> user" where
  "DEMO_USERS = map_of
     [(''demo@gnp.com'', \<lparr>user_id = [], name = ''Juan Perez'', email = ''demo@gnp.com'',
                          company = ''GNP'', role = Agent, avatar = None\<rparr>),
      (''demo@axa.com'', \<lparr>user_id = [], name = ''Maria Garcia'', email = ''demo@axa.com'',
                          company = ''AXA'', role = Agent, avatar = None\<rparr>),
      (''demo@banorte.com'', \<lparr>user_id = [], name = ''Carlos Lopez'', email = ''demo@banorte.com'',
                              company = ''Banorte'', role = Supervisor, avatar = None\<rparr>)]"

subsection \<open>The store\<close>

definition auth_initial :: auth_state where
  "auth_initial = \<lparr>user = None, isAuthenticated = False, isLoading = False, error = None\<rparr>"

text \<open>
  \<open>login\<close> up to its first \<open>await\<close>: the flags are set, then the two checks run;
  a failing check is a thrown \<open>Error\<close> whose message the \<open>catch\<close> sanitizes into
  \<open>error\<close>.  The boolean is whether the call is still running (awaiting its timer).
\<close>

definition login_begin :: "login_credentials \<Rightarrow> auth_state \<Rightarrow> auth_state \<times> bool" where
  "login_begin credentials st =
     (let st1 = st\<lparr>isLoading := True, error := None\<rparr>
      in if \<not> EMAIL_REGEX_test (cred_email credentials)
         then (st1\<lparr>error := Some (sanitizeInput ''Formato de email invalido''), isLoading := False\<rparr>, False)
         else (let passwordValidation = validatePasswordStrength (cred_password credentials)
               in if \<not> valid passwordValidation
                  then (st1\<lparr>error := Some (sanitizeInput (message passwordValidation)), isLoading := False\<rparr>, False)
                  else (st1, True)))"

text \<open>\<open>login\<close> after the timer: the demo lookup, the stub check, the new user.\<close>

definition login_finish :: "login_credentials \<Rightarrow> 8 word list \<Rightarrow> auth_state \<Rightarrow> auth_state" where
  "login_finish credentials bytes st =
     (let demoUser = DEMO_USERS (cred_email credentials)
      in if demoUser = None \<and> \<not> verifyPassword (cred_password credentials) DEMO_USERS_HASH
         then st\<lparr>error := Some (sanitizeInput ''Credenciales invalidas''), isLoading := False\<rparr>
         else (let u = (case demoUser of
                          Some d \<Rightarrow> d\<lparr>user_id := generateSecureId bytes\<rparr>
                        | None \<Rightarrow> \<lparr>user_id = generateSecureId bytes,
                                  name = sanitizeInput (js_split_first CHR ''@'' (cred_email credentials)),
                                  email = sanitizeInput (cred_email credentials),
                                  company = sanitizeInput (cred_company credentials),
                                  role = Agent, avatar = None\<rparr>)
               in st\<lparr>user := Some u, isAuthenticated := True, isLoading := False\<rparr>))"

definition logout :: "auth_state \<Rightarrow> auth_state" where
  "logout st = st\<lparr>user := None, isAuthenticated := False, error := None\<rparr>"

definition clearError :: "auth_state \<Rightarrow> auth_state" where
  "clearError st = st\<lparr>error := None\<rparr>"

definition setLoading :: "bool \<Rightarrow> auth_state \<Rightarrow> auth_state" where
  "setLoading loading st = st\<lparr>isLoading := loading\<rparr>"

definition auth_rehydrate :: "auth_state \<Rightarrow> auth_state" where
  "auth_rehydrate st = auth_initial\<lparr>user := user st, isAuthenticated := isAuthenticated st\<rparr>"

text \<open>A well-formed login of the first demo account, used by the scenarios below.\<close>

definition demo_credentials :: login_credentials where
  "demo_credentials = \<lparr>cred_email = ''demo@gnp.com'', cred_password = ''Capacita#2025x'', cred_company = ''GNP''\<rparr>"

subsection \<open>Calls, interleaving and reachable states\<close>

text \<open>
  The store with the logins still waiting for their timer, oldest first (their timers
  all last 800 ms, so they resume in the order they started).
\<close>

datatype auth_event =
    Login login_credentials
  | LoginResume "8 word list"
  | Logout
  | ClearError
  | SetLoading bool
  | Reload

fun auth_step :: "auth_event \<Rightarrow> auth_state \<times> login_credentials list \<Rightarrow> auth_state \<times> login_credentials list" where
  "auth_step (Login c) (st, pending) =
     (case login_begin c st of (st', running) \<Rightarrow> (st', if running then pending @ [c] else pending))"
| "auth_step (LoginResume bytes) (st, pending) =
     (case pending of [] \<Rightarrow> (st, []) | c # rest \<Rightarrow> (login_finish c bytes st, rest))"
| "auth_step Logout (st, pending) = (logout st, pending)"
| "auth_step ClearError (st, pending) = (clearError st, pending)"
| "auth_step (SetLoading b) (st, pending) = (setLoading b st, pending)"
| "auth_step Reload (st, pending) = (auth_rehydrate st, [])"

fun auth_event_ok :: "auth_event \<Rightarrow> bool" where
  "auth_event_ok (LoginResume bytes) = (length bytes = 16)"
| "auth_event_ok _ = True"

inductive auth_reachable :: "auth_state \<times> login_credentials list \<Rightarrow> bool" where
  init: "auth_reachable (auth_initial, [])"
| step: "auth_reachable s \<Longrightarrow> auth_event_ok ev \<Longrightarrow> auth_reachable (auth_step ev s)"

fun auth_run :: "auth_event list \<Rightarrow> auth_state \<times> login_credentials list \<Rightarrow> auth_state \<times> login_credentials list" where
  "auth_run [] s = s"
| "auth_run (ev # evs) s = auth_run evs (auth_step ev s)"

text \<open>The session invariant: authenticated exactly with a user, whose id is a 32-digit identifier.\<close>

definition auth_inv :: "auth_state \<Rightarrow> bool" where
  "auth_inv st \<longleftrightarrow>
     (isAuthenticated st \<longleftrightarrow> user st \<noteq> None) \<and>
     (\<forall>u. user st = Some u \<longrightarrow> length (user_id u) = 32 \<and> set (user_id u) \<subseteq> set hex_digits)"

text \<open>
  Reference readings of the sanitizer, for its properties: the escape of one
  character, and the decoding of the six entities it writes.
\<close>

definition html_escape_char :: "char \<Rightarrow> string" where
  "html_escape_char c =
     (if c = CHR ''&'' then ''&amp;'' else if c = CHR ''<'' then ''&lt;''
      else if c = CHR ''>'' then ''&gt;'' else if c = CHR 0x22 then ''&quot;''
      else if c = CHR 0x27 then ''&#x27;'' else if c = CHR ''/'' then ''&#x2F;'' else [c])"

definition entity_tails :: "(string \<times> char) list" where
  "entity_tails = [(''amp;'', CHR ''&''), (''lt;'', CHR ''<''), (''gt;'', CHR ''>''),
     (''quot;'', CHR 0x22), (''#x27;'', CHR 0x27), (''#x2F;'', CHR ''/'')]"

fun html_unescape :: "string \<Rightarrow> string" where
  "html_unescape [] = []"
| "html_unescape (c # cs) =
     (if c = CHR ''&'' then
        (case find (\<lambda>(e, x). prefix e cs) entity_tails of
           Some (e, x) \<Rightarrow> x # html_unescape (drop (length e) cs)
         | None \<Rightarrow> c # html_unescape cs)
      else c # html_unescape cs)"

subsection \<open>Properties\<close>

lemma email_local_char_at [simp]: "\<not> email_local_char CHR ''@''"
  by (simp add: email_local_char_def is_letter_def is_upper_def is_lower_def is_digit_def)

lemma is_letter_dot [simp]: "\<not> is_letter CHR ''.''"
  by (simp add: is_letter_def is_upper_def is_lower_def)

lemma split_at_last:
  assumes "c \<notin> set t"
  shows "takeWhile (\<lambda>x. x \<noteq> c) (rev t @ c # ys) = rev t"
proof -
  have "takeWhile (\<lambda>x. x \<noteq> c) (rev t @ c # ys) = rev t @ takeWhile (\<lambda>x. x \<noteq> c) (c # ys)"
    by (rule takeWhile_append2) (use assms in auto)
  then show ?thesis by simp
qed

lemma split_at_last_conv:
  assumes "length (takeWhile (\<lambda>x. x \<noteq> c) (rev xs)) < length xs"
  shows "xs = take (length xs - length (takeWhile (\<lambda>x. x \<noteq> c) (rev xs)) - 1) xs @
              c # rev (takeWhile (\<lambda>x. x \<noteq> c) (rev xs))"
proof -
  define t where "t = takeWhile (\<lambda>x. x \<noteq> c) (rev xs)"
  have "dropWhile (\<lambda>x. x \<noteq> c) (rev xs) \<noteq> []"
  proof
    assume "dropWhile (\<lambda>x. x \<noteq> c) (rev xs) = []"
    then have "t = rev xs" using takeWhile_dropWhile_id [of "\<lambda>x. x \<noteq> c" "rev xs"]
      by (simp add: t_def)
    with assms show False by (simp add: t_def [symmetric])
  qed
  then obtain y r where "dropWhile (\<lambda>x. x \<noteq> c) (rev xs) = y # r"
    by (cases "dropWhile (\<lambda>x. x \<noteq> c) (rev xs)") auto
  then have "rev xs = t @ c # r"
    by (auto simp: dropWhile_eq_Cons_conv t_def)
  then have xs: "xs = rev r @ c # rev t"
    by (metis rev_rev_ident rev_append rev.simps(2) append_assoc append_Cons append_Nil)
  show ?thesis
    unfolding t_def [symmetric] using xs by simp
qed

text \<open>
  The scan \<open>EMAIL_REGEX_test\<close> accepts exactly the language of
  \<open>/^[a-zA-Z0-9._%+-]+@[a-zA-Z0-9.-]+\\.[a-zA-Z]{2,}$/\<close>: a non-empty local part,
  an at sign, a non-empty domain, a dot and a top-level domain of at least two letters.
\<close>

theorem EMAIL_REGEX_test_lang: "EMAIL_REGEX_test s \<longleftrightarrow> email_regex_lang s"
proof
  assume "email_regex_lang s"
  then obtain l d t where s: "s = l @ CHR ''@'' # d @ CHR ''.'' # t"
    and l: "l \<noteq> []" "list_all email_local_char l"
    and d: "d \<noteq> []" "list_all email_domain_char d"
    and t: "2 \<le> length t" "list_all is_letter t"
    unfolding email_regex_lang_def by blast
  from l have "\<forall>x\<in>set l. x \<noteq> CHR ''@''" by (auto simp: list_all_iff)
  then have tw: "takeWhile (\<lambda>c. c \<noteq> CHR ''@'') s = l"
    and dw: "dropWhile (\<lambda>c. c \<noteq> CHR ''@'') s = CHR ''@'' # d @ CHR ''.'' # t"
    by (simp_all add: s takeWhile_append2 dropWhile_append2)
  from t have "CHR ''.'' \<notin> set t" by (auto simp: list_all_iff)
  then have last: "takeWhile (\<lambda>x. x \<noteq> CHR ''.'') (rev t @ CHR ''.'' # rev d) = rev t"
    by (rule split_at_last)
  show "EMAIL_REGEX_test s"
    unfolding EMAIL_REGEX_test_def Let_def tw dw using l d t last by simp
next
  assume test: "EMAIL_REGEX_test s"
  let ?l = "takeWhile (\<lambda>c. c \<noteq> CHR ''@'') s"
  obtain x domain where dw: "dropWhile (\<lambda>c. c \<noteq> CHR ''@'') s = x # domain"
    using test by (auto simp: EMAIL_REGEX_test_def Let_def split: list.splits)
  then have s: "s = ?l @ CHR ''@'' # domain"
    by (auto simp: dropWhile_eq_Cons_conv)
  let ?t = "rev (takeWhile (\<lambda>c. c \<noteq> CHR ''.'') (rev domain))"
  let ?d = "take (length domain - length ?t - 1) domain"
  from test dw have c: "?l \<noteq> []" "list_all email_local_char ?l" "length ?t < length domain"
    "?d \<noteq> []" "list_all email_domain_char ?d" "2 \<le> length ?t" "list_all is_letter ?t"
    by (simp_all add: EMAIL_REGEX_test_def Let_def)
  have "domain = ?d @ CHR ''.'' # ?t"
    using split_at_last_conv [of "CHR ''.''" domain] c(3) by simp
  with s have "s = ?l @ CHR ''@'' # ?d @ CHR ''.'' # ?t" by simp
  with c show "email_regex_lang s"
    unfolding email_regex_lang_def by blast
qed

lemma html_special_cases:
  obtains "x = CHR ''&''" | "x = CHR ''<''" | "x = CHR ''>''" | "x = CHR 0x22" | "x = CHR 0x27"
    | "x = CHR ''/''"
    | "x \<noteq> CHR ''&''" "x \<noteq> CHR ''<''" "x \<noteq> CHR ''>''" "x \<noteq> CHR 0x22"
      "x \<noteq> CHR 0x27" "x \<noteq> CHR ''/''"
  by blast

lemma sanitizeInput_append [simp]: "sanitizeInput (xs @ ys) = sanitizeInput xs @ sanitizeInput ys"
  by (simp add: sanitizeInput_def)

lemma sanitizeInput_char: "sanitizeInput [x] = html_escape_char x"
  by (cases rule: html_special_cases [of x]) (simp_all add: sanitizeInput_def html_escape_char_def)

lemma sanitizeInput_single_pass: "sanitizeInput s = concat (map html_escape_char s)"
proof (induction s)
  case Nil
  then show ?case by (simp add: sanitizeInput_def)
next
  case (Cons x s)
  have "sanitizeInput (x # s) = sanitizeInput [x] @ sanitizeInput s"
    using sanitizeInput_append [of "[x]" s] by simp
  with Cons show ?case by (simp add: sanitizeInput_char)
qed

lemma html_unescape_char: "html_unescape (html_escape_char x @ rest) = x # html_unescape rest"
  by (cases rule: html_special_cases [of x]) (simp_all add: html_escape_char_def entity_tails_def)

lemma html_escape_char_safe:
  "set (html_escape_char x) \<inter> {CHR ''<'', CHR ''>'', CHR 0x22, CHR 0x27, CHR ''/''} = {}"
  by (cases rule: html_special_cases [of x]) (auto simp: html_escape_char_def)

text \<open>
  C14. \<open>sanitizeInput\<close> loses nothing: decoding the six entities it writes gives
  back the input, so two different inputs never sanitize to the same text.
\<close>

theorem sanitizeInput_roundtrip: "html_unescape (sanitizeInput s) = s"
proof (induction s)
  case Nil
  then show ?case by (simp add: sanitizeInput_def)
next
  case (Cons x s)
  then show ?case by (simp add: sanitizeInput_single_pass html_unescape_char)
qed

text \<open>
  C15. The output of \<open>sanitizeInput\<close> contains none of \<open><\<close>, \<open>>\<close>, the double and
  single quote, and \<open>/\<close>: replacing the ampersand first means no later replacement
  is undone or doubled.
\<close>

theorem sanitizeInput_safe:
  "set (sanitizeInput s) \<inter> {CHR ''<'', CHR ''>'', CHR 0x22, CHR 0x27, CHR ''/''} = {}"
  using html_escape_char_safe by (auto simp: sanitizeInput_single_pass)

lemma auth_inv_initial: "auth_inv auth_initial"
  by (simp add: auth_inv_def auth_initial_def)

lemma login_begin_session:
  "user (fst (login_begin c st)) = user st \<and> isAuthenticated (fst (login_begin c st)) = isAuthenticated st"
  by (simp add: login_begin_def Let_def)

lemma login_finish_cases:
  "login_finish c bytes st = st\<lparr>error := Some (sanitizeInput ''Credenciales invalidas''), isLoading := False\<rparr> \<or>
   (\<exists>u. login_finish c bytes st = st\<lparr>user := Some u, isAuthenticated := True, isLoading := False\<rparr> \<and>
        user_id u = generateSecureId bytes)"
  by (auto simp: login_finish_def Let_def split: option.split)

lemma auth_inv_login_finish:
  assumes "auth_inv st" "length bytes = 16"
  shows "auth_inv (login_finish c bytes st)"
proof -
  have id: "length (generateSecureId bytes) = 32" "set (generateSecureId bytes) \<subseteq> set hex_digits"
    using assms(2) generateSecureId_length [of bytes] generateSecureId_hex_chars [of bytes] by simp_all
  from login_finish_cases [of c bytes st] assms(1) id show ?thesis
    by (auto simp: auth_inv_def)
qed

lemma auth_inv_step:
  assumes "auth_inv st" "auth_event_ok ev"
  shows "auth_inv (fst (auth_step ev (st, pending)))"
proof (cases ev)
  case (Login c)
  obtain st' r where b: "login_begin c st = (st', r)" by fastforce
  with login_begin_session [of c st] have "user st' = user st" "isAuthenticated st' = isAuthenticated st"
    by simp_all
  with Login b assms(1) show ?thesis by (simp add: auth_inv_def)
next
  case (LoginResume bytes)
  then show ?thesis using assms auth_inv_login_finish by (simp split: list.split)
next
  case Logout
  then show ?thesis by (simp add: auth_inv_def logout_def)
next
  case ClearError
  then show ?thesis using assms(1) by (simp add: auth_inv_def clearError_def)
next
  case (SetLoading b)
  then show ?thesis using assms(1) by (simp add: auth_inv_def setLoading_def)
next
  case Reload
  then show ?thesis using assms(1) by (simp add: auth_inv_def auth_rehydrate_def auth_initial_def)
qed

lemma reachable_auth_inv: "auth_reachable s \<Longrightarrow> auth_inv (fst s)"
proof (induction rule: auth_reachable.induct)
  case init
  then show ?case by (simp add: auth_inv_initial)
next
  case (step s ev)
  then show ?case using auth_inv_step [of "fst s" ev "snd s"] by simp
qed

lemma auth_reachable_run:
  "auth_reachable s \<Longrightarrow> list_all auth_event_ok evs \<Longrightarrow> auth_reachable (auth_run evs s)"
proof (induction evs arbitrary: s)
  case Nil
  then show ?case by simp
next
  case (Cons ev evs)
  then have "auth_reachable (auth_step ev s)" by (simp add: auth_reachable.step)
  with Cons show ?case by simp
qed

lemma valid_password_length: "valid (validatePasswordStrength p) \<Longrightarrow> 12 \<le> length p"
  by (simp add: validatePasswordStrength_def split: if_splits)

lemma login_begin_running:
  "snd (login_begin c st) \<longleftrightarrow>
     EMAIL_REGEX_test (cred_email c) \<and> valid (validatePasswordStrength (cred_password c))"
  by (simp add: login_begin_def Let_def)

lemma login_begin_ok:
  "snd (login_begin c st) \<Longrightarrow> fst (login_begin c st) = st\<lparr>isLoading := True, error := None\<rparr>"
  by (simp add: login_begin_def Let_def split: if_splits)

lemma login_finish_accepts:
  assumes "valid (validatePasswordStrength (cred_password c))"
  shows "\<exists>u. login_finish c bytes st = st\<lparr>user := Some u, isAuthenticated := True, isLoading := False\<rparr> \<and>
           user_id u = generateSecureId bytes \<and>
           email u = (case DEMO_USERS (cred_email c) of Some d \<Rightarrow> email d | None \<Rightarrow> sanitizeInput (cred_email c))"
proof -
  have "verifyPassword (cred_password c) DEMO_USERS_HASH"
    using assms valid_password_length by (simp add: verifyPassword_def)
  then show ?thesis by (auto simp: login_finish_def Let_def split: option.split)
qed

lemma demo_credentials_pass:
  "EMAIL_REGEX_test (cred_email demo_credentials) \<and> valid (validatePasswordStrength (cred_password demo_credentials))"
  by (simp add: demo_credentials_def EMAIL_REGEX_test_def validatePasswordStrength_def special_chars_def
      email_local_char_def email_domain_char_def is_letter_def is_upper_def is_lower_def is_digit_def)

lemma demo_login_begin:
  "login_begin demo_credentials st = (st\<lparr>isLoading := True, error := None\<rparr>, True)"
  using login_begin_ok [of demo_credentials st] demo_credentials_pass
    login_begin_running [of demo_credentials st]
  by (metis prod.collapse)

text \<open>
  C16. In every reachable state of the session store, \<open>isAuthenticated\<close> holds
  exactly when a user is set, and that user's id is a 32-character hexadecimal
  identifier, across interleaved logins, logouts and page reloads.
\<close>

theorem auth_reachable_invariants:
  assumes "auth_reachable (st, pending)"
  shows "(isAuthenticated st \<longleftrightarrow> user st \<noteq> None) \<and>
         (\<forall>u. user st = Some u \<longrightarrow> length (user_id u) = 32 \<and> set (user_id u) \<subseteq> set hex_digits)"
  using reachable_auth_inv [OF assms] by (simp add: auth_inv_def)

theorem auth_reachable_invariants_witness:
  "auth_reachable (auth_run [Login demo_credentials, LoginResume (replicate 16 0)] (auth_initial, [])) \<and>
   isAuthenticated (fst (auth_run [Login demo_credentials, LoginResume (replicate 16 0)] (auth_initial, [])))"
proof -
  let ?s = "auth_run [Login demo_credentials, LoginResume (replicate 16 0)] (auth_initial, [])"
  have r: "auth_reachable ?s"
    by (rule auth_reachable_run [OF auth_reachable.init]) simp
  obtain u where "login_finish demo_credentials (replicate 16 0) (auth_initial\<lparr>isLoading := True, error := None\<rparr>) =
      (auth_initial\<lparr>isLoading := True, error := None\<rparr>)\<lparr>user := Some u, isAuthenticated := True, isLoading := False\<rparr>"
    using login_finish_accepts demo_credentials_pass by blast
  then have "?s = ((auth_initial\<lparr>isLoading := True, error := None\<rparr>)\<lparr>user := Some u, isAuthenticated := True, isLoading := False\<rparr>, [])"
    by (simp add: demo_login_begin)
  then have "user (fst ?s) \<noteq> None" by simp
  with auth_reachable_invariants [of "fst ?s" "snd ?s"] r show ?thesis by simp
qed

text \<open>
  C18. \<open>login\<close> goes past its checks exactly when the e-mail matches the pattern and
  the password passes the strength check; a failed check leaves the session as it was
  and reports an error; after the timer, the stub \<open>verifyPassword\<close> never rejects,
  so every such login authenticates, with a fresh id and, for a demo address, the demo
  profile.
\<close>

theorem login_outcome:
  "(snd (login_begin c st) \<longleftrightarrow>
      EMAIL_REGEX_test (cred_email c) \<and> valid (validatePasswordStrength (cred_password c))) \<and>
   (\<not> snd (login_begin c st) \<longrightarrow>
      user (fst (login_begin c st)) = user st \<and> isAuthenticated (fst (login_begin c st)) = isAuthenticated st \<and>
      error (fst (login_begin c st)) \<noteq> None \<and> \<not> isLoading (fst (login_begin c st))) \<and>
   (snd (login_begin c st) \<longrightarrow>
      isAuthenticated (login_finish c bytes (fst (login_begin c st))) \<and>
      error (login_finish c bytes (fst (login_begin c st))) = None \<and>
      \<not> isLoading (login_finish c bytes (fst (login_begin c st))) \<and>
      (\<exists>u. user (login_finish c bytes (fst (login_begin c st))) = Some u \<and> user_id u = generateSecureId bytes \<and>
           email u = (case DEMO_USERS (cred_email c) of Some d \<Rightarrow> email d | None \<Rightarrow> sanitizeInput (cred_email c))))"
proof (cases "snd (login_begin c st)")
  case True
  then have v: "valid (validatePasswordStrength (cred_password c))" by (simp add: login_begin_running)
  from login_finish_accepts [OF v, of bytes "fst (login_begin c st)"] True login_begin_ok [OF True]
  show ?thesis by (auto simp: login_begin_running)
next
  case False
  then show ?thesis by (auto simp: login_begin_def Let_def split: if_splits)
qed

theorem login_outcome_witness:
  "snd (login_begin demo_credentials auth_initial) \<and>
   isAuthenticated (login_finish demo_credentials (replicate 16 0) (fst (login_begin demo_credentials auth_initial)))"
  using login_outcome [of demo_credentials auth_initial "replicate 16 0"] demo_credentials_pass by simp

text \<open>
  C19. A logout does not cancel a login that is waiting for its timer: log in, log out
  before the 800 ms elapse, and when the timer fires the session is authenticated
  again.
\<close>

theorem logout_does_not_cancel_login:
  "auth_reachable (auth_run [Login demo_credentials, Logout] (auth_initial, [])) \<and>
   \<not> isAuthenticated (fst (auth_run [Login demo_credentials, Logout] (auth_initial, []))) \<and>
   isAuthenticated (fst (auth_run [Login demo_credentials, Logout, LoginResume (replicate 16 0)] (auth_initial, [])))"
proof -
  have r: "auth_reachable (auth_run [Login demo_credentials, Logout] (auth_initial, []))"
    by (rule auth_reachable_run [OF auth_reachable.init]) simp
  obtain u where "login_finish demo_credentials (replicate 16 0)
      (logout (auth_initial\<lparr>isLoading := True, error := None\<rparr>)) =
      (logout (auth_initial\<lparr>isLoading := True, error := None\<rparr>))\<lparr>user := Some u, isAuthenticated := True, isLoading := False\<rparr>"
    using login_finish_accepts demo_credentials_pass by blast
  with r show ?thesis by (simp add: logout_def demo_login_begin)
qed

lemma demo_email_ok: "EMAIL_REGEX_test ''demo@gnp.com''"
  by (simp add: EMAIL_REGEX_test_def email_local_char_def email_domain_char_def is_letter_def is_upper_def
                is_lower_def is_digit_def)

lemma email_char_unescaped:
  "email_local_char c \<or> email_domain_char c \<or> c = CHR ''@'' \<Longrightarrow> html_escape_char c = [c]"
  by (auto simp: email_local_char_def email_domain_char_def is_letter_def is_upper_def is_lower_def
                 is_digit_def html_escape_char_def less_eq_char_def)

lemma sanitizeInput_fixed:
  "(\<And>c. c \<in> set s \<Longrightarrow> html_escape_char c = [c]) \<Longrightarrow> sanitizeInput s = s"
  by (induction s) (simp_all add: sanitizeInput_single_pass)

text \<open>
  C17. An e-mail address that passes \<open>EMAIL_REGEX\<close> is left unchanged by
  \<open>sanitizeInput\<close>, so the profile stores the address as typed; it has exactly
  one at sign, a non-empty local part, a dot after the at sign, and ends in a letter.
\<close>

theorem EMAIL_REGEX_accepted_safe:
  assumes "EMAIL_REGEX_test s"
  shows "sanitizeInput s = s \<and> count_list s (CHR ''@'') = 1 \<and>
         (\<exists>l d. s = l @ CHR ''@'' # d \<and> l \<noteq> [] \<and> CHR ''.'' \<in> set d \<and> is_letter (last s))"
proof -
  obtain l d t where s: "s = l @ CHR ''@'' # d @ CHR ''.'' # t"
    and l: "l \<noteq> []" "list_all email_local_char l"
    and d: "d \<noteq> []" "list_all email_domain_char d"
    and t: "2 \<le> length t" "list_all is_letter t"
    using assms unfolding EMAIL_REGEX_test_lang email_regex_lang_def by blast
  have tl: "\<forall>c\<in>set t. email_domain_char c" using t(2) by (auto simp: list_all_iff email_domain_char_def)
  have "\<forall>c\<in>set s. email_local_char c \<or> email_domain_char c \<or> c = CHR ''@''"
    using l(2) d(2) tl by (auto simp: s list_all_iff email_domain_char_def)
  then have san: "sanitizeInput s = s" by (intro sanitizeInput_fixed) (simp add: email_char_unescaped)
  have noat: "\<forall>c\<in>set l \<union> set d \<union> set t. c \<noteq> CHR ''@''"
    using l(2) d(2) tl by (auto simp: list_all_iff email_local_char_def email_domain_char_def
                                   is_letter_def is_upper_def is_lower_def is_digit_def less_eq_char_def)
  then have "count_list s (CHR ''@'') = 1"
    by (auto simp: s count_list_0_iff)
  moreover have "is_letter (last s)" using t by (cases t rule: rev_cases) (auto simp: s list_all_iff)
  moreover have "s = l @ CHR ''@'' # (d @ CHR ''.'' # t) \<and> l \<noteq> [] \<and> CHR ''.'' \<in> set (d @ CHR ''.'' # t)"
    using s l by simp
  ultimately show ?thesis using san by blast
qed

theorem EMAIL_REGEX_accepted_safe_witness:
  "sanitizeInput ''demo@gnp.com'' = ''demo@gnp.com'' \<and> count_list ''demo@gnp.com'' (CHR ''@'') = 1"
proof -
  from EMAIL_REGEX_accepted_safe [OF demo_email_ok] show ?thesis by simp
qed

text \<open>
  C20. With a well-formed e-mail, every password shorter than twelve characters is
  rejected by \<open>login\<close> before any account lookup, with the length message
  whatever characters it has, and the call changes nothing but the error and the
  loading flag.  The password \<open>demo123\<close> that the source's comments give for the
  demo accounts is one of them.
\<close>

theorem short_password_rejected:
  assumes "EMAIL_REGEX_test (cred_email c)" "length (cred_password c) < 12"
  shows "login_begin c st =
           (st\<lparr>error := Some ''La contrasena debe tener al menos 12 caracteres'', isLoading := False\<rparr>, False)"
proof -
  have "sanitizeInput ''La contrasena debe tener al menos 12 caracteres'' = ''La contrasena debe tener al menos 12 caracteres''"
    by (simp add: sanitizeInput_def)
  with assms show ?thesis by (simp add: login_begin_def validatePasswordStrength_def Let_def)
qed

theorem short_password_rejected_witness:
  "login_begin \<lparr>cred_email = ''demo@gnp.com'', cred_password = ''demo123'', cred_company = ''GNP''\<rparr> auth_initial =
     (auth_initial\<lparr>error := Some ''La contrasena debe tener al menos 12 caracteres'', isLoading := False\<rparr>, False)"
  using demo_email_ok short_password_rejected [of "\<lparr>cred_email = ''demo@gnp.com'', cred_password = ''demo123'', cred_company = ''GNP''\<rparr>"] by simp

end
