(* ===== verification/ExamPage.thy ===== *)
theory ExamPage
  imports ExamStore
begin

text \<open>
  The page \<open>pages/SimuladorExamen.tsx\<close> and the two selectors of
  \<open>store/examStore.ts\<close> it reads (\<open>useExamProgress\<close>, \<open>useFormattedTime\<close>).
  The page is the only caller of the exam store.  Its state is the store's state,
  the durable history and its own \<open>showConfirm\<close> flag (\<open>page_state\<close>); each
  button's handler is a function on it (\<open>handleStartExam\<close>, \<open>handleAnswer\<close>,
  \<open>handleNext\<close>, \<open>handlePrevious\<close>, \<open>handleComplete\<close>, \<open>handleReset\<close>, the
  question dots, the modal's two buttons), the one-second interval is the event
  \<open>TimerFires\<close>, and the auto-complete effect runs after every event
  (\<open>page_step\<close>).  \<open>render\<close> is the choice of screen at the top of the component;
  \<open>page_enabled\<close> says which events the rendered screen offers, so that
  \<open>page_reachable\<close> holds of exactly the states a user can produce.  The claims:
  the clock text reads back to the remaining seconds (C22); the page never renders
  \<open>null\<close> (C23); through the page the history grows by one result per attempt
  (C24), unlike the bare store (C4); the timer alone completes a running attempt
  (C25); the pass flag is "seven correct out of ten" (C26); the progress bar stays
  within 0 to 100 (C27).
\<close>

section \<open>Selectors\<close>

text \<open>\<open>Number.prototype.toString()\<close> on an integer: decimal digits, a minus sign when negative.\<close>

definition dec_chars :: string where
  "dec_chars = ''0123456789''"

fun nat_dec :: "nat \<Rightarrow> string" where
  "nat_dec n = (if n < 10 then [dec_chars ! n] else nat_dec (n div 10) @ [dec_chars ! (n mod 10)])"

declare nat_dec.simps [simp del]

definition js_int_str :: "int \<Rightarrow> string" where
  "js_int_str k = (if k < 0 then CHR ''-'' # nat_dec (nat (- k)) else nat_dec (nat k))"

text \<open>JavaScript's \<open>%\<close> on integers: the remainder takes the sign of the dividend.\<close>

definition js_rem :: "int \<Rightarrow> int \<Rightarrow> int" where
  "js_rem k l = sgn k * (\<bar>k\<bar> mod \<bar>l\<bar>)"

record exam_progress =
  progress :: js_num
  answered :: int
  total :: int
  currentQuestion :: "int option"

definition useExamProgress :: "exam_state \<Rightarrow> exam_progress" where
  "useExamProgress st =
     (case currentExam st of
        None \<Rightarrow> \<lparr>progress = Num 0, answered = 0, total = 0, currentQuestion = None\<rparr>
      | Some e \<Rightarrow>
          \<lparr>progress = js_percent (int (length (answers st))) (int (length (questions e))),
           answered = int (length (answers st)), total = int (length (questions e)),
           currentQuestion = Some (currentQuestionIndex st + 1)\<rparr>)"

definition useFormattedTime :: "exam_state \<Rightarrow> string" where
  "useFormattedTime st =
     (let minutes = timeRemaining st div 60;
          seconds = js_rem (timeRemaining st) 60
      in pad_start 2 CHR ''0'' (js_int_str minutes) @ CHR '':'' # pad_start 2 CHR ''0'' (js_int_str seconds))"

text \<open>Reading a clock text \<open>mm:ss\<close> back as seconds, for the round trip.\<close>

fun parse_dec_acc :: "nat \<Rightarrow> string \<Rightarrow> nat option" where
  "parse_dec_acc acc [] = Some acc"
| "parse_dec_acc acc (c # cs) =
     (case find_idx (\<lambda>d. d = c) dec_chars of None \<Rightarrow> None | Some d \<Rightarrow> parse_dec_acc (10 * acc + d) cs)"

definition parse_dec :: "string \<Rightarrow> nat option" where
  "parse_dec s = (if s = [] then None else parse_dec_acc 0 s)"

definition parse_clock :: "string \<Rightarrow> nat option" where
  "parse_clock s =
     (case (parse_dec (takeWhile (\<lambda>c. c \<noteq> CHR '':'') s), dropWhile (\<lambda>c. c \<noteq> CHR '':'') s) of
        (Some m, _ # rest) \<Rightarrow>
          (case parse_dec rest of Some sec \<Rightarrow> if sec < 60 then Some (60 * m + sec) else None | None \<Rightarrow> None)
      | _ \<Rightarrow> None)"

section \<open>The page\<close>

text \<open>
  The page's state: the exam store it drives, the durable history that
  \<open>completeExam\<close> appends to, and its own \<open>showConfirm\<close> flag.
\<close>

record page_state =
  exam_st :: exam_state
  history :: history_store
  showConfirm :: bool

text \<open>What a call of \<open>completeExam\<close> reads from outside the store.\<close>

record complete_input =
  ci_auth :: auth_state
  ci_bytes :: "8 word list"
  ci_now :: string
  ci_write :: bool

definition page_complete :: "complete_input \<Rightarrow> page_state \<Rightarrow> page_state" where
  "page_complete ci s =
     (case completeExam (ci_auth ci) (ci_bytes ci) (ci_now ci) (ci_write ci) (exam_st s) (history s) of
        (st', h') \<Rightarrow> s\<lparr>exam_st := st', history := h'\<rparr>)"

text \<open>\<open>currentExam?.questions.length || 0\<close>.\<close>

definition exam_length :: "exam_state \<Rightarrow> int" where
  "exam_length st = (case currentExam st of None \<Rightarrow> 0 | Some e \<Rightarrow> int (length (questions e)))"

definition handleStartExam :: "page_state \<Rightarrow> page_state" where
  "handleStartExam s = s\<lparr>exam_st := startExam (Some sampleExam) (exam_st s)\<rparr>"

definition handleAnswer :: "string \<Rightarrow> int \<Rightarrow> page_state \<Rightarrow> page_state" where
  "handleAnswer qid sel s = s\<lparr>exam_st := answerQuestion qid sel (exam_st s)\<rparr>"

definition handleNext :: "page_state \<Rightarrow> page_state" where
  "handleNext s =
     (if currentQuestionIndex (exam_st s) < exam_length (exam_st s) - 1
      then s\<lparr>exam_st := nextQuestion (exam_st s)\<rparr> else s)"

definition handlePrevious :: "page_state \<Rightarrow> page_state" where
  "handlePrevious s = s\<lparr>exam_st := previousQuestion (exam_st s)\<rparr>"

definition handleComplete :: "complete_input \<Rightarrow> page_state \<Rightarrow> page_state" where
  "handleComplete ci s =
     (if int (length (answers (exam_st s))) < exam_length (exam_st s) then s\<lparr>showConfirm := True\<rparr>
      else page_complete ci s)"

definition handleReset :: "page_state \<Rightarrow> page_state" where
  "handleReset s = s\<lparr>exam_st := resetExam (exam_st s), showConfirm := False\<rparr>"

text \<open>The effect that completes the attempt when the time is up.\<close>

definition auto_complete :: "complete_input \<Rightarrow> page_state \<Rightarrow> page_state" where
  "auto_complete ci s =
     (if timeRemaining (exam_st s) = 0 \<and> isExamStarted (exam_st s) \<and> \<not> isExamCompleted (exam_st s)
      then page_complete ci s else s)"

text \<open>\<open>getCurrentQuestion\<close>: \<open>currentExam?.questions[currentQuestionIndex]\<close>, undefined out of range.\<close>

definition getCurrentQuestion :: "exam_state \<Rightarrow> question option" where
  "getCurrentQuestion st =
     (case currentExam st of
        None \<Rightarrow> None
      | Some e \<Rightarrow>
          if 0 \<le> currentQuestionIndex st \<and> currentQuestionIndex st < int (length (questions e))
          then Some (questions e ! nat (currentQuestionIndex st)) else None)"

text \<open>
  The three screens the component returns, and \<open>null\<close>; the result screen carries
  \<open>passed\<close>, computed against \<open>sampleExam.passingScore\<close>, and the result.
\<close>

datatype screen = StartScreen | ResultsScreen bool exam_result | QuestionScreen question | NoScreen

definition render :: "page_state \<Rightarrow> screen" where
  "render s =
     (let st = exam_st s in
      if \<not> isExamStarted st then StartScreen
      else case (isExamCompleted st, results st) of
             (True, Some r) \<Rightarrow> ResultsScreen (js_ge (score r) (passingScore sampleExam)) r
           | _ \<Rightarrow> (case getCurrentQuestion st of None \<Rightarrow> NoScreen | Some q \<Rightarrow> QuestionScreen q))"

text \<open>
  What the user and the environment can do: press one of the rendered buttons, let
  the one-second interval fire, leave the page and come back (the store keeps its
  state, the component's \<open>showConfirm\<close> starts again at \<open>false\<close>), or reload
  the browser tab (the store rehydrates only \<open>results\<close>).
\<close>

datatype page_event =
    ClickStart
  | ClickOption nat
  | ClickPrevious
  | ClickNext
  | ClickFinish
  | ClickCancel
  | ClickConfirm
  | ClickRetry
  | ClickDot nat
  | TimerFires
  | Remount
  | Reload

fun page_handler :: "complete_input \<Rightarrow> page_event \<Rightarrow> page_state \<Rightarrow> page_state" where
  "page_handler ci ClickStart s = handleStartExam s"
| "page_handler ci (ClickOption i) s =
     (case getCurrentQuestion (exam_st s) of
        None \<Rightarrow> s
      | Some q \<Rightarrow> handleAnswer (question_id q) (int i) s)"
| "page_handler ci ClickPrevious s = handlePrevious s"
| "page_handler ci ClickNext s = handleNext s"
| "page_handler ci ClickFinish s = handleComplete ci s"
| "page_handler ci ClickCancel s = s\<lparr>showConfirm := False\<rparr>"
| "page_handler ci ClickConfirm s = page_complete ci s"
| "page_handler ci ClickRetry s = handleReset s"
| "page_handler ci (ClickDot i) s = s\<lparr>exam_st := jumpToQuestion (int i) (exam_st s)\<rparr>"
| "page_handler ci TimerFires s = s\<lparr>exam_st := tick (exam_st s)\<rparr>"
| "page_handler ci Remount s = s\<lparr>showConfirm := False\<rparr>"
| "page_handler ci Reload s = s\<lparr>exam_st := exam_initial (results (exam_st s)), showConfirm := False\<rparr>"

text \<open>Each event followed by the effects that run after the render it causes.\<close>

definition page_step :: "complete_input \<Rightarrow> page_event \<Rightarrow> page_state \<Rightarrow> page_state" where
  "page_step ci ev s = auto_complete ci (page_handler ci ev s)"

text \<open>
  Which events the rendered page offers: the buttons of the current screen (the
  previous button is disabled on the first question, the last question shows
  \<open>Finalizar\<close> instead of \<open>Siguiente\<close>, the modal only when \<open>showConfirm\<close>),
  and the interval only while the attempt runs.
\<close>

fun page_enabled :: "page_event \<Rightarrow> page_state \<Rightarrow> bool" where
  "page_enabled ClickStart s = (render s = StartScreen)"
| "page_enabled (ClickOption i) s =
     (case render s of QuestionScreen q \<Rightarrow> i < length (options q) | _ \<Rightarrow> False)"
| "page_enabled ClickPrevious s =
     ((\<exists>q. render s = QuestionScreen q) \<and> currentQuestionIndex (exam_st s) \<noteq> 0)"
| "page_enabled ClickNext s =
     ((\<exists>q. render s = QuestionScreen q) \<and> currentQuestionIndex (exam_st s) \<noteq> exam_length (exam_st s) - 1)"
| "page_enabled ClickFinish s =
     ((\<exists>q. render s = QuestionScreen q) \<and> currentQuestionIndex (exam_st s) = exam_length (exam_st s) - 1)"
| "page_enabled ClickCancel s = ((\<exists>q. render s = QuestionScreen q) \<and> showConfirm s)"
| "page_enabled ClickConfirm s = ((\<exists>q. render s = QuestionScreen q) \<and> showConfirm s)"
| "page_enabled ClickRetry s = (\<exists>p r. render s = ResultsScreen p r)"
| "page_enabled (ClickDot i) s = ((\<exists>q. render s = QuestionScreen q) \<and> int i < exam_length (exam_st s))"
| "page_enabled TimerFires s = (isExamStarted (exam_st s) \<and> \<not> isExamCompleted (exam_st s))"
| "page_enabled Remount s = True"
| "page_enabled Reload s = True"

definition page_initial :: "exam_result option \<Rightarrow> history_store \<Rightarrow> page_state" where
  "page_initial persisted h = \<lparr>exam_st = exam_initial persisted, history = h, showConfirm = False\<rparr>"

inductive page_reachable :: "page_state \<Rightarrow> bool" where
  init: "page_reachable (page_initial persisted h)"
| step: "page_reachable s \<Longrightarrow> page_enabled ev s \<Longrightarrow> length (ci_bytes ci) = 16 \<Longrightarrow>
         page_reachable (page_step ci ev s)"

fun page_run :: "complete_input \<Rightarrow> page_event list \<Rightarrow> page_state \<Rightarrow> page_state" where
  "page_run ci [] s = s"
| "page_run ci (ev # evs) s = page_run ci evs (page_step ci ev s)"

fun page_run_ok :: "complete_input \<Rightarrow> page_event list \<Rightarrow> page_state \<Rightarrow> bool" where
  "page_run_ok ci [] s = True"
| "page_run_ok ci (ev # evs) s = (page_enabled ev s \<and> page_run_ok ci evs (page_step ci ev s))"

text \<open>
  What the page keeps true of the store: the store's own invariant holds (the page
  state is reachable for the store), the only exam is the sample exam, an attempt
  that runs has time left, and a completed attempt holds the result of the sample
  exam.
\<close>

definition sample_only :: "exam_state \<Rightarrow> bool" where
  "sample_only st \<longleftrightarrow> currentExam st = None \<or> currentExam st = Some sampleExam"

definition result_ok :: "exam_state \<Rightarrow> bool" where
  "result_ok st \<longleftrightarrow>
     (isExamCompleted st \<longrightarrow>
        (\<exists>r. results st = Some r \<and> totalQuestions r = 10 \<and>
             score r = js_percent (correctAnswers r) 10 \<and> 0 \<le> correctAnswers r))"

definition page_inv :: "page_state \<Rightarrow> bool" where
  "page_inv s \<longleftrightarrow>
     exam_reachable (exam_st s, history s) \<and> sample_only (exam_st s) \<and> result_ok (exam_st s) \<and>
     (isExamStarted (exam_st s) \<and> \<not> isExamCompleted (exam_st s) \<longrightarrow> 0 < timeRemaining (exam_st s))"

text \<open>A completion input for the scenarios below: nobody logged in, a successful write.\<close>

definition sample_input :: complete_input where
  "sample_input = \<lparr>ci_auth = \<lparr>user = None, isAuthenticated = False, isLoading = False, error = None\<rparr>,
     ci_bytes = replicate 16 0, ci_now = ''2025-01-01T00:00:00.000Z'', ci_write = True\<rparr>"

lemma dec_chars_digit: "d < 10 \<Longrightarrow> find_idx (\<lambda>x. x = dec_chars ! d) dec_chars = Some d"
  by (auto simp: dec_chars_def less_Suc_eq numeral_eq_Suc)

lemma parse_dec_acc_append:
  "parse_dec_acc acc (xs @ ys) = (case parse_dec_acc acc xs of None \<Rightarrow> None | Some a \<Rightarrow> parse_dec_acc a ys)"
  by (induction acc xs rule: parse_dec_acc.induct) (auto split: option.split)

lemma nat_dec_ne [simp]: "nat_dec n \<noteq> []"
  by (subst nat_dec.simps) simp

lemma parse_dec_acc_nat_dec: "parse_dec_acc acc (nat_dec n) = Some (acc * 10 ^ length (nat_dec n) + n)"
proof (induction n arbitrary: acc rule: nat_dec.induct)
  case (1 n)
  show ?case
  proof (cases "n < 10")
    case True
    then show ?thesis by (simp add: nat_dec.simps [of n] dec_chars_digit)
  next
    case False
    then have "parse_dec_acc acc (nat_dec n) =
        parse_dec_acc (acc * 10 ^ length (nat_dec (n div 10)) + n div 10) [dec_chars ! (n mod 10)]"
      using "1" by (simp add: nat_dec.simps [of n] parse_dec_acc_append)
    also have "\<dots> = Some (acc * 10 ^ length (nat_dec n) + n)"
      using False by (simp add: dec_chars_digit nat_dec.simps [of n] algebra_simps)
    finally show ?thesis .
  qed
qed

lemma parse_dec_acc_zeros: "parse_dec_acc 0 (replicate k CHR ''0'' @ s) = parse_dec_acc 0 s"
  by (induction k) (simp_all add: dec_chars_def)

lemma nat_dec_chars: "set (nat_dec n) \<subseteq> set dec_chars"
proof (induction n rule: nat_dec.induct)
  case (1 n)
  have "n mod 10 < length dec_chars" "n < 10 \<longrightarrow> n < length dec_chars" by (simp_all add: dec_chars_def)
  with 1 show ?case by (subst nat_dec.simps) (auto dest: nth_mem)
qed

lemma parse_dec_pad: "parse_dec (pad_start k CHR ''0'' (nat_dec n)) = Some n"
  by (simp add: parse_dec_def pad_start_def parse_dec_acc_zeros parse_dec_acc_nat_dec)

lemma nat_dec_no_colon: "CHR '':'' \<notin> set (nat_dec n)"
  using nat_dec_chars [of n] by (auto simp: dec_chars_def)

lemma nat_dec_small: "n < 10 ^ k \<Longrightarrow> 0 < k \<Longrightarrow> length (nat_dec n) \<le> k"
proof (induction n arbitrary: k rule: nat_dec.induct)
  case (1 n)
  show ?case
  proof (cases "n < 10")
    case True
    with "1.prems" show ?thesis by (simp add: nat_dec.simps [of n])
  next
    case False
    with "1.prems" have "n div 10 < 10 ^ (k - 1)" "0 < k - 1"
      by (auto simp: less_mult_imp_div_less power_eq_if split: if_splits)
    with 1 False show ?thesis by (fastforce simp: nat_dec.simps [of n])
  qed
qed

lemma pad_no_colon: "CHR '':'' \<notin> set (pad_start k CHR ''0'' (nat_dec n))"
  using nat_dec_no_colon [of n] by (auto simp: pad_start_def)

lemma js_rem_nonneg: "0 \<le> k \<Longrightarrow> 0 < l \<Longrightarrow> js_rem k l = k mod l"
  by (auto simp: js_rem_def sgn_if)

lemma js_int_str_nonneg: "0 \<le> k \<Longrightarrow> js_int_str k = nat_dec (nat k)"
  by (simp add: js_int_str_def)

lemma useFormattedTime_nonneg:
  assumes "0 \<le> timeRemaining st"
  shows "useFormattedTime st =
           pad_start 2 CHR ''0'' (nat_dec (nat (timeRemaining st) div 60)) @
           CHR '':'' # pad_start 2 CHR ''0'' (nat_dec (nat (timeRemaining st) mod 60))"
proof -
  have "nat (timeRemaining st div 60) = nat (timeRemaining st) div 60"
    "nat (timeRemaining st mod 60) = nat (timeRemaining st) mod 60"
    using assms by (simp_all add: nat_div_distrib nat_mod_distrib)
  moreover have "0 \<le> timeRemaining st div 60" "0 \<le> timeRemaining st mod 60"
    using assms by simp_all
  ultimately show ?thesis
    using assms unfolding useFormattedTime_def Let_def
    by (simp only: js_rem_nonneg js_int_str_nonneg zero_less_numeral)
qed

lemma nat_dec_two: "n < 100 \<Longrightarrow> length (nat_dec n) \<le> 2"
  using nat_dec_small [of n 2] by simp

text \<open>
  C22. The clock text of the exam screen reads back to the remaining time: for any
  non-negative number of seconds, \<open>mm:ss\<close> parses to it, and below 100 minutes
  it is exactly five characters.
\<close>

theorem useFormattedTime_roundtrip:
  assumes "0 \<le> timeRemaining st"
  shows "parse_clock (useFormattedTime st) = Some (nat (timeRemaining st)) \<and>
         (timeRemaining st < 6000 \<longrightarrow> length (useFormattedTime st) = 5)"
proof
  let ?t = "nat (timeRemaining st)"
  let ?m = "pad_start 2 CHR ''0'' (nat_dec (?t div 60))"
  let ?s = "pad_start 2 CHR ''0'' (nat_dec (?t mod 60))"
  have nc: "\<And>x. x \<in> set ?m \<Longrightarrow> x \<noteq> CHR '':''"
    using pad_no_colon [of 2 "?t div 60"] by blast
  have tw: "takeWhile (\<lambda>c. c \<noteq> CHR '':'') (?m @ CHR '':'' # ?s) = ?m"
    using nc by simp
  have dw: "dropWhile (\<lambda>c. c \<noteq> CHR '':'') (?m @ CHR '':'' # ?s) = CHR '':'' # ?s"
    using nc by simp
  show "parse_clock (useFormattedTime st) = Some ?t"
    using assms tw dw by (simp add: useFormattedTime_nonneg parse_clock_def parse_dec_pad)
  show "timeRemaining st < 6000 \<longrightarrow> length (useFormattedTime st) = 5"
  proof
    assume "timeRemaining st < 6000"
    then have "length (nat_dec (?t div 60)) \<le> 2" "length (nat_dec (?t mod 60)) \<le> 2"
      by (simp_all add: nat_dec_two)
    with assms show "length (useFormattedTime st) = 5"
      by (simp add: useFormattedTime_nonneg)
  qed
qed

theorem useFormattedTime_roundtrip_witness:
  "useFormattedTime (startExam None (exam_initial None)) = ''15:00'' \<and>
   parse_clock (useFormattedTime (startExam None (exam_initial None))) = Some 900"
proof -
  have t: "timeRemaining (startExam None (exam_initial None)) = 900" by (simp add: startExam_def)
  have d: "nat_dec 15 = ''15''" "nat_dec 0 = ''0''"
    by (simp_all add: nat_dec.simps [of 15] nat_dec.simps [of "Suc 0"] nat_dec.simps [of 0] dec_chars_def)
  have "useFormattedTime (startExam None (exam_initial None)) = ''15:00''"
    using useFormattedTime_nonneg [of "startExam None (exam_initial None)"] t d
    by (simp add: pad_start_def)
  with useFormattedTime_roundtrip [of "startExam None (exam_initial None)"] t show ?thesis by simp
qed

subsection \<open>The page keeps its invariant\<close>

lemma store_step:
  "exam_reachable (st, h) \<Longrightarrow> exam_event_ok ev st \<Longrightarrow> exam_step ev (st, h) = (st', h') \<Longrightarrow>
   exam_reachable (st', h')"
  by (metis exam_reachable.step)

lemma page_complete_store:
  "(exam_st (page_complete ci s), history (page_complete ci s)) =
   exam_step (Complete (ci_auth ci) (ci_bytes ci) (ci_now ci) (ci_write ci)) (exam_st s, history s)"
  by (simp add: page_complete_def split: prod.split)

lemma page_complete_reachable:
  "exam_reachable (exam_st s, history s) \<Longrightarrow> length (ci_bytes ci) = 16 \<Longrightarrow>
   exam_reachable (exam_st (page_complete ci s), history (page_complete ci s))"
  by (rule store_step [OF _ _ page_complete_store [symmetric]]) simp_all

lemma exam_length_pos: "int i < exam_length st \<Longrightarrow> \<exists>e. currentExam st = Some e \<and> int i < int (length (questions e))"
  by (auto simp: exam_length_def split: option.splits)

lemma page_handler_reachable:
  assumes r: "exam_reachable (exam_st s, history s)" and en: "page_enabled ev s"
    and b: "length (ci_bytes ci) = 16"
  shows "exam_reachable (exam_st (page_handler ci ev s), history (page_handler ci ev s))"
proof (cases ev)
  case (ClickOption i)
  then show ?thesis using r store_step [OF r, of "Answer _ _"]
    by (auto simp: handleAnswer_def split: option.split)
next
  case ClickNext
  then show ?thesis using r store_step [OF r, of Next] by (simp add: handleNext_def)
next
  case ClickFinish
  then show ?thesis using page_complete_reachable [OF r b] r by (simp add: handleComplete_def)
next
  case (ClickDot i)
  with en obtain e where "currentExam (exam_st s) = Some e" "int i < int (length (questions e))"
    using exam_length_pos by fastforce
  with ClickDot show ?thesis using store_step [OF r, of "Jump (int i)"] by simp
next
  case Reload
  then show ?thesis by (simp add: exam_reachable.init)
qed (use r store_step [OF r, of "Start (Some sampleExam)"] store_step [OF r, of Previous]
      store_step [OF r, of Reset] store_step [OF r, of Tick] page_complete_reachable [OF r b] in
      \<open>simp_all add: handleStartExam_def handlePrevious_def handleReset_def\<close>)

lemma store_frame [simp]:
  "currentExam (answerQuestion q a st) = currentExam st"
  "isExamCompleted (answerQuestion q a st) = isExamCompleted st"
  "results (answerQuestion q a st) = results st"
  "isExamStarted (answerQuestion q a st) = isExamStarted st"
  "currentExam (nextQuestion st) = currentExam st"
  "isExamCompleted (nextQuestion st) = isExamCompleted st"
  "results (nextQuestion st) = results st"
  "isExamStarted (nextQuestion st) = isExamStarted st"
  "currentExam (previousQuestion st) = currentExam st"
  "isExamCompleted (previousQuestion st) = isExamCompleted st"
  "results (previousQuestion st) = results st"
  "isExamStarted (previousQuestion st) = isExamStarted st"
  "currentExam (tick st) = currentExam st"
  "isExamCompleted (tick st) = isExamCompleted st"
  "results (tick st) = results st"
  "isExamStarted (tick st) = isExamStarted st"
  by (simp_all add: answerQuestion_def nextQuestion_def previousQuestion_def tick_def Let_def
      split: option.split)

lemma sample_result_shape:
  "totalQuestions (completeExam_result a b n sampleExam st) = 10 \<and>
   score (completeExam_result a b n sampleExam st) =
     js_percent (correctAnswers (completeExam_result a b n sampleExam st)) 10 \<and>
   0 \<le> correctAnswers (completeExam_result a b n sampleExam st)"
  by (simp add: completeExam_result_def Let_def)

lemma page_complete_sample:
  "currentExam (exam_st s) = Some sampleExam \<Longrightarrow>
   exam_st (page_complete ci s) =
     (exam_st s)\<lparr>isExamCompleted := True,
       results := Some (completeExam_result (ci_auth ci) (ci_bytes ci) (ci_now ci) sampleExam (exam_st s))\<rparr>"
  by (simp add: page_complete_def completeExam_completes)

lemma page_complete_none: "currentExam (exam_st s) = None \<Longrightarrow> page_complete ci s = s"
  by (simp add: page_complete_def completeExam_def)

lemma page_complete_shape:
  "sample_only (exam_st s) \<Longrightarrow> result_ok (exam_st s) \<Longrightarrow>
   sample_only (exam_st (page_complete ci s)) \<and> result_ok (exam_st (page_complete ci s))"
  unfolding sample_only_def
  by (elim disjE) (simp_all add: page_complete_none page_complete_sample result_ok_def sample_result_shape)

lemma page_handler_shape:
  assumes "sample_only (exam_st s)" "result_ok (exam_st s)"
  shows "sample_only (exam_st (page_handler ci ev s)) \<and> result_ok (exam_st (page_handler ci ev s))"
proof (cases ev)
  case ClickFinish
  then show ?thesis using assms page_complete_shape [OF assms] by (simp add: handleComplete_def)
next
  case ClickConfirm
  then show ?thesis using page_complete_shape [OF assms] by simp
qed (use assms in \<open>auto simp: sample_only_def result_ok_def handleStartExam_def handleAnswer_def
      handleNext_def handlePrevious_def handleReset_def startExam_def resetExam_def exam_initial_def
      jumpToQuestion_def split: option.split\<close>)

lemma started_exam:
  "exam_reachable (st, h) \<Longrightarrow> sample_only st \<Longrightarrow> isExamStarted st \<Longrightarrow>
   currentExam st = Some sampleExam \<and> 0 \<le> timeRemaining st"
  using reachable_exam_inv [of "(st, h)"] by (auto simp: sample_only_def exam_inv_def)

lemma auto_complete_inv:
  assumes r: "exam_reachable (exam_st s, history s)" and sh: "sample_only (exam_st s)" "result_ok (exam_st s)"
    and b: "length (ci_bytes ci) = 16"
  shows "page_inv (auto_complete ci s)"
proof (cases "timeRemaining (exam_st s) = 0 \<and> isExamStarted (exam_st s) \<and> \<not> isExamCompleted (exam_st s)")
  case True
  then have "currentExam (exam_st s) = Some sampleExam" using started_exam [OF r sh(1)] by simp
  with True show ?thesis
    using page_complete_reachable [OF r b] page_complete_shape [OF sh]
    by (simp add: auto_complete_def page_inv_def page_complete_sample)
next
  case False
  then show ?thesis using r sh started_exam [OF r sh(1)]
    by (auto simp: auto_complete_def page_inv_def)
qed

lemma page_inv_step:
  "page_inv s \<Longrightarrow> page_enabled ev s \<Longrightarrow> length (ci_bytes ci) = 16 \<Longrightarrow> page_inv (page_step ci ev s)"
  unfolding page_step_def
  by (rule auto_complete_inv) (auto simp: page_inv_def intro: page_handler_reachable dest: page_handler_shape)

lemma reachable_page_inv: "page_reachable s \<Longrightarrow> page_inv s"
proof (induction rule: page_reachable.induct)
  case (init persisted h)
  then show ?case
    using exam_reachable.init [of persisted h]
    by (simp add: page_inv_def page_initial_def sample_only_def result_ok_def exam_initial_def)
next
  case (step s ev ci)
  then show ?case by (simp add: page_inv_step)
qed

lemma page_reachable_run:
  "page_reachable s \<Longrightarrow> page_run_ok ci evs s \<Longrightarrow> length (ci_bytes ci) = 16 \<Longrightarrow>
   page_reachable (page_run ci evs s)"
proof (induction evs arbitrary: s)
  case Nil
  then show ?case by simp
next
  case (Cons ev evs)
  then have "page_reachable (page_step ci ev s)" by (simp add: page_reachable.step)
  with Cons show ?case by simp
qed

lemma render_some:
  assumes "page_inv s"
  shows "render s \<noteq> NoScreen"
proof -
  let ?st = "exam_st s"
  have r: "exam_reachable (?st, history s)" and sh: "sample_only ?st" "result_ok ?st"
    using assms by (simp_all add: page_inv_def)
  have ei: "exam_inv ?st" using reachable_exam_inv [OF r] by simp
  show ?thesis
  proof (cases "isExamStarted ?st")
    case True
    then have e: "currentExam ?st = Some sampleExam" using started_exam [OF r sh(1)] by simp
    with ei have "0 \<le> currentQuestionIndex ?st \<and> currentQuestionIndex ?st < 10"
      by (auto simp: exam_inv_def)
    with e have "getCurrentQuestion ?st \<noteq> None" by (simp add: getCurrentQuestion_def)
    with sh(2) True show ?thesis
      by (auto simp: render_def result_ok_def Let_def split: option.split bool.split)
  next
    case False
    then show ?thesis by (simp add: render_def)
  qed
qed

text \<open>
  C23. On every state the page can reach, it renders one of its three screens (the
  \<open>return null\<close> branch is dead), the only exam in the store is the sample exam,
  and a running attempt always has time left (the auto-complete effect never lets a
  running attempt sit at zero).
\<close>

theorem page_reachable_invariants:
  assumes "page_reachable s"
  shows "render s \<noteq> NoScreen \<and>
         (currentExam (exam_st s) = None \<or> currentExam (exam_st s) = Some sampleExam) \<and>
         (isExamStarted (exam_st s) \<and> \<not> isExamCompleted (exam_st s) \<longrightarrow> 0 < timeRemaining (exam_st s))"
  using reachable_page_inv [OF assms] render_some by (simp add: page_inv_def sample_only_def)

theorem page_reachable_invariants_witness:
  "render (page_run sample_input [ClickStart, ClickDot 9] (page_initial None NoHistory)) =
     QuestionScreen (last sampleQuestions)"
proof -
  let ?s = "page_run sample_input [ClickStart, ClickDot 9] (page_initial None NoHistory)"
  have r: "page_reachable ?s"
    by (rule page_reachable_run [OF page_reachable.init])
       (simp_all add: sample_input_def page_step_def auto_complete_def render_def page_initial_def
         exam_initial_def handleStartExam_def startExam_def exam_length_def getCurrentQuestion_def
         jumpToQuestion_def)
  have "render ?s \<noteq> NoScreen" using page_reachable_invariants [OF r] by simp
  then show ?thesis
    by (simp add: sample_input_def page_step_def auto_complete_def render_def page_initial_def
         exam_initial_def handleStartExam_def startExam_def getCurrentQuestion_def jumpToQuestion_def
         sampleExam_def sampleQuestions_def)
qed

lemma results_screen_events:
  assumes "page_inv s" "isExamCompleted (exam_st s)" "page_enabled ev s"
  shows "ev = ClickRetry \<or> ev = Remount \<or> ev = Reload"
proof -
  have r: "exam_reachable (exam_st s, history s)" and sh: "result_ok (exam_st s)"
    using assms(1) by (simp_all add: page_inv_def)
  have "isExamStarted (exam_st s)"
    using reachable_exam_inv [OF r] assms(2) by (simp add: exam_inv_def)
  with sh assms(2) obtain r where "render s = ResultsScreen (js_ge (score r) (passingScore sampleExam)) r"
    by (auto simp: render_def result_ok_def)
  with assms(2,3) show ?thesis by (cases ev) simp_all
qed

lemma page_handler_history:
  "page_handler ci ev s = page_complete ci s \<or> history (page_handler ci ev s) = history s"
  by (cases ev) (auto simp: handleStartExam_def handleAnswer_def handleNext_def handlePrevious_def
      handleComplete_def handleReset_def split: option.split)

lemma page_complete_history:
  "currentExam (exam_st s) = Some sampleExam \<Longrightarrow>
   history (page_complete ci s) =
     saveExamResult (ci_write ci) (completeExam_result (ci_auth ci) (ci_bytes ci) (ci_now ci) sampleExam (exam_st s))
       (history s)"
  by (simp add: page_complete_def completeExam_completes)

lemma completed_step_history:
  assumes "page_inv s" "isExamCompleted (exam_st s)" "page_enabled ev s"
  shows "history (page_step ci ev s) = history s"
  using results_screen_events [OF assms] assms(2)
  by (auto simp: page_step_def auto_complete_def handleReset_def resetExam_def exam_initial_def)

text \<open>
  C24. Through the page, the history grows only when an attempt that was not yet
  completed completes, and then by exactly that attempt's result: the page never
  reaches the store's duplicate append, since once completed it offers only the retry
  button and a running attempt completes once.
\<close>

theorem page_history_single_append:
  assumes "page_reachable s" "page_enabled ev s" "length (ci_bytes ci) = 16"
    and "history (page_step ci ev s) \<noteq> history s"
  shows "\<not> isExamCompleted (exam_st s) \<and> isExamCompleted (exam_st (page_step ci ev s)) \<and>
         (\<exists>r. results (exam_st (page_step ci ev s)) = Some r \<and>
              history (page_step ci ev s) = saveExamResult (ci_write ci) r (history s))"
proof -
  have inv: "page_inv s" using reachable_page_inv [OF assms(1)] .
  have nc: "\<not> isExamCompleted (exam_st s)" using completed_step_history [OF inv _ assms(2)] assms(4) by blast
  let ?h = "page_handler ci ev s"
  have hr: "exam_reachable (exam_st ?h, history ?h)" and hs: "sample_only (exam_st ?h)"
    using inv page_handler_shape page_handler_reachable [OF _ assms(2,3)] by (auto simp: page_inv_def)
  show ?thesis
  proof (cases "history ?h = history s")
    case True
    with assms(4) have c: "timeRemaining (exam_st ?h) = 0 \<and> isExamStarted (exam_st ?h) \<and> \<not> isExamCompleted (exam_st ?h)"
      by (auto simp: page_step_def auto_complete_def split: if_splits)
    then have e: "currentExam (exam_st ?h) = Some sampleExam" using started_exam [OF hr hs] by simp
    with c True nc show ?thesis
      by (simp add: page_step_def auto_complete_def page_complete_sample page_complete_history)
  next
    case False
    then have h: "?h = page_complete ci s" using page_handler_history by metis
    with False have "currentExam (exam_st s) \<noteq> None" using page_complete_none by metis
    then have e: "currentExam (exam_st s) = Some sampleExam" using inv by (auto simp: page_inv_def sample_only_def)
    with h nc show ?thesis
      by (simp add: page_step_def auto_complete_def page_complete_sample page_complete_history)
  qed
qed

lemmas page_eval_simps = sample_input_def page_step_def auto_complete_def render_def page_initial_def
  exam_initial_def handleStartExam_def startExam_def exam_length_def getCurrentQuestion_def
  jumpToQuestion_def handleComplete_def

theorem page_history_single_append_witness:
  "\<exists>r. history (page_step sample_input ClickConfirm
          (page_run sample_input [ClickStart, ClickDot 9, ClickFinish] (page_initial None NoHistory))) =
        StoredResults [r]"
proof -
  let ?s = "page_run sample_input [ClickStart, ClickDot 9, ClickFinish] (page_initial None NoHistory)"
  have r: "page_reachable ?s"
    by (rule page_reachable_run [OF page_reachable.init]) (simp_all add: page_eval_simps)
  have en: "page_enabled ClickConfirm ?s" by (simp add: page_eval_simps)
  have ch: "history (page_step sample_input ClickConfirm ?s) \<noteq> history ?s"
    by (simp add: page_eval_simps page_complete_def completeExam_def saveExamResult_def js_slice_last_def Let_def)
  from page_history_single_append [OF r en _ ch] obtain res where
    "history (page_step sample_input ClickConfirm ?s) = saveExamResult True res (history ?s)"
    by (auto simp: sample_input_def)
  moreover have "history ?s = NoHistory" by (simp add: page_eval_simps)
  ultimately show ?thesis by (simp add: saveExamResult_def js_slice_last_def)
qed

lemma timer_run:
  assumes "isExamStarted (exam_st s)" "\<not> isExamCompleted (exam_st s)" "timeRemaining (exam_st s) = int (Suc k)"
  shows "page_run_ok ci (replicate (Suc k) TimerFires) s \<and>
         page_run ci (replicate (Suc k) TimerFires) s =
           page_complete ci (s\<lparr>exam_st := (exam_st s)\<lparr>timeRemaining := 0\<rparr>\<rparr>)"
  using assms
proof (induction k arbitrary: s)
  case 0
  then show ?case by (simp add: page_step_def auto_complete_def tick_def)
next
  case (Suc k)
  let ?s' = "page_step ci TimerFires s"
  have s': "?s' = s\<lparr>exam_st := (exam_st s)\<lparr>timeRemaining := int (Suc k)\<rparr>\<rparr>"
    using Suc.prems by (simp add: page_step_def auto_complete_def tick_def)
  have "page_run_ok ci (replicate (Suc k) TimerFires) ?s' \<and>
        page_run ci (replicate (Suc k) TimerFires) ?s' =
          page_complete ci (?s'\<lparr>exam_st := (exam_st ?s')\<lparr>timeRemaining := 0\<rparr>\<rparr>)"
    by (rule Suc.IH) (simp_all add: s' Suc.prems)
  with Suc.prems s' show ?case by simp
qed

text \<open>
  C25. The timer alone ends every running attempt: from any reachable state with an
  attempt running, the one-second interval can fire exactly as many times as there
  are seconds left, and then the auto-complete effect has completed the attempt with
  the full fifteen minutes as time spent and appended its result to the history.
\<close>

theorem timer_completes_attempt:
  assumes "page_reachable s" "isExamStarted (exam_st s)" "\<not> isExamCompleted (exam_st s)"
  shows "page_run_ok ci (replicate (nat (timeRemaining (exam_st s))) TimerFires) s \<and>
         (\<exists>r. results (exam_st (page_run ci (replicate (nat (timeRemaining (exam_st s))) TimerFires) s)) = Some r \<and>
              isExamCompleted (exam_st (page_run ci (replicate (nat (timeRemaining (exam_st s))) TimerFires) s)) \<and>
              timeSpent r = 900 \<and>
              history (page_run ci (replicate (nat (timeRemaining (exam_st s))) TimerFires) s) =
                saveExamResult (ci_write ci) r (history s))"
proof -
  have inv: "page_inv s" using reachable_page_inv [OF assms(1)] .
  then have r: "exam_reachable (exam_st s, history s)" and sh: "sample_only (exam_st s)"
    and pos: "0 < timeRemaining (exam_st s)"
    using assms(2,3) by (simp_all add: page_inv_def)
  have e: "currentExam (exam_st s) = Some sampleExam" using started_exam [OF r sh assms(2)] by simp
  define k where "k = nat (timeRemaining (exam_st s)) - 1"
  have k: "timeRemaining (exam_st s) = int (Suc k)" using pos by (simp add: k_def)
  have n: "nat (timeRemaining (exam_st s)) = Suc k" using pos by (simp add: k_def)
  let ?s0 = "s\<lparr>exam_st := (exam_st s)\<lparr>timeRemaining := 0\<rparr>\<rparr>"
  have e0: "currentExam (exam_st ?s0) = Some sampleExam" using e by simp
  have ts: "timeSpent (completeExam_result a b now sampleExam (exam_st ?s0)) = 900" for a b now
    by (simp add: completeExam_result_def Let_def)
  show ?thesis
    unfolding n using timer_run [OF assms(2,3) k, of ci] page_complete_sample [OF e0, of ci]
      page_complete_history [OF e0, of ci] ts
    by simp
qed

theorem timer_completes_attempt_witness:
  "isExamCompleted (exam_st (page_run sample_input (replicate 900 TimerFires)
      (page_run sample_input [ClickStart] (page_initial None NoHistory))))"
proof -
  let ?s = "page_run sample_input [ClickStart] (page_initial None NoHistory)"
  have r: "page_reachable ?s"
    by (rule page_reachable_run [OF page_reachable.init]) (simp_all add: page_eval_simps)
  have h: "isExamStarted (exam_st ?s)" "\<not> isExamCompleted (exam_st ?s)"
    by (simp_all add: page_eval_simps)
  have n: "nat (timeRemaining (exam_st ?s)) = 900" by (simp add: page_eval_simps)
  note t = timer_completes_attempt [OF r h, of sample_input]
  from t [unfolded n] show ?thesis by blast
qed

lemma percent_of_ten: "(200 * c + 10) div 20 = 10 * (c :: int)"
  by simp

text \<open>
  C26. The result screen says \<open>Aprobado\<close> exactly when at least seven of the ten
  questions were answered correctly: the score of the sample exam is ten points per
  correct answer, compared with the pass mark 70.
\<close>

theorem results_screen_passed:
  assumes "page_reachable s" "render s = ResultsScreen passed r"
  shows "(passed \<longleftrightarrow> 7 \<le> correctAnswers r) \<and> totalQuestions r = 10 \<and> score r = Num (10 * correctAnswers r)"
proof -
  have inv: "page_inv s" using reachable_page_inv [OF assms(1)] .
  from assms(2) have c: "isExamCompleted (exam_st s)" "results (exam_st s) = Some r"
    and p: "passed = js_ge (score r) (passingScore sampleExam)"
    by (auto simp: render_def Let_def split: if_splits bool.splits option.splits)
  with inv have "totalQuestions r = 10" "score r = js_percent (correctAnswers r) 10" "0 \<le> correctAnswers r"
    by (auto simp: page_inv_def result_ok_def)
  with p show ?thesis by (simp add: percent_of_ten)
qed

theorem results_screen_passed_witness:
  "\<exists>p r. render (page_run sample_input [ClickStart, ClickDot 9, ClickFinish, ClickConfirm]
      (page_initial None NoHistory)) = ResultsScreen p r \<and> \<not> p \<and> correctAnswers r = 0"
proof -
  let ?s = "page_run sample_input [ClickStart, ClickDot 9, ClickFinish, ClickConfirm] (page_initial None NoHistory)"
  have r: "page_reachable ?s"
    by (rule page_reachable_run [OF page_reachable.init])
       (simp_all add: page_eval_simps page_complete_def completeExam_def Let_def)
  have "\<exists>p res. render ?s = ResultsScreen p res \<and> correctAnswers res = 0"
    by (simp add: page_eval_simps page_complete_def completeExam_def Let_def completeExam_result_def; blast)
  then obtain p res where sc: "render ?s = ResultsScreen p res" "correctAnswers res = 0" by blast
  from results_screen_passed [OF r sc(1)] sc show ?thesis by auto
qed

text \<open>
  C27. On every state the store can reach with an exam bound, the progress bar of
  \<open>useExamProgress\<close> is a whole percentage between 0 and 100, the answered count
  never exceeds the total, and the question number lies between 1 and the total; for
  an exam without questions the width is \<open>NaN\<close>.
\<close>

theorem useExamProgress_bounds:
  assumes "exam_reachable (st, h)" "currentExam st = Some e"
  shows "(questions e \<noteq> [] \<longrightarrow>
            (\<exists>k. progress (useExamProgress st) = Num k \<and> 0 \<le> k \<and> k \<le> 100) \<and>
            0 \<le> answered (useExamProgress st) \<and> answered (useExamProgress st) \<le> total (useExamProgress st) \<and>
            (\<exists>n. currentQuestion (useExamProgress st) = Some n \<and> 1 \<le> n \<and> n \<le> total (useExamProgress st))) \<and>
         (questions e = [] \<longrightarrow> progress (useExamProgress st) = NaN)"
proof -
  have inv: "exam_inv st" using reachable_exam_inv [OF assms(1)] by simp
  then have wf: "answers_wf e (answers st)" and ix: "0 \<le> currentQuestionIndex st"
    "currentQuestionIndex st = 0 \<or> currentQuestionIndex st < int (length (questions e))"
    using assms(2) by (simp_all add: exam_inv_def)
  have le: "length (answers st) \<le> length (questions e)" using answers_wf_length [OF wf] .
  show ?thesis
  proof (intro conjI impI)
    assume ne: "questions e \<noteq> []"
    then have tp: "0 < int (length (questions e))" by simp
    let ?a = "int (length (answers st))" and ?t = "int (length (questions e))"
    have "js_percent ?a ?t = Num ((200 * ?a + ?t) div (2 * ?t))" using tp by (rule js_percent_pos)
    moreover have "0 \<le> (200 * ?a + ?t) div (2 * ?t) \<and> (200 * ?a + ?t) div (2 * ?t) \<le> 100"
      using js_percent_bounds [OF tp _ _ calculation] le by simp
    ultimately show "\<exists>k. progress (useExamProgress st) = Num k \<and> 0 \<le> k \<and> k \<le> 100"
      using assms(2) by (simp add: useExamProgress_def)
    show "0 \<le> answered (useExamProgress st)" "answered (useExamProgress st) \<le> total (useExamProgress st)"
      using le assms(2) by (simp_all add: useExamProgress_def)
    show "\<exists>n. currentQuestion (useExamProgress st) = Some n \<and> 1 \<le> n \<and> n \<le> total (useExamProgress st)"
      using ix ne assms(2) by (auto simp: useExamProgress_def Suc_le_eq)
  next
    assume "questions e = []"
    with assms(2) le show "progress (useExamProgress st) = NaN" by (simp add: useExamProgress_def js_percent_def)
  qed
qed

theorem useExamProgress_bounds_witness:
  "progress (useExamProgress (answerQuestion ''1'' 0 (startExam None (exam_initial None)))) = Num 10"
proof -
  let ?st = "answerQuestion ''1'' 0 (startExam None (exam_initial None))"
  have r0: "exam_reachable (startExam None (exam_initial None), NoHistory)"
    using exam_reachable.step [OF exam_reachable.init [of None NoHistory], of "Start None"] by simp
  have r: "exam_reachable (?st, NoHistory)"
    using exam_reachable.step [OF r0, of "Answer ''1'' 0"] by simp
  have e: "currentExam ?st = Some sampleExam"
    by (simp add: answerQuestion_def startExam_def exam_initial_def Let_def split: option.split)
  have ne: "questions sampleExam \<noteq> []" by (simp add: sampleExam_def sampleQuestions_def)
  from useExamProgress_bounds [OF r e] ne have "\<exists>k. progress (useExamProgress ?st) = Num k"
    by blast
  then show ?thesis
    by (simp add: useExamProgress_def answerQuestion_def startExam_def exam_initial_def Let_def
        sampleExam_def sampleQuestions_def js_findIndex_def)
qed

end
