(* ===== verification/Security.thy ===== *)
theory Security
  imports AuthStore
begin

text \<open>
  The helpers of \<open>utils/security.ts\<close>.  No module of the program imports them:
  the session store keeps its own \<open>sanitizeInput\<close> and validators
  (\<open>AuthStore\<close>), and the help chat its own sanitizer.  They are modelled because
  they are exported as the program's security utilities, and what they do differs
  from what their comments say: \<open>sanitizeString\<close> replaces \<open>&\<close>, \<open><\<close>, \<open>>\<close> and
  \<open>"\<close> by themselves, so only the quote and the slash are escaped, and
  \<open>isValidPassword\<close> accepts four characters where the store asks for twelve.
  The parameter of \<open>sanitizeString\<close> is \<open>unknown\<close>: a string or any other value.
\<close>

datatype js_unknown = JsString string | JsOther

fun sanitizeString :: "js_unknown \<Rightarrow> string" where
  "sanitizeString JsOther = []"
| "sanitizeString (JsString input) =
     js_trim
      (js_replace_char CHR ''/'' ''&#x2F;''
       (js_replace_char (CHR 0x27) ''&#x27;''
        (js_replace_char (CHR 0x22) [CHR 0x22]
         (js_replace_char CHR ''>'' ''>''
          (js_replace_char CHR ''<'' ''<''
           (js_replace_char CHR ''&'' ''&'' input))))))"

definition isValidEmail :: "string \<Rightarrow> bool" where
  "isValidEmail email_str = EMAIL_REGEX_test email_str"

definition isValidPassword :: "string \<Rightarrow> bool" where
  "isValidPassword password \<longleftrightarrow> 4 \<le> length password"

definition validCompanies :: "string list" where
  "validCompanies = [''GNP'', ''AXA'', ''Banorte'', ''BBVA'', ''Chubb'', ''HSBC'', ''MetLife'', ''Primero'']"

definition isValidCompany :: "string \<Rightarrow> bool" where
  "isValidCompany company_str \<longleftrightarrow> company_str \<in> set validCompanies"

definition sanitizeCredentials :: "login_credentials \<Rightarrow> login_credentials" where
  "sanitizeCredentials credentials =
     \<lparr>cred_email = js_toLowerCase (sanitizeString (JsString (cred_email credentials))),
      cred_password = cred_password credentials,
      cred_company = sanitizeString (JsString (cred_company credentials))\<rparr>"

definition generateSessionToken :: "8 word list \<Rightarrow> string" where
  "generateSessionToken array = concat (map byte_hex array)"

subsection \<open>Properties\<close>

lemma sanitizeString_string:
  "sanitizeString (JsString s) = js_trim (js_replace_char CHR ''/'' ''&#x2F;'' (js_replace_char (CHR 0x27) ''&#x27;'' s))"
  by simp

lemma sanitizeString_no_quote_slash:
  "CHR ''/'' \<notin> set (sanitizeString (JsString s)) \<and> CHR 0x27 \<notin> set (sanitizeString (JsString s))"
proof -
  let ?t = "js_replace_char CHR ''/'' ''&#x2F;'' (js_replace_char (CHR 0x27) ''&#x27;'' s)"
  have "CHR ''/'' \<notin> set ?t \<and> CHR 0x27 \<notin> set ?t" by (auto simp: set_js_replace_char)
  with set_js_trim [of ?t] show ?thesis by (auto simp only: sanitizeString_string)
qed

text \<open>
  C28. \<open>sanitizeString\<close> does not neutralise markup: the characters \<open><\<close>, \<open>>\<close>,
  \<open>"\<close> and \<open>&\<close> occur in its output exactly when they occur in its input
  (the \<open>&\<close> also when a quote or slash was escaped), so \<open><script>\<close> comes out
  unchanged.
\<close>

theorem sanitizeString_keeps_markup:
  "(\<forall>c \<in> {CHR ''<'', CHR ''>'', CHR 0x22}. c \<in> set (sanitizeString (JsString s)) \<longleftrightarrow> c \<in> set s) \<and>
   (CHR ''&'' \<in> set s \<longrightarrow> CHR ''&'' \<in> set (sanitizeString (JsString s))) \<and>
   sanitizeString (JsString ''<script>alert(1)<&#x2F;script>'') = ''<script>alert(1)<&#x2F;script>''"
proof (intro conjI ballI impI)
  fix c assume c: "c \<in> {CHR ''<'', CHR ''>'', CHR 0x22}"
  then have ns: "\<not> js_is_space c" by (auto simp: js_is_space_def)
  have "c \<in> set (js_replace_char CHR ''/'' ''&#x2F;'' (js_replace_char (CHR 0x27) ''&#x27;'' s)) \<longleftrightarrow> c \<in> set s"
    using c by (auto simp: set_js_replace_char)
  then show "c \<in> set (sanitizeString (JsString s)) \<longleftrightarrow> c \<in> set s"
    using js_trim_keeps [OF _ ns] set_js_trim by (auto simp: sanitizeString_string)
next
  assume "CHR ''&'' \<in> set s"
  then have "CHR ''&'' \<in> set (js_replace_char CHR ''/'' ''&#x2F;'' (js_replace_char (CHR 0x27) ''&#x27;'' s))"
    by (auto simp: set_js_replace_char)
  then show "CHR ''&'' \<in> set (sanitizeString (JsString s))"
    using js_trim_keeps [of "CHR ''&''"] by (simp add: js_is_space_def)
next
  show "sanitizeString (JsString ''<script>alert(1)<&#x2F;script>'') = ''<script>alert(1)<&#x2F;script>''"
    by (simp add: js_trim_def js_is_space_def)
qed

theorem sanitizeString_keeps_markup_witness: "CHR ''<'' \<in> set (sanitizeString (JsString ''<b>''))"
  using sanitizeString_keeps_markup [of "''<b>''"] by simp

lemma sanitizeString_fixes:
  "js_replace_char CHR ''/'' ''&#x2F;'' (js_replace_char (CHR 0x27) ''&#x27;'' (sanitizeString (JsString s))) =
   sanitizeString (JsString s)"
  using sanitizeString_no_quote_slash [of s] by (simp add: js_replace_char_absent)

text \<open>
  \<open>sanitizeString\<close> is idempotent: sanitizing an already sanitized string changes
  nothing.  (This holds only because \<open>&\<close> is not escaped; it is also why the
  function cannot be undone.)
\<close>

theorem sanitizeString_idempotent:
  "sanitizeString (JsString (sanitizeString (JsString s))) = sanitizeString (JsString s)"
proof -
  have "sanitizeString (JsString (sanitizeString (JsString s))) = js_trim (sanitizeString (JsString s))"
    by (simp only: sanitizeString_string [of "sanitizeString (JsString s)"] sanitizeString_fixes)
  also have "\<dots> = sanitizeString (JsString s)" by (simp only: sanitizeString_string js_trim_idem)
  finally show ?thesis .
qed

text \<open>
  C30. The exported password check is far weaker than the one the session store
  applies: every password the store accepts passes \<open>isValidPassword\<close>, but so does
  any four-character string, which the store rejects.
\<close>

theorem isValidPassword_weaker:
  "(valid (validatePasswordStrength p) \<longrightarrow> isValidPassword p) \<and>
   isValidPassword ''abcd'' \<and> \<not> valid (validatePasswordStrength ''abcd'')"
  using valid_password_length [of p] by (auto simp: isValidPassword_def validatePasswordStrength_def)

theorem isValidPassword_weaker_witness: "isValidPassword (cred_password demo_credentials)"
  using isValidPassword_weaker [of "cred_password demo_credentials"] demo_credentials_pass by simp

end
