(* ===== verification/Splash.thy ===== *)
theory Splash
  imports Prelude
begin

text \<open>
  \<open>components/SplashScreen.tsx\<close>: the splash image is shown for four seconds from
  the first mount, then the children.  The state is the \<open>showSplash\<close> flag and the
  two refs (\<open>isHidden\<close>, \<open>splashStartTime\<close>), with the pending timer's deadline.
  The effect runs on mount and again after a clean-up (React's development mode
  mounts twice); the start time is kept in a ref, so a second run waits only for
  what is left of the four seconds.  \<open>Date.now()\<close> is the effect's input.
  The splash markup shows \<open>components/Logo.tsx\<close>, modelled here as \<open>Logo\<close>.
\<close>

record splash_state =
  showSplash :: bool
  isHidden :: bool
  splashStartTime :: "int option"
  splash_timer :: "int option"

definition SPLASH_DURATION :: int where
  "SPLASH_DURATION = 4000"

definition splash_initial :: splash_state where
  "splash_initial = \<lparr>showSplash = True, isHidden = False, splashStartTime = None, splash_timer = None\<rparr>"

definition hideSplash :: "splash_state \<Rightarrow> splash_state" where
  "hideSplash st = (if \<not> isHidden st then st\<lparr>isHidden := True, showSplash := False\<rparr> else st)"

definition splash_effect :: "int \<Rightarrow> splash_state \<Rightarrow> splash_state" where
  "splash_effect now st =
     (let start = (case splashStartTime st of None \<Rightarrow> now | Some t \<Rightarrow> t);
          st1 = st\<lparr>splashStartTime := Some start\<rparr>;
          elapsed = now - start;
          remaining = SPLASH_DURATION - elapsed
      in if remaining \<le> 0 then hideSplash st1 else st1\<lparr>splash_timer := Some (now + remaining)\<rparr>)"

definition splash_cleanup :: "splash_state \<Rightarrow> splash_state" where
  "splash_cleanup st = st\<lparr>splash_timer := None\<rparr>"

definition splash_timer_fires :: "splash_state \<Rightarrow> splash_state" where
  "splash_timer_fires st = (case splash_timer st of None \<Rightarrow> st | Some d \<Rightarrow> hideSplash (st\<lparr>splash_timer := None\<rparr>))"

datatype splash_event = EffectRuns int | CleanUp | SplashTimerFires

fun splash_step :: "splash_event \<Rightarrow> splash_state \<Rightarrow> splash_state" where
  "splash_step (EffectRuns now) st = splash_effect now st"
| "splash_step CleanUp st = splash_cleanup st"
| "splash_step SplashTimerFires st = splash_timer_fires st"

text \<open>
  \<open>components/Logo.tsx\<close>: an image whose class is
  \<open>`logo logo-${size} ${className}`\<close>, with the defaults \<open>size = 'medium'\<close> and
  \<open>className = ''\<close> for absent props.
\<close>

record logo_img =
  logo_alt :: string
  logo_class :: string

definition Logo :: "string option \<Rightarrow> string option \<Rightarrow> logo_img" where
  "Logo logo_size className =
     \<lparr>logo_alt = ''GProA Logo'',
      logo_class = ''logo logo-'' @ (case logo_size of None \<Rightarrow> ''medium'' | Some s \<Rightarrow> s) @ '' '' @
                   (case className of None \<Rightarrow> [] | Some c \<Rightarrow> c)\<rparr>"

text \<open>The splash markup: the large logo, the title, the subtitle and the loading text.\<close>

datatype splash_view = SplashView logo_img string string string | ChildrenView

definition splash_render :: "splash_state \<Rightarrow> splash_view" where
  "splash_render st =
     (if \<not> showSplash st then ChildrenView
      else SplashView (Logo (Some ''large'') None) ''GProA'' ''Capacitacion Bancos y Aseguradoras''
                      ''Cargando contenidos CNSF...'')"

lemma hideSplash_idem: "hideSplash (hideSplash st) = hideSplash st"
  by (simp add: hideSplash_def)

lemma hidden_stays_hidden: "\<not> showSplash st \<Longrightarrow> isHidden st \<Longrightarrow> \<not> showSplash (splash_step ev st)"
  by (cases ev) (auto simp: splash_effect_def splash_cleanup_def splash_timer_fires_def hideSplash_def Let_def
      split: option.split)

text \<open>
  Mounted at \<open>t0\<close>, cleaned up and mounted again at \<open>t1\<close> within the four
  seconds, the timer is due at \<open>t0 + 4000\<close>, and when it fires the children show.
\<close>

lemma splash_double_mount:
  assumes "t0 \<le> t1" "t1 < t0 + 4000"
  shows "splash_timer (fold splash_step [EffectRuns t0, CleanUp, EffectRuns t1] splash_initial) = Some (t0 + 4000) \<and>
         splash_render (fold splash_step [EffectRuns t0, CleanUp, EffectRuns t1, SplashTimerFires] splash_initial) = ChildrenView"
  using assms
  by (simp add: splash_initial_def splash_effect_def splash_cleanup_def splash_timer_fires_def hideSplash_def
      splash_render_def SPLASH_DURATION_def Let_def)


lemma Logo_defaults: "logo_class (Logo None None) = ''logo logo-medium ''"
  by (simp add: Logo_def)

end
