(* ===== verification/Navigation.thy ===== *)
theory Navigation
  imports AuthStore Splash
begin

text \<open>
  The routing of \<open>App.tsx\<close> with the guard \<open>components/ProtectedRoute.tsx\<close>, the
  navigation of the dashboard (\<open>pages/Dashboard.tsx\<close>: its quick actions, the
  greeting, \<open>handleLogout\<close>) and the login page (\<open>pages/Login.tsx\<close>: its form,
  the demo buttons, \<open>handleSubmit\<close>, the redirect once authenticated, and what it
  renders, with the logo of \<open>Splash\<close>).
  A route's element is a page, a \<open><Navigate>\<close> to another path, or \<open>null\<close>;
  following the redirects is \<open>navigate\<close>, with a fuel bound on the number of
  redirects, and two are enough for every path.  The login page drives the session
  store through \<open>auth_step\<close>, so its runs are runs of \<open>AuthStore\<close>.
\<close>

section \<open>Routes and the guard\<close>

datatype app_page = LoginPage | DashboardPage | SimulatorPage | CoursesPage | ProgressPage | HelpPage

datatype route_element = Render app_page | NavigateTo string | NullElement

text \<open>
  \<open>ProtectedRoute\<close>: \<open>null\<close> while not mounted, a redirect to \<open>/login\<close> without a
  session, the child otherwise.  \<open>isMounted\<close> starts \<open>true\<close> and is set to
  \<open>false\<close> only by the effect's clean-up, after which the component no longer
  renders; the routes below therefore pass \<open>True\<close>.
\<close>

definition ProtectedRoute :: "bool \<Rightarrow> bool \<Rightarrow> app_page \<Rightarrow> route_element" where
  "ProtectedRoute isMounted isAuth child =
     (if \<not> isMounted then NullElement else if \<not> isAuth then NavigateTo ''/login'' else Render child)"

definition protected_routes :: "(string \<times> app_page) list" where
  "protected_routes = [(''/dashboard'', DashboardPage), (''/simulator'', SimulatorPage),
     (''/courses'', CoursesPage), (''/progress'', ProgressPage), (''/help'', HelpPage)]"

definition app_routes :: "bool \<Rightarrow> string \<Rightarrow> route_element" where
  "app_routes isAuth path =
     (if path = ''/login'' then (if isAuth then NavigateTo ''/dashboard'' else Render LoginPage)
      else case map_of protected_routes path of
             Some child \<Rightarrow> ProtectedRoute True isAuth child
           | None \<Rightarrow> NavigateTo (if isAuth then ''/dashboard'' else ''/login''))"

text \<open>Following \<open><Navigate replace>\<close> elements, at most \<open>fuel\<close> route matches.\<close>

fun navigate :: "nat \<Rightarrow> bool \<Rightarrow> string \<Rightarrow> (app_page \<times> string) option" where
  "navigate 0 isAuth path = None"
| "navigate (Suc n) isAuth path =
     (case app_routes isAuth path of
        Render pg \<Rightarrow> Some (pg, path)
      | NavigateTo target \<Rightarrow> navigate n isAuth target
      | NullElement \<Rightarrow> None)"

section \<open>Dashboard\<close>

record quick_action =
  qa_id :: string
  qa_icon :: string
  qa_title :: string
  qa_description :: string
  qa_route :: string

definition QUICK_ACTIONS :: "quick_action list" where
  "QUICK_ACTIONS = [
     \<lparr>qa_id = ''simulator'', qa_icon = ''fa-graduation-cap'', qa_title = ''Simulador CNSF'',
      qa_description = ''Evalua tus conocimientos con preguntas oficiales.'', qa_route = ''/simulator''\<rparr>,
     \<lparr>qa_id = ''courses'', qa_icon = ''fa-layer-group'', qa_title = ''Mis Cursos'',
      qa_description = ''Accede a tu material de estudio.'', qa_route = ''/courses''\<rparr>,
     \<lparr>qa_id = ''reports'', qa_icon = ''fa-chart-line'', qa_title = ''Reportes'',
      qa_description = ''Consulta tu avance y constancias.'', qa_route = ''/progress''\<rparr>,
     \<lparr>qa_id = ''assistant'', qa_icon = ''fa-robot'', qa_title = ''Asistente Virtual'',
      qa_description = ''Soporte inteligente 24/7.'', qa_route = ''/help''\<rparr>]"

text \<open>\<open>user?.name?.split(' ')[0] || 'Usuario'\<close>.\<close>

definition getUserFirstName :: "auth_state \<Rightarrow> string" where
  "getUserFirstName st =
     js_str_or (case user st of None \<Rightarrow> [] | Some u \<Rightarrow> js_split_first CHR '' '' (name u)) ''Usuario''"

text \<open>\<open>handleLogout\<close>: the store's \<open>logout\<close>, then \<open>navigate('/login')\<close>.\<close>

definition handleLogout :: "auth_state \<times> login_credentials list \<Rightarrow> (auth_state \<times> login_credentials list) \<times> string" where
  "handleLogout s = (auth_step Logout s, ''/login'')"

section \<open>The login page\<close>

definition aseguradoras :: "(string \<times> string) list" where
  "aseguradoras = [(''GNP'', ''GNP (Grupo Nacional Provincial)''), (''AXA'', ''AXA Mexico''),
     (''Banorte'', ''Banorte Seguros''), (''BBVA'', ''BBVA Seguros''), (''Chubb'', ''Chubb Mexico''),
     (''HSBC'', ''HSBC Seguros''), (''MetLife'', ''MetLife Mexico''), (''Primero'', ''Primero Seguros'')]"

text \<open>\<open>demoUsers\<close>: the e-mail and company of each demo button.\<close>

definition demoUsers :: "(string \<times> string) list" where
  "demoUsers = [(''demo@gnp.com'', ''GNP''), (''demo@axa.com'', ''AXA''), (''demo@banorte.com'', ''Banorte'')]"

datatype form_field = EmailField | PasswordField | CompanyField

text \<open>
  The page's state: the form's credentials and the session store with its pending
  logins.  \<open>handleChange\<close> writes the named field and clears a shown error;
  \<open>handleSubmit\<close> calls \<open>login\<close>; the demo buttons fill e-mail and company and
  empty the password.
\<close>

record login_page =
  form :: login_credentials
  session :: "auth_state \<times> login_credentials list"

definition handleChange :: "form_field \<Rightarrow> string \<Rightarrow> login_page \<Rightarrow> login_page" where
  "handleChange fld v p =
     (let c = form p;
          c' = (case fld of EmailField \<Rightarrow> c\<lparr>cred_email := v\<rparr> | PasswordField \<Rightarrow> c\<lparr>cred_password := v\<rparr>
                | CompanyField \<Rightarrow> c\<lparr>cred_company := v\<rparr>)
      in p\<lparr>form := c', session := (if error (fst (session p)) \<noteq> None then auth_step ClearError (session p)
                                   else session p)\<rparr>)"

definition handleSubmit :: "login_page \<Rightarrow> login_page" where
  "handleSubmit p = p\<lparr>session := auth_step (Login (form p)) (session p)\<rparr>"

definition handleDemoAccess :: "string \<times> string \<Rightarrow> login_page \<Rightarrow> login_page" where
  "handleDemoAccess d p = p\<lparr>form := \<lparr>cred_email = fst d, cred_password = [], cred_company = snd d\<rparr>\<rparr>"

definition handleQuickDemo :: "login_page \<Rightarrow> login_page" where
  "handleQuickDemo p = p\<lparr>form := \<lparr>cred_email = ''demo@gnp.com'', cred_password = [], cred_company = ''GNP''\<rparr>\<rparr>"

text \<open>The redirect effect: once authenticated, the page navigates to the dashboard.\<close>

definition login_redirect :: "login_page \<Rightarrow> string option" where
  "login_redirect p = (if isAuthenticated (fst (session p)) then Some ''/dashboard'' else None)"

datatype login_event =
    Change form_field string
  | Submit
  | DemoAccess nat
  | QuickDemo
  | TimerResume "8 word list"

text \<open>
  The form is submitted by its button or by Enter in a field; while \<open>isLoading\<close> the
  button is \<open>disabled\<close>, and a form whose default button is disabled is not
  submitted implicitly either, so \<open>Submit\<close> does nothing then.
\<close>

fun login_page_step :: "login_event \<Rightarrow> login_page \<Rightarrow> login_page" where
  "login_page_step (Change fld v) p = handleChange fld v p"
| "login_page_step Submit p = (if isLoading (fst (session p)) then p else handleSubmit p)"
| "login_page_step (DemoAccess i) p = (if i < length demoUsers then handleDemoAccess (demoUsers ! i) p else p)"
| "login_page_step QuickDemo p = handleQuickDemo p"
| "login_page_step (TimerResume bytes) p = p\<lparr>session := auth_step (LoginResume bytes) (session p)\<rparr>"

definition login_page_initial :: login_page where
  "login_page_initial = \<lparr>form = \<lparr>cred_email = [], cred_password = [], cred_company = []\<rparr>, session = (auth_initial, [])\<rparr>"

text \<open>
  What the login page renders (lines 82--202): the medium logo, the store's error
  above the form, the three fields with their values, the company options after the
  empty placeholder option, the password requirements, the submit button (disabled
  and relabelled while loading) and one demo button per demo user.
\<close>

definition PASSWORD_REQUIREMENTS :: string where
  "PASSWORD_REQUIREMENTS =
     ''Minimo 12 caracteres: 1 mayuscula, 1 minuscula, 1 numero y 1 caracter especial''"

record login_view =
  login_logo :: logo_img
  error_banner :: "string option"
  company_value :: string
  company_options :: "(string \<times> string) list"
  email_value :: string
  password_value :: string
  requirements_text :: string
  submit_disabled :: bool
  submit_label :: string
  demo_buttons :: "string list"

definition login_render :: "login_page \<Rightarrow> login_view" where
  "login_render p =
     \<lparr>login_logo = Logo (Some ''medium'') None,
      error_banner = (case error (fst (session p)) of None \<Rightarrow> None | Some e \<Rightarrow> if e = [] then None else Some e),
      company_value = cred_company (form p),
      company_options = ([], ''Selecciona tu aseguradora'') # aseguradoras,
      email_value = cred_email (form p), password_value = cred_password (form p),
      requirements_text = PASSWORD_REQUIREMENTS,
      submit_disabled = isLoading (fst (session p)),
      submit_label = (if isLoading (fst (session p)) then ''Iniciando sesion...'' else ''Iniciar Sesion''),
      demo_buttons = map snd demoUsers\<rparr>"

text \<open>At most one login in flight, and \<open>isLoading\<close> exactly while one is.\<close>

definition one_login :: "auth_state \<times> login_credentials list \<Rightarrow> bool" where
  "one_login s \<longleftrightarrow> (isLoading (fst s) \<longleftrightarrow> snd s \<noteq> []) \<and> length (snd s) \<le> 1"

text \<open>The states the login page reaches from its first render.\<close>

inductive login_page_reachable :: "login_page \<Rightarrow> bool" where
  init: "login_page_reachable login_page_initial"
| step: "login_page_reachable p \<Longrightarrow> login_page_reachable (login_page_step ev p)"

section \<open>Properties\<close>

lemma navigate_one_short: "navigate 1 False ''/dashboard'' = None"
  by (simp add: app_routes_def protected_routes_def ProtectedRoute_def)

lemma route_login [simp]:
  "app_routes isAuth ''/login'' = (if isAuth then NavigateTo ''/dashboard'' else Render LoginPage)"
  by (simp add: app_routes_def)

lemma route_dashboard [simp]:
  "app_routes isAuth ''/dashboard'' = (if isAuth then Render DashboardPage else NavigateTo ''/login'')"
  by (simp add: app_routes_def protected_routes_def ProtectedRoute_def)

lemma protected_routes_pages: "map_of protected_routes path = Some q \<Longrightarrow> path \<noteq> ''/login'' \<and> q \<noteq> LoginPage"
  by (auto simp: protected_routes_def split: if_splits)

text \<open>
  C31. Every path of the application ends, after at most two redirects, on a page;
  that page is the login page exactly when there is no session, and with a session
  every protected path shows its own page: no protected page is ever shown without a
  session, and no path loops.
\<close>

theorem navigate_guarded:
  "\<exists>pg final. navigate 2 isAuth path = Some (pg, final) \<and> (pg = LoginPage \<longleftrightarrow> \<not> isAuth) \<and>
     (isAuth \<and> map_of protected_routes path = Some q \<longrightarrow> pg = q \<and> final = path)"
proof (cases "path = ''/login''")
  case True
  then show ?thesis by (simp add: numeral_2_eq_2 protected_routes_def)
next
  case False
  show ?thesis
  proof (cases "map_of protected_routes path")
    case None
    with False have "app_routes isAuth path = NavigateTo (if isAuth then ''/dashboard'' else ''/login'')"
      by (simp add: app_routes_def)
    with None show ?thesis by (simp add: numeral_2_eq_2)
  next
    case (Some child)
    with False protected_routes_pages [OF Some] show ?thesis
      by (auto simp: numeral_2_eq_2 app_routes_def ProtectedRoute_def)
  qed
qed

theorem navigate_guarded_witness: "navigate 2 True ''/simulator'' = Some (SimulatorPage, ''/simulator'')"
proof -
  have "map_of protected_routes ''/simulator'' = Some SimulatorPage" by (simp add: protected_routes_def)
  with navigate_guarded [of True "''/simulator''" SimulatorPage] show ?thesis by auto
qed

text \<open>
  The demo buttons of the login page name exactly demo accounts of the session
  store, with the same company, which is one the company selector offers; but they
  leave the password empty, so a demo button followed by submitting can never log in:
  the user has to type a password that passes the strength check.
\<close>

theorem demo_buttons:
  "(\<forall>d \<in> set demoUsers. \<exists>u. DEMO_USERS (fst d) = Some u \<and> company u = snd d \<and>
       snd d \<in> set (map fst aseguradoras)) \<and>
   \<not> snd (login_begin (form (handleQuickDemo p)) st) \<and>
   (i < length demoUsers \<longrightarrow> \<not> snd (login_begin (form (handleDemoAccess (demoUsers ! i) p)) st))"
  by (auto simp: demoUsers_def DEMO_USERS_def aseguradoras_def handleQuickDemo_def handleDemoAccess_def
      login_begin_running validatePasswordStrength_def less_Suc_eq numeral_eq_Suc)

theorem demo_buttons_witness:
  "\<not> snd (login_begin (form (handleDemoAccess (demoUsers ! 2) login_page_initial)) auth_initial)"
  using demo_buttons [of login_page_initial auth_initial 2] by (simp add: demoUsers_def)

lemma route_shape:
  "(\<exists>pg. app_routes isAuth path = Render pg) \<or>
   (\<exists>t pg. app_routes isAuth path = NavigateTo t \<and> app_routes isAuth t = Render pg)"
proof (cases "path = ''/login''")
  case True
  then show ?thesis by simp
next
  case False
  show ?thesis
  proof (cases "map_of protected_routes path")
    case None
    with False have "app_routes isAuth path = NavigateTo (if isAuth then ''/dashboard'' else ''/login'')"
      by (simp add: app_routes_def)
    then show ?thesis by simp
  next
    case (Some child)
    with False show ?thesis by (simp add: app_routes_def ProtectedRoute_def)
  qed
qed

text \<open>
  Redirect chains terminate: with two route matches every path has reached its
  page, and more fuel never changes the outcome, so the redirects of \<open>App\<close> and
  \<open>ProtectedRoute\<close> cannot loop; one match is not always enough.
\<close>

lemma navigate_terminates:
  assumes "2 \<le> n"
  shows "navigate n isAuth path = navigate 2 isAuth path \<and> navigate 2 isAuth path \<noteq> None \<and>
         navigate 1 False ''/dashboard'' = None"
proof -
  obtain m where n: "n = Suc (Suc m)" using assms by (metis add_2_eq_Suc le_Suc_ex)
  have "navigate (Suc (Suc m)) isAuth path = navigate 2 isAuth path \<and> navigate 2 isAuth path \<noteq> None"
    using route_shape [of isAuth path] by (auto simp: numeral_2_eq_2)
  with n navigate_one_short show ?thesis by simp
qed

lemma quick_demo_typed:
  "form (fold login_page_step [QuickDemo, Change PasswordField pw] login_page_initial) =
     \<lparr>cred_email = ''demo@gnp.com'', cred_password = pw, cred_company = ''GNP''\<rparr> \<and>
   session (fold login_page_step [QuickDemo, Change PasswordField pw] login_page_initial) = (auth_initial, [])"
  by (simp add: handleChange_def handleQuickDemo_def login_page_initial_def auth_initial_def)




lemma login_page_step_one_login:
  assumes "one_login (session p)"
  shows "one_login (session (login_page_step ev p))"
proof -
  obtain a q where sp: "session p = (a, q)" by fastforce
  show ?thesis
  proof (cases ev)
    case (Change fld v)
    then show ?thesis using assms sp
      by (auto simp: one_login_def handleChange_def Let_def clearError_def)
  next
    case Submit
    then show ?thesis using assms sp
      by (auto simp: one_login_def handleSubmit_def login_begin_def Let_def split: prod.split)
  next
    case (TimerResume bytes)
    then show ?thesis using assms sp
      by (auto simp: one_login_def login_finish_def Let_def split: list.split)
  qed (use assms sp in \<open>auto simp: handleDemoAccess_def handleQuickDemo_def\<close>)
qed

lemma login_page_step_auth:
  assumes "\<not> isAuthenticated (fst (session p))" "one_login (session p)"
    "snd (session (login_page_step ev p)) \<noteq> []"
  shows "\<not> isAuthenticated (fst (session (login_page_step ev p)))"
proof -
  obtain a q where sp: "session p = (a, q)" by fastforce
  show ?thesis
  proof (cases ev)
    case (Change fld v)
    then show ?thesis using assms sp
      by (auto simp: handleChange_def Let_def clearError_def)
  next
    case Submit
    then show ?thesis using assms sp
      by (auto simp: handleSubmit_def login_begin_def Let_def split: prod.split)
  next
    case (TimerResume bytes)
    then show ?thesis using assms sp
      by (auto simp: one_login_def split: list.splits)
  qed (use assms sp in \<open>auto simp: handleDemoAccess_def handleQuickDemo_def\<close>)
qed

lemma login_page_one_login:
  assumes "login_page_reachable p"
  shows "(isLoading (fst (session p)) \<longleftrightarrow> snd (session p) \<noteq> []) \<and> length (snd (session p)) \<le> 1"
proof -
  from assms have "one_login (session p)"
  proof (induction rule: login_page_reachable.induct)
    case init
    show ?case by (simp add: one_login_def login_page_initial_def auth_initial_def)
  qed (rule login_page_step_one_login)
  then show ?thesis by (simp add: one_login_def)
qed

lemma login_render_loading:
  "isLoading (fst (session p)) \<Longrightarrow>
   submit_disabled (login_render p) \<and> submit_label (login_render p) = ''Iniciando sesion...'' \<and>
   login_page_step Submit p = p"
  by (simp add: login_render_def)

end
