(* ===== verification/Dashboard.thy ===== *)
theory Dashboard
  imports Navigation
begin

text \<open>
  The dashboard page \<open>pages/Dashboard.tsx\<close>: the statistics cards
  (\<open>STATS_DATA\<close> with \<open>getVariantClass\<close>), the quick-action cards with their click
  and keyboard handlers (\<open>handleQuickActionClick\<close>), the logout button, and what
  the page renders from the session (\<open>dashboard_render\<close>).  The handlers return
  the path they pass to \<open>navigate\<close>; following it is \<open>Navigation.navigate\<close>.
  The date of the last access is \<open>new Date().toLocaleDateString()\<close>, an input
  of the render.
\<close>

section \<open>Statistics\<close>

datatype stat_variant = VariantPrimary | VariantSuccess | VariantInfo | VariantWarning

fun variant_name :: "stat_variant \<Rightarrow> string" where
  "variant_name VariantPrimary = ''primary''"
| "variant_name VariantSuccess = ''success''"
| "variant_name VariantInfo = ''info''"
| "variant_name VariantWarning = ''warning''"

record stat_item =
  stat_id :: string
  stat_icon :: string
  stat_label :: string
  stat_value :: string
  stat_variant :: stat_variant
  stat_trend :: string

definition STATS_DATA :: "stat_item list" where
  "STATS_DATA = [
     \<lparr>stat_id = ''courses'', stat_icon = ''fa-book'', stat_label = ''Cursos Activos'', stat_value = ''12'',
      stat_variant = VariantPrimary, stat_trend = ''+2 este mes''\<rparr>,
     \<lparr>stat_id = ''exams'', stat_icon = ''fa-check-circle'', stat_label = ''Examenes Aprobados'', stat_value = ''8'',
      stat_variant = VariantSuccess, stat_trend = ''Meta: 10''\<rparr>,
     \<lparr>stat_id = ''hours'', stat_icon = ''fa-clock'', stat_label = ''Horas Totales'', stat_value = ''45h'',
      stat_variant = VariantInfo, stat_trend = ''+5h hoy''\<rparr>,
     \<lparr>stat_id = ''average'', stat_icon = ''fa-trophy'', stat_label = ''Promedio General'', stat_value = ''90%'',
      stat_variant = VariantWarning, stat_trend = ''Top 5%''\<rparr>]"

definition getVariantClass :: "string \<Rightarrow> string" where
  "getVariantClass variant = ''stat-card '' @ variant"

section \<open>Handlers\<close>

text \<open>
  A card's \<open>onClick\<close> and its \<open>onKeyDown\<close> (\<open>e.key === 'Enter' && ...\<close>) call
  \<open>handleQuickActionClick(action.route)\<close>, that is \<open>navigate(route)\<close>; the logout
  button runs \<open>handleLogout\<close>, whose \<open>try\<close> never catches since the store's
  \<open>logout\<close> does not throw.  Cards are addressed by their position.
\<close>

definition handleQuickActionClick :: "string \<Rightarrow> string" where
  "handleQuickActionClick route = route"

datatype dashboard_event = ClickQuickAction nat | KeyDownQuickAction nat string | ClickLogout

definition dashboard_handler ::
  "dashboard_event \<Rightarrow> auth_state \<times> login_credentials list \<Rightarrow> (auth_state \<times> login_credentials list) \<times> string option" where
  "dashboard_handler ev s =
     (case ev of
        ClickQuickAction i \<Rightarrow>
          (s, if i < length QUICK_ACTIONS then Some (handleQuickActionClick (qa_route (QUICK_ACTIONS ! i))) else None)
      | KeyDownQuickAction i key \<Rightarrow>
          (s, if i < length QUICK_ACTIONS \<and> key = ''Enter''
              then Some (handleQuickActionClick (qa_route (QUICK_ACTIONS ! i))) else None)
      | ClickLogout \<Rightarrow> (let (s', path) = handleLogout s in (s', Some path)))"

text \<open>The page shown after the event: the path is followed with the session after it.\<close>

definition dashboard_event_page :: "dashboard_event \<Rightarrow> auth_state \<times> login_credentials list \<Rightarrow> (app_page \<times> string) option" where
  "dashboard_event_page ev s =
     (let (s', target) = dashboard_handler ev s
      in case target of None \<Rightarrow> Some (DashboardPage, ''/dashboard'')
         | Some path \<Rightarrow> navigate 2 (isAuthenticated (fst s')) path)"

section \<open>Rendering\<close>

record stat_card =
  card_class :: string
  card_icon_class :: string
  card_value :: string
  card_label :: string
  card_trend :: string

record action_card =
  action_icon_class :: string
  action_title :: string
  action_description :: string

record dashboard_view =
  header_name :: string
  header_name_title :: string
  header_email :: string
  header_email_title :: string
  welcome_name :: string
  last_access :: string
  stat_cards :: "stat_card list"
  action_cards :: "action_card list"

definition user_field :: "(user \<Rightarrow> string) \<Rightarrow> auth_state \<Rightarrow> string" where
  "user_field f st = (case user st of None \<Rightarrow> [] | Some u \<Rightarrow> f u)"

definition dashboard_render :: "auth_state \<Rightarrow> string \<Rightarrow> dashboard_view" where
  "dashboard_render st today =
     \<lparr>header_name = js_str_or (user_field name st) ''Usuario'',
      header_name_title = js_str_or (user_field name st) [],
      header_email = js_str_or (user_field email st) ''usuario@ejemplo.com'',
      header_email_title = js_str_or (user_field email st) [],
      welcome_name = getUserFirstName st,
      last_access = today,
      stat_cards = map (\<lambda>stat. \<lparr>card_class = getVariantClass (variant_name (stat_variant stat)),
                                card_icon_class = ''fas '' @ stat_icon stat, card_value = stat_value stat,
                                card_label = stat_label stat, card_trend = stat_trend stat\<rparr>) STATS_DATA,
      action_cards = map (\<lambda>action. \<lparr>action_icon_class = ''fas '' @ qa_icon action, action_title = qa_title action,
                                    action_description = qa_description action\<rparr>) QUICK_ACTIONS\<rparr>"

section \<open>Properties\<close>

lemma quick_action_routes:
  "map qa_route QUICK_ACTIONS = [''/simulator'', ''/courses'', ''/progress'', ''/help'']"
  by (simp add: QUICK_ACTIONS_def)

lemma quick_action_pages:
  "map (\<lambda>a. navigate 2 True (qa_route a)) QUICK_ACTIONS =
     [Some (SimulatorPage, ''/simulator''), Some (CoursesPage, ''/courses''),
      Some (ProgressPage, ''/progress''), Some (HelpPage, ''/help'')]"
  by (simp add: QUICK_ACTIONS_def app_routes_def protected_routes_def ProtectedRoute_def numeral_2_eq_2)

lemma quick_action_click_key:
  "dashboard_handler (KeyDownQuickAction i key) s =
     (if key = ''Enter'' then dashboard_handler (ClickQuickAction i) s else (s, None))"
  by (simp add: dashboard_handler_def)

lemma dashboard_actions_leave:
  assumes "i < length QUICK_ACTIONS"
  shows "dashboard_event_page (ClickQuickAction i) s =
           (if isAuthenticated (fst s) then navigate 2 True (qa_route (QUICK_ACTIONS ! i))
            else Some (LoginPage, ''/login''))"
  using assms
  by (auto simp: dashboard_event_page_def dashboard_handler_def handleQuickActionClick_def QUICK_ACTIONS_def
                 less_Suc_eq numeral_2_eq_2 app_routes_def protected_routes_def ProtectedRoute_def)

lemma stat_card_classes:
  "map card_class (stat_cards (dashboard_render st today)) =
     [''stat-card primary'', ''stat-card success'', ''stat-card info'', ''stat-card warning'']"
  by (simp add: dashboard_render_def STATS_DATA_def getVariantClass_def)

lemma dashboard_render_anonymous:
  "user st = None \<Longrightarrow>
   header_name (dashboard_render st today) = ''Usuario'' \<and> welcome_name (dashboard_render st today) = ''Usuario'' \<and>
   header_email (dashboard_render st today) = ''usuario@ejemplo.com'' \<and> header_name_title (dashboard_render st today) = []"
  by (simp add: dashboard_render_def user_field_def getUserFirstName_def js_str_or_def)

lemma takeWhile_upto_sep:
  "c \<notin> set w \<Longrightarrow> takeWhile (\<lambda>x. x \<noteq> c) (w @ c # rest) = w"
  by (induction w) auto

lemma welcome_first_word:
  "user st = Some u \<Longrightarrow> name u = w @ CHR '' '' # rest \<Longrightarrow> CHR '' '' \<notin> set w \<Longrightarrow> w \<noteq> [] \<Longrightarrow>
   welcome_name (dashboard_render st today) = w \<and> header_name (dashboard_render st today) = name u"
  by (simp add: dashboard_render_def user_field_def getUserFirstName_def js_str_or_def js_split_first_def
                takeWhile_upto_sep)


lemma dashboard_logout:
  "user (fst (fst (dashboard_handler ClickLogout s))) = None \<and>
   dashboard_event_page ClickLogout s = Some (LoginPage, ''/login'')"
  by (cases s) (simp add: dashboard_event_page_def dashboard_handler_def handleLogout_def logout_def
                          numeral_2_eq_2 app_routes_def)

end
