(* ===== verification/HelpChat.thy ===== *)
theory HelpChat
  imports AuthStore
begin

text \<open>
  The help chat of \<open>pages/Ayuda.tsx\<close>.  Its sanitizer escapes ten characters, the
  six of the session store's \<open>sanitizeInput\<close> and the two kinds of brackets.  The
  component's state is \<open>chat_state\<close>: the input box, the messages, the typing
  indicator, and the queries whose one-second reply timer has not fired yet (all
  timers have the same delay, so they fire in the order they were set).  A handler
  does not change the state directly: it queues React state updates, which are applied
  in order when the handler returns (\<open>chat_update\<close>, \<open>apply_updates\<close>), and it
  reads the state of the render it belongs to.  This is what makes the suggestion
  buttons, which call \<open>setInput(cat)\<close> and then \<open>handleSend()\<close>, send the input
  box's previous text instead of the category.  Timestamps come from \<open>Date.now()\<close>
  and are inputs of the events.  The FAQ table of the source holds one entry; its
  texts are transliterated to ASCII.
\<close>

section \<open>Sanitizer\<close>

definition chat_sanitizeInput :: "string \<Rightarrow> string" where
  "chat_sanitizeInput input =
     (if input = [] then []
      else js_replace_char CHR ''}'' ''&#x7D;''
            (js_replace_char CHR ''{'' ''&#x7B;''
             (js_replace_char CHR '')'' ''&#x29;''
              (js_replace_char CHR ''('' ''&#x28;''
               (js_replace_char CHR ''/'' ''&#x2F;''
                (js_replace_char (CHR 0x27) ''&#x27;''
                 (js_replace_char (CHR 0x22) ''&quot;''
                  (js_replace_char CHR ''>'' ''&gt;''
                   (js_replace_char CHR ''<'' ''&lt;''
                    (js_replace_char CHR ''&'' ''&amp;'' input))))))))))"

definition sanitizeOutput :: "string \<Rightarrow> string" where
  "sanitizeOutput text = chat_sanitizeInput text"

text \<open>Reference reading: the escape of one character, extending the store's.\<close>

definition chat_escape_char :: "char \<Rightarrow> string" where
  "chat_escape_char c =
     (if c = CHR ''('' then ''&#x28;'' else if c = CHR '')'' then ''&#x29;''
      else if c = CHR ''{'' then ''&#x7B;'' else if c = CHR ''}'' then ''&#x7D;''
      else html_escape_char c)"

definition chat_unsafe :: string where
  "chat_unsafe = [CHR ''<'', CHR ''>'', CHR 0x22, CHR 0x27, CHR ''/'', CHR ''('', CHR '')'', CHR ''{'', CHR ''}'']"

section \<open>Messages and replies\<close>

record faq_item =
  pregunta :: string
  respuesta :: string
  categoria :: string

definition faqData :: "faq_item list" where
  "faqData = [\<lparr>pregunta = ''Como accedo a los cursos?'',
     respuesta = ''Desde el panel principal, haz clic en '' @ [CHR 0x22] @ ''Ver Cursos'' @ [CHR 0x22] @ ''...'',
     categoria = ''Cursos''\<rparr>]"

definition fallback_text :: string where
  "fallback_text = ''Lo siento, no encontre una respuesta especifica. Podrias intentar con otras palabras o contactar a soporte@cnsf.gob.mx?''"

datatype chat_sender = BotSender | UserSender

record message =
  msg_id :: int
  msg_text :: string
  msg_sender :: chat_sender

record chat_state =
  chat_input :: string
  messages :: "message list"
  isTyping :: bool
  chat_pending :: "string list"

text \<open>The FAQ lookup of \<open>processResponse\<close>'s timer callback.\<close>

definition faq_match :: "string \<Rightarrow> faq_item option" where
  "faq_match query =
     (let lowerQuery = js_toLowerCase query
      in find (\<lambda>faq. js_includes lowerQuery (js_toLowerCase (pregunta faq)) \<or>
                     js_includes lowerQuery (js_toLowerCase (categoria faq)) \<or>
                     js_includes (js_toLowerCase (respuesta faq)) lowerQuery) faqData)"

definition responseText :: "string \<Rightarrow> string" where
  "responseText query =
     (case faq_match query of Some faq \<Rightarrow> sanitizeOutput (respuesta faq) | None \<Rightarrow> sanitizeOutput fallback_text)"

datatype chat_update =
    SetInput string
  | AppendMessage message
  | SetIsTyping bool
  | ScheduleResponse string

fun apply_update :: "chat_update \<Rightarrow> chat_state \<Rightarrow> chat_state" where
  "apply_update (SetInput v) st = st\<lparr>chat_input := v\<rparr>"
| "apply_update (AppendMessage m) st = st\<lparr>messages := messages st @ [m]\<rparr>"
| "apply_update (SetIsTyping b) st = st\<lparr>isTyping := b\<rparr>"
| "apply_update (ScheduleResponse q) st = st\<lparr>chat_pending := chat_pending st @ [q]\<rparr>"

definition apply_updates :: "chat_update list \<Rightarrow> chat_state \<Rightarrow> chat_state" where
  "apply_updates us st = fold apply_update us st"

definition processResponse :: "string \<Rightarrow> chat_update list" where
  "processResponse query = [SetIsTyping True, ScheduleResponse query]"

definition handleSend :: "int \<Rightarrow> chat_state \<Rightarrow> chat_update list" where
  "handleSend now st =
     (if js_trim (chat_input st) = [] then []
      else [AppendMessage \<lparr>msg_id = now, msg_text = chat_sanitizeInput (js_trim (chat_input st)),
                           msg_sender = UserSender\<rparr>]
           @ processResponse (js_trim (chat_input st)) @ [SetInput []])"

text \<open>The timer of the oldest pending query fires: the reply is appended, typing stops.\<close>

definition responseFires :: "int \<Rightarrow> chat_state \<Rightarrow> chat_state" where
  "responseFires now st =
     (case chat_pending st of
        [] \<Rightarrow> st
      | q # rest \<Rightarrow> st\<lparr>messages := messages st @ [\<lparr>msg_id = now + 1, msg_text = responseText q, msg_sender = BotSender\<rparr>],
                     isTyping := False, chat_pending := rest\<rparr>)"

datatype chat_event = TypeText string | Send int | Suggest string int | Fire int

fun chat_step :: "chat_event \<Rightarrow> chat_state \<Rightarrow> chat_state" where
  "chat_step (TypeText v) st = apply_updates [SetInput v] st"
| "chat_step (Send now) st = apply_updates (handleSend now st) st"
| "chat_step (Suggest cat now) st = apply_updates (SetInput cat # handleSend now st) st"
| "chat_step (Fire now) st = responseFires now st"

definition chat_initial :: chat_state where
  "chat_initial = \<lparr>chat_input = [],
     messages = [\<lparr>msg_id = 1, msg_text = ''Hola! Soy tu asistente de CNSF. En que puedo ayudarte hoy?'',
                  msg_sender = BotSender\<rparr>],
     isTyping = False, chat_pending = []\<rparr>"

inductive chat_reachable :: "chat_state \<Rightarrow> bool" where
  init: "chat_reachable chat_initial"
| step: "chat_reachable st \<Longrightarrow> chat_reachable (chat_step ev st)"

definition count_sender :: "chat_sender \<Rightarrow> message list \<Rightarrow> nat" where
  "count_sender s ms = length (filter (\<lambda>m. msg_sender m = s) ms)"

section \<open>Properties\<close>

subsection \<open>The sanitizer\<close>

lemma chat_special_cases:
  obtains "x = CHR ''('' \<or> x = CHR '')'' \<or> x = CHR ''{'' \<or> x = CHR ''}''"
    | "x = CHR ''&''" | "x = CHR ''<''" | "x = CHR ''>''" | "x = CHR 0x22" | "x = CHR 0x27" | "x = CHR ''/''"
    | "x \<notin> set (CHR ''&'' # chat_unsafe)"
  unfolding chat_unsafe_def by auto

lemma chat_sanitizeInput_append [simp]:
  "chat_sanitizeInput (xs @ ys) = chat_sanitizeInput xs @ chat_sanitizeInput ys"
  by (simp add: chat_sanitizeInput_def)

lemma chat_sanitizeInput_char: "chat_sanitizeInput [x] = chat_escape_char x"
  by (cases rule: chat_special_cases [of x])
     (auto simp: chat_sanitizeInput_def chat_escape_char_def html_escape_char_def chat_unsafe_def)

lemma chat_single_pass: "chat_sanitizeInput s = concat (map chat_escape_char s)"
proof (induction s)
  case Nil
  then show ?case by (simp add: chat_sanitizeInput_def)
next
  case (Cons x s)
  have "chat_sanitizeInput (x # s) = chat_sanitizeInput [x] @ chat_sanitizeInput s"
    using chat_sanitizeInput_append [of "[x]" s] by simp
  with Cons show ?case by (simp add: chat_sanitizeInput_char)
qed

lemma chat_escape_safe: "set (chat_escape_char x) \<inter> set chat_unsafe = {}"
  by (cases rule: chat_special_cases [of x])
     (auto simp: chat_escape_char_def html_escape_char_def chat_unsafe_def)

lemma chat_sanitize_safe: "set (chat_sanitizeInput s) \<inter> set chat_unsafe = {}"
  using chat_escape_safe by (fastforce simp: chat_single_pass)

text \<open>
  C35. The help chat's sanitizer is a single-pass escape of ten characters, and on
  text without brackets it is exactly the session store's \<open>sanitizeInput\<close>: the two
  copies in the source agree wherever their tables overlap.
\<close>

theorem chat_sanitizeInput_refines:
  "chat_sanitizeInput s = concat (map chat_escape_char s) \<and>
   (set s \<inter> {CHR ''('', CHR '')'', CHR ''{'', CHR ''}''} = {} \<longrightarrow> chat_sanitizeInput s = sanitizeInput s)"
proof (intro conjI impI)
  show "chat_sanitizeInput s = concat (map chat_escape_char s)" by (rule chat_single_pass)
next
  assume "set s \<inter> {CHR ''('', CHR '')'', CHR ''{'', CHR ''}''} = {}"
  then have m: "map chat_escape_char s = map html_escape_char s"
    by (auto simp: chat_escape_char_def)
  show "chat_sanitizeInput s = sanitizeInput s"
    by (simp only: chat_single_pass sanitizeInput_single_pass m)
qed

theorem chat_sanitizeInput_refines_witness:
  "chat_sanitizeInput ''<b>Hola</b>'' = sanitizeInput ''<b>Hola</b>''"
proof -
  have "set ''<b>Hola</b>'' \<inter> {CHR ''('', CHR '')'', CHR ''{'', CHR ''}''} = {}" by simp
  with chat_sanitizeInput_refines [of "''<b>Hola</b>''"] show ?thesis by blast
qed

subsection \<open>The chat\<close>

lemma apply_updates_Cons [simp]: "apply_updates (u # us) st = apply_updates us (apply_update u st)"
  by (simp add: apply_updates_def)

lemma apply_updates_Nil [simp]: "apply_updates [] st = st"
  by (simp add: apply_updates_def)

lemma apply_handleSend:
  "apply_updates (handleSend now st) st0 =
     (if js_trim (chat_input st) = [] then st0
      else st0\<lparr>messages := messages st0 @ [\<lparr>msg_id = now, msg_text = chat_sanitizeInput (js_trim (chat_input st)),
                                              msg_sender = UserSender\<rparr>],
               isTyping := True, chat_pending := chat_pending st0 @ [js_trim (chat_input st)],
               chat_input := []\<rparr>)"
  by (simp add: handleSend_def processResponse_def)

definition chat_inv :: "chat_state \<Rightarrow> bool" where
  "chat_inv st \<longleftrightarrow>
     count_sender UserSender (messages st) + 1 = count_sender BotSender (messages st) + length (chat_pending st) \<and>
     (\<forall>m \<in> set (messages st). set (msg_text m) \<inter> set chat_unsafe = {}) \<and>
     (isTyping st \<longrightarrow> chat_pending st \<noteq> [])"

lemma count_sender_snoc [simp]:
  "count_sender s (ms @ [m]) = count_sender s ms + (if msg_sender m = s then 1 else 0)"
  by (simp add: count_sender_def)

lemma chat_inv_step: "chat_inv st \<Longrightarrow> chat_inv (chat_step ev st)"
proof (cases ev)
  case (Fire now)
  assume inv: "chat_inv st"
  show ?thesis
  proof (cases "chat_pending st")
    case Nil
    with Fire inv show ?thesis by (simp add: responseFires_def)
  next
    case (Cons q rest)
    have "set (responseText q) \<inter> set chat_unsafe = {}"
      by (simp add: responseText_def sanitizeOutput_def chat_sanitize_safe split: option.split)
    with Fire Cons inv show ?thesis by (auto simp: responseFires_def chat_inv_def)
  qed
qed (auto simp: chat_inv_def apply_handleSend chat_sanitize_safe)

lemma reachable_chat_inv: "chat_reachable st \<Longrightarrow> chat_inv st"
proof (induction rule: chat_reachable.induct)
  case init
  show ?case by (simp add: chat_inv_def chat_initial_def count_sender_def chat_unsafe_def)
next
  case (step st ev)
  then show ?case by (simp add: chat_inv_step)
qed

text \<open>
  C36. In every state of the help chat, each user message is answered or has its
  reply timer pending (user messages plus the greeting equal bot replies plus pending
  replies), no message text contains a character the sanitizer escapes, and the
  typing indicator shows only while a reply is pending.
\<close>

theorem chat_reachable_invariants:
  assumes "chat_reachable st"
  shows "count_sender UserSender (messages st) + 1 = count_sender BotSender (messages st) + length (chat_pending st) \<and>
         (\<forall>m \<in> set (messages st). set (msg_text m) \<inter> set chat_unsafe = {}) \<and>
         (isTyping st \<longrightarrow> chat_pending st \<noteq> [])"
  using reachable_chat_inv [OF assms] by (simp add: chat_inv_def)

theorem chat_reachable_invariants_witness:
  "length (chat_pending (chat_step (Send 5) (chat_step (TypeText ''<b>cursos'') chat_initial))) = 1"
proof -
  let ?st = "chat_step (Send 5) (chat_step (TypeText ''<b>cursos'') chat_initial)"
  have r: "chat_reachable ?st" by (intro chat_reachable.step chat_reachable.init)
  have "count_sender UserSender (messages ?st) = 1" "count_sender BotSender (messages ?st) = 1"
    by (simp_all add: apply_handleSend chat_initial_def count_sender_def js_trim_def js_is_space_def)
  with chat_reachable_invariants [OF r] show ?thesis by simp
qed

text \<open>
  C37. A suggestion button does not ask about its category: it sends whatever the
  input box held when the page last rendered, exactly as the send button would; on
  an empty box it sends nothing and only writes the category into the box.
\<close>

theorem suggestion_sends_stale_input:
  "messages (chat_step (Suggest cat now) st) = messages (chat_step (Send now) st) \<and>
   chat_pending (chat_step (Suggest cat now) st) = chat_pending (chat_step (Send now) st) \<and>
   (js_trim (chat_input st) = [] \<longrightarrow>
      messages (chat_step (Suggest cat now) st) = messages st \<and> chat_input (chat_step (Suggest cat now) st) = cat)"
  by (simp add: apply_handleSend)

theorem suggestion_sends_stale_input_witness:
  "messages (chat_step (Suggest ''Cursos'' 7) chat_initial) = messages chat_initial \<and>
   chat_input (chat_step (Suggest ''Cursos'' 7) chat_initial) = ''Cursos''"
  using suggestion_sends_stale_input [of "''Cursos''" 7 chat_initial] by (simp add: chat_initial_def js_trim_def apply_handleSend)

text \<open>
  The typing indicator goes off with the first reply even when a second question is
  still waiting for its own.
\<close>

lemma typing_stops_early:
  "let st = fold chat_step [TypeText ''a'', Send 1, TypeText ''b'', Send 2, Fire 3] chat_initial
   in \<not> isTyping st \<and> chat_pending st = [''b'']"
  by (simp add: apply_handleSend responseFires_def chat_initial_def js_trim_def js_is_space_def)

lemma fire_all:
  assumes "length ns \<le> length (chat_pending st)"
  shows "map msg_text (messages (fold chat_step (map Fire ns) st)) =
           map msg_text (messages st) @ map responseText (take (length ns) (chat_pending st)) \<and>
         count_sender BotSender (messages (fold chat_step (map Fire ns) st)) =
           count_sender BotSender (messages st) + length ns \<and>
         count_sender UserSender (messages (fold chat_step (map Fire ns) st)) = count_sender UserSender (messages st) \<and>
         chat_pending (fold chat_step (map Fire ns) st) = drop (length ns) (chat_pending st) \<and>
         isTyping (fold chat_step (map Fire ns) st) = (isTyping st \<and> ns = [])"
  using assms
proof (induction ns arbitrary: st)
  case Nil
  then show ?case by simp
next
  case (Cons n ns)
  then obtain q rest where p: "chat_pending st = q # rest" by (cases "chat_pending st") auto
  let ?st = "chat_step (Fire n) st"
  have st: "messages ?st = messages st @ [\<lparr>msg_id = n + 1, msg_text = responseText q, msg_sender = BotSender\<rparr>]"
    "chat_pending ?st = rest" "\<not> isTyping ?st"
    using p by (simp_all add: responseFires_def)
  from Cons.prems p have "length ns \<le> length (chat_pending ?st)" using st(2) by simp
  from Cons.IH [OF this] st p show ?case by simp
qed

text \<open>
  C33. Every question gets its answer: from any reachable state of the chat, once the
  timers of all pending replies have fired, none is pending, the typing indicator is
  off, the bot has answered every user message (bot messages are one more than user
  messages, the greeting) and the replies are those of the pending questions, in the
  order they were asked.
\<close>

theorem chat_replies_delivered:
  assumes "chat_reachable st" "length ns = length (chat_pending st)"
  shows "chat_pending (fold chat_step (map Fire ns) st) = [] \<and> \<not> isTyping (fold chat_step (map Fire ns) st) \<and>
         count_sender BotSender (messages (fold chat_step (map Fire ns) st)) =
           count_sender UserSender (messages (fold chat_step (map Fire ns) st)) + 1 \<and>
         map msg_text (messages (fold chat_step (map Fire ns) st)) =
           map msg_text (messages st) @ map responseText (chat_pending st)"
proof -
  have inv: "chat_inv st" using reachable_chat_inv [OF assms(1)] .
  have f: "map msg_text (messages (fold chat_step (map Fire ns) st)) =
             map msg_text (messages st) @ map responseText (take (length ns) (chat_pending st))"
    "count_sender BotSender (messages (fold chat_step (map Fire ns) st)) = count_sender BotSender (messages st) + length ns"
    "count_sender UserSender (messages (fold chat_step (map Fire ns) st)) = count_sender UserSender (messages st)"
    "chat_pending (fold chat_step (map Fire ns) st) = drop (length ns) (chat_pending st)"
    "isTyping (fold chat_step (map Fire ns) st) = (isTyping st \<and> ns = [])"
    using fire_all [of ns st] assms(2) by simp_all
  have "isTyping st \<longrightarrow> ns \<noteq> []" using inv assms(2) by (auto simp: chat_inv_def)
  with f inv assms(2) show ?thesis by (auto simp: chat_inv_def)
qed

theorem chat_replies_delivered_witness:
  "chat_pending (fold chat_step [Fire 9] (chat_step (Send 5) (chat_step (TypeText ''cursos'') chat_initial))) = [] \<and>
   \<not> isTyping (fold chat_step [Fire 9] (chat_step (Send 5) (chat_step (TypeText ''cursos'') chat_initial)))"
proof -
  let ?st = "chat_step (Send 5) (chat_step (TypeText ''cursos'') chat_initial)"
  have r: "chat_reachable ?st" by (intro chat_reachable.step chat_reachable.init)
  have "length [9::int] = length (chat_pending ?st)"
    by (simp add: apply_handleSend chat_initial_def js_trim_def js_is_space_def)
  from chat_replies_delivered [OF r this] show ?thesis by simp
qed

end
