(* ===== verification/ProgressPage.thy ===== *)
theory ProgressPage
  imports Prelude
begin

text \<open>
  The progress page \<open>pages/Progreso.tsx\<close>: its data (\<open>datosProgreso\<close>), the four
  chart functions, the status badge, the view toggle and the view the page renders
  from its state (\<open>progreso_render\<close>); the DOM work and the timers are in
  \<open>ProgressDom\<close>.  A chart function draws on
  a canvas; its effect is modelled as the sequence of canvas calls it makes
  (\<open>canvas_op\<close>), with its result.  Canvas coordinates are \<open>real\<close> (the browser's
  doubles, exact here).  Two rules of the canvas API matter: a drawing call with a
  non-finite argument does nothing (so when a division by zero makes an argument
  \<open>NaN\<close> or infinite, the call is left out of the trace), and \<open>arc\<close> with a
  negative radius throws an \<open>IndexSizeError\<close>, which ends the function: that
  result is \<open>Inl\<close> of the calls made before the throw.
\<close>

section \<open>Canvas\<close>

datatype canvas_op =
    ClearRect real real real real
  | BeginPath
  | MoveTo real real
  | LineTo real real
  | Stroke
  | Fill
  | Arc real real real real real
  | FillRect real real real real
  | FillStyle string
  | StrokeStyle string
  | LineWidth real

text \<open>\<open>ctx?.canvas\<close>: absent, or a canvas of the given width and height.\<close>

datatype canvas_ctx = NoCanvas | Canvas nat nat

fun is_arc :: "canvas_op \<Rightarrow> bool" where
  "is_arc (Arc _ _ _ _ _) = True"
| "is_arc _ = False"

fun arc_spans :: "canvas_op list \<Rightarrow> (real \<times> real) list" where
  "arc_spans [] = []"
| "arc_spans (Arc _ _ _ a b # ops) = (a, b) # arc_spans ops"
| "arc_spans (_ # ops) = arc_spans ops"

section \<open>Data\<close>

record module_progress =
  mod_name :: string
  mod_progress :: int
  mod_status :: string
  mod_score :: "real option"

record perf_comparison =
  categories :: "string list"
  perf_user :: "real list"
  perf_average :: "real list"

record activity =
  act_title :: string
  act_description :: string
  act_time :: string
  act_color :: string
  act_icon :: string

record badge =
  badge_name :: string
  badge_color :: string
  badge_icon :: string

record upcoming_eval =
  eval_name :: string
  eval_date :: string
  eval_status :: string

record datos_progreso =
  avatarInitials :: string
  prog_name :: string
  prog_role :: string
  department :: string
  overallProgress :: int
  completedModules :: int
  totalModules :: int
  averageScore :: real
  monthlyProgress :: "real list"
  performanceComparison :: perf_comparison
  timeSpentData :: "real list"
  categoryProgress :: "real list"
  modules :: "module_progress list"
  activities :: "activity list"
  badges :: "badge list"
  upcoming :: "upcoming_eval list"

definition datosProgreso :: datos_progreso where
  "datosProgreso =
     \<lparr>avatarInitials = ''JD'', prog_name = ''Juan Diaz'', prog_role = ''Agente de Seguros'',
      department = ''Sucursal Centro'', overallProgress = 65, completedModules = 5, totalModules = 8, averageScore = 85 / 10,
      monthlyProgress = [30, 45, 55, 60, 65, 70, 75, 80, 78, 82, 85, 90],
      performanceComparison = \<lparr>categories = [''Ene'', ''Feb'', ''Mar'', ''Abr'', ''May'', ''Jun''],
         perf_user = [8, 75 / 10, 82 / 10, 88 / 10, 9, 85 / 10],
         perf_average = [7, 72 / 10, 75 / 10, 78 / 10, 76 / 10, 8]\<rparr>,
      timeSpentData = [2, 3, 5, 4, 6, 4, 3, 5, 4, 6, 5, 4],
      categoryProgress = [25, 20, 15, 10, 30],
      modules = [
        \<lparr>mod_name = ''Aspectos Juridicos'', mod_progress = 100, mod_status = ''completed'', mod_score = Some 9\<rparr>,
        \<lparr>mod_name = ''Aspectos Tecnicos'', mod_progress = 100, mod_status = ''completed'', mod_score = Some (85 / 10)\<rparr>,
        \<lparr>mod_name = ''Bases Tecnicas'', mod_progress = 75, mod_status = ''in-progress'', mod_score = None\<rparr>,
        \<lparr>mod_name = ''Seguro de Vida'', mod_progress = 60, mod_status = ''in-progress'', mod_score = None\<rparr>,
        \<lparr>mod_name = ''Accidentes Personales'', mod_progress = 40, mod_status = ''in-progress'', mod_score = None\<rparr>],
      activities = [
        \<lparr>act_title = ''Completo modulo'', act_description = ''Finalizo el modulo de Aspectos Tecnicos'',
         act_time = ''Hace 2 horas'', act_color = ''#43e97b'', act_icon = ''fas fa-check''\<rparr>,
        \<lparr>act_title = ''Nueva puntuacion'', act_description = ''Obtuvo 9/10 en evaluacion de Aspectos Juridicos'',
         act_time = ''Ayer'', act_color = ''#4facfe'', act_icon = ''fas fa-star''\<rparr>,
        \<lparr>act_title = ''Inicio modulo'', act_description = ''Comenzo el modulo de Seguro de Vida'',
         act_time = ''Hace 3 dias'', act_color = ''#fa709a'', act_icon = ''fas fa-play''\<rparr>],
      badges = [
        \<lparr>badge_name = ''Primer Curso'', badge_color = ''#43e97b'', badge_icon = ''fas fa-trophy''\<rparr>,
        \<lparr>badge_name = ''100% Nota'', badge_color = ''#4facfe'', badge_icon = ''fas fa-medal''\<rparr>,
        \<lparr>badge_name = ''Rapido'', badge_color = ''#fa709a'', badge_icon = ''fas fa-bolt''\<rparr>,
        \<lparr>badge_name = ''Constante'', badge_color = ''#ff7e5f'', badge_icon = ''fas fa-fire''\<rparr>],
      upcoming = [
        \<lparr>eval_name = ''Evaluacion de Vida'', eval_date = ''15 Feb 2026'', eval_status = ''Pendiente''\<rparr>,
        \<lparr>eval_name = ''Examen Final'', eval_date = ''28 Feb 2026'', eval_status = ''Pendiente''\<rparr>]\<rparr>"

section \<open>Charts\<close>

text \<open>\<open>drawLineChart\<close>: the points, evenly spread over the padded width.\<close>

definition line_x :: "nat \<Rightarrow> nat \<Rightarrow> nat \<Rightarrow> real" where
  "line_x w n i = 40 + (real i / (real n - 1)) * (real w - 2 * 40)"

definition line_y :: "nat \<Rightarrow> real \<Rightarrow> real" where
  "line_y h v = real h - 40 - (v / 100) * (real h - 2 * 40)"

definition drawLineChart :: "canvas_ctx \<Rightarrow> real list \<Rightarrow> bool \<times> canvas_op list" where
  "drawLineChart ctx data =
     (case ctx of
        NoCanvas \<Rightarrow> (False, [])
      | Canvas w h \<Rightarrow>
          if w = 0 \<or> h = 0 then (False, [])
          else if length data < 2 then (False, [])
          else (True,
            [ClearRect 0 0 (real w) (real h), StrokeStyle ''#2a5298'', LineWidth 3, BeginPath] @
            map (\<lambda>(i, v). if i = 0 then MoveTo (line_x w (length data) i) (line_y h v)
                          else LineTo (line_x w (length data) i) (line_y h v)) (enumerate 0 data) @
            [Stroke, FillStyle ''#2a5298''] @
            concat (map (\<lambda>(i, v). [BeginPath, Arc (line_x w (length data) i) (line_y h v) 5 0 (2 * pi), Fill])
                        (enumerate 0 data))))"

text \<open>
  \<open>drawBarChart\<close>: two bars per category; \<open>data.user[index]\<close> past the end of the
  array is \<open>undefined\<close>, the height \<open>NaN\<close>, and the \<open>fillRect\<close> does nothing.
\<close>

definition bar_ops :: "nat \<Rightarrow> nat \<Rightarrow> perf_comparison \<Rightarrow> nat \<Rightarrow> canvas_op list" where
  "bar_ops w h data index =
     (let n = length (categories data);
          chartWidth = real w - 2 * 40; chartHeight = real h - 2 * 40;
          barWidth = chartWidth / real n / 2;
          x = 40 + real index * (chartWidth / real n)
      in [FillStyle ''#2a5298''] @
         (if index < length (perf_user data)
          then (let userHeight = (perf_user data ! index / 10) * chartHeight
                in [FillRect x (real h - 40 - userHeight) barWidth userHeight]) else []) @
         [FillStyle ''#cccccc''] @
         (if index < length (perf_average data)
          then (let avgHeight = (perf_average data ! index / 10) * chartHeight
                in [FillRect (x + barWidth) (real h - 40 - avgHeight) barWidth avgHeight]) else []))"

definition drawBarChart :: "canvas_ctx \<Rightarrow> perf_comparison \<Rightarrow> bool \<times> canvas_op list" where
  "drawBarChart ctx data =
     (case ctx of
        NoCanvas \<Rightarrow> (False, [])
      | Canvas w h \<Rightarrow>
          if w = 0 \<or> h = 0 then (False, [])
          else if categories data = [] then (False, [])
          else (True, ClearRect 0 0 (real w) (real h) #
                      concat (map (bar_ops w h data) [0..<length (categories data)])))"

text \<open>
  \<open>drawTimeChart\<close>: bar heights relative to \<open>Math.max(...data)\<close>; when the
  maximum is \<open>0\<close> every height is \<open>NaN\<close> or infinite and no bar is drawn.
\<close>

definition drawTimeChart :: "canvas_ctx \<Rightarrow> real list \<Rightarrow> bool \<times> canvas_op list" where
  "drawTimeChart ctx data =
     (case ctx of
        NoCanvas \<Rightarrow> (False, [])
      | Canvas w h \<Rightarrow>
          if w = 0 \<or> h = 0 then (False, [])
          else if data = [] then (False, [])
          else (let chartWidth = real w - 2 * 40; chartHeight = real h - 2 * 40;
                    barWidth = chartWidth / real (length data); m = Max (set data)
                in (True, ClearRect 0 0 (real w) (real h) #
                      concat (map (\<lambda>(index, value).
                        FillStyle ''#4facfe'' #
                        (if m = 0 then []
                         else (let barHeight = (value / m) * chartHeight
                               in [FillRect (40 + real index * barWidth) (real h - 40 - barHeight) (barWidth - 5) barHeight])))
                        (enumerate 0 data)))))"

text \<open>
  \<open>drawDoughnutChart\<close>: one slice per value, each starting where the previous one
  ended, from \<open>-\<pi>/2\<close>; then the white hole.  The slice angle divides by the sum of
  the values, recomputed for every slice; when the sum is \<open>0\<close> the angles are not
  finite and no slice arc is drawn.
\<close>

definition doughnut_colors :: "string list" where
  "doughnut_colors = [''#43e97b'', ''#2a5298'', ''#4facfe'', ''#fa709a'', ''#ff7e5f'', ''#f6d365'', ''#9f7aea'', ''#68d391'']"

fun doughnut_slices :: "real \<Rightarrow> real \<Rightarrow> real \<Rightarrow> real \<Rightarrow> real \<Rightarrow> nat \<Rightarrow> real list \<Rightarrow> canvas_op list" where
  "doughnut_slices valueSum cx cy r startAngle index [] = []"
| "doughnut_slices valueSum cx cy r startAngle index (value # rest) =
     (let sliceAngle = (value / valueSum) * 2 * pi; endAngle = startAngle + sliceAngle
      in [BeginPath, MoveTo cx cy] @ (if valueSum = 0 then [] else [Arc cx cy r startAngle endAngle]) @
         [FillStyle (doughnut_colors ! (index mod length doughnut_colors)), Fill] @
         doughnut_slices valueSum cx cy r endAngle (Suc index) rest)"

definition drawDoughnutChart :: "canvas_ctx \<Rightarrow> real list \<Rightarrow> canvas_op list + bool \<times> canvas_op list" where
  "drawDoughnutChart ctx data =
     (case ctx of
        NoCanvas \<Rightarrow> Inr (False, [])
      | Canvas w h \<Rightarrow>
          if w = 0 \<or> h = 0 then Inr (False, [])
          else if data = [] then Inr (False, [])
          else (let centerX = real w / 2; centerY = real h / 2;
                    radius = min centerX centerY - 20;
                    ops = ClearRect 0 0 (real w) (real h) #
                          doughnut_slices (sum_list data) centerX centerY radius (- pi / 2) 0 data @
                          [BeginPath, Arc centerX centerY (radius * 6 / 10) 0 (2 * pi), FillStyle ''white'', Fill]
                in if radius < 0 then Inl (takeWhile (\<lambda>op. \<not> is_arc op) ops) else Inr (True, ops)))"

text \<open>Reference reading of the slices: the angle span of each value, from a start angle.\<close>

fun slice_spans :: "real \<Rightarrow> real \<Rightarrow> real list \<Rightarrow> (real \<times> real) list" where
  "slice_spans s a [] = []"
| "slice_spans s a (v # vs) = (a, a + (v / s) * 2 * pi) # slice_spans s (a + (v / s) * 2 * pi) vs"

section \<open>Badges and view\<close>

datatype status_badge = BadgeCompleted | BadgeInProgress | BadgePending

definition getStatusBadge :: "string \<Rightarrow> status_badge" where
  "getStatusBadge status =
     (if status = ''completed'' then BadgeCompleted
      else if status = ''in-progress'' then BadgeInProgress else BadgePending)"

text \<open>\<open>toggleView\<close>: the new view and the notification text it shows.\<close>

definition toggleView :: "string \<Rightarrow> string \<times> string" where
  "toggleView currentView =
     (if currentView = ''detailed'' then ''compact'' else ''detailed'',
      if currentView = ''detailed'' then ''Vista cambiada a modo compacto'' else ''Vista cambiada a modo detallado'')"

section \<open>Rendering\<close>

text \<open>
  What the page renders from its two pieces of state, \<open>activeTab\<close> and
  \<open>currentView\<close> (lines 304--489): the class of each tab button, one progress item
  per module (hidden from the fourth on in the compact view), the activity feed, the
  badges with their gradient, the upcoming evaluations and the four canvases.  The
  score text \<open>module.score ? `${score}/10` : 'Sin evaluar'\<close> tests the number for
  truth, so a score of \<open>0\<close> reads as not evaluated.  Numbers stay numbers in the view.
\<close>

datatype score_text = ScoreOutOfTen real | SinEvaluar

definition score_label :: "real option \<Rightarrow> score_text" where
  "score_label score =
     (case score of None \<Rightarrow> SinEvaluar | Some s \<Rightarrow> if s = 0 then SinEvaluar else ScoreOutOfTen s)"

definition tab_ids :: "(string \<times> string) list" where
  "tab_ids = [(''progress'', ''Progreso''), (''performance'', ''Rendimiento''),
              (''achievements'', ''Logros''), (''comparison'', ''Comparativa'')]"

definition tab_class :: "string \<Rightarrow> string \<Rightarrow> string" where
  "tab_class activeTab t = ''tab '' @ (if activeTab = t then ''active'' else [])"

definition progress_item_class :: "string \<Rightarrow> nat \<Rightarrow> string" where
  "progress_item_class currentView index =
     ''progress-item '' @ (if currentView = ''compact'' \<and> 3 \<le> index then ''hidden'' else [])"

record progress_item =
  item_class :: string
  item_title :: string
  item_percentage :: int
  item_data_progress :: int
  item_badge :: status_badge
  item_score :: score_text

definition module_items :: "string \<Rightarrow> module_progress list \<Rightarrow> progress_item list" where
  "module_items currentView ms =
     map (\<lambda>(index, m). \<lparr>item_class = progress_item_class currentView index, item_title = mod_name m,
                        item_percentage = mod_progress m, item_data_progress = mod_progress m,
                        item_badge = getStatusBadge (mod_status m), item_score = score_label (mod_score m)\<rparr>)
         (enumerate 0 ms)"

text \<open>
  \<open>adjustColor\<close> (lines 492--503) looks the colour up in a fixed table and ignores
  \<open>amount\<close>; a colour missing from the table is returned unchanged.
\<close>

definition colorMap :: "(string \<times> string) list" where
  "colorMap = [(''#4facfe'', ''#2a8df8''), (''#43e97b'', ''#2ad66a''), (''#fa709a'', ''#f84a7e''),
               (''#2a5298'', ''#1e3c72''), (''#ff7e5f'', ''#ff5a3a''), (''#f6d365'', ''#f4c542'')]"

definition adjustColor :: "string \<Rightarrow> int \<Rightarrow> string" where
  "adjustColor color amount = (case map_of colorMap color of Some c \<Rightarrow> c | None \<Rightarrow> color)"

record badge_view =
  badge_gradient :: "string \<times> string"
  badge_view_icon :: string
  badge_view_name :: string

record progreso_view =
  view_header :: "string \<times> string \<times> string \<times> string"
  view_stats :: "int \<times> (int \<times> int) \<times> real"
  tab_buttons :: "(string \<times> string) list"
  progress_items :: "progress_item list"
  activity_feed :: "(string \<times> activity) list"
  badge_list :: "badge_view list"
  upcoming_list :: "upcoming_eval list"
  canvas_sizes :: "(nat \<times> nat) list"

definition progreso_render :: "string \<Rightarrow> string \<Rightarrow> datos_progreso \<Rightarrow> progreso_view" where
  "progreso_render activeTab currentView d =
     \<lparr>view_header = (avatarInitials d, prog_name d, prog_role d, department d),
      view_stats = (overallProgress d, (completedModules d, totalModules d), averageScore d),
      tab_buttons = map (\<lambda>(t, label). (tab_class activeTab t, label)) tab_ids,
      progress_items = module_items currentView (modules d),
      activity_feed = map (\<lambda>a. (act_color a @ ''20'', a)) (activities d),
      badge_list = map (\<lambda>b. \<lparr>badge_gradient = (badge_color b, adjustColor (badge_color b) (- 20)),
                             badge_view_icon = badge_icon b, badge_view_name = badge_name b\<rparr>) (badges d),
      upcoming_list = upcoming d,
      canvas_sizes = [(400, 200), (400, 200), (300, 200), (300, 200)]\<rparr>"

section \<open>Properties\<close>

subsection \<open>The line chart\<close>

lemma scaled_between: "0 \<le> a \<Longrightarrow> a \<le> 1 \<Longrightarrow> 0 \<le> c \<Longrightarrow> 0 \<le> a * c \<and> a * c \<le> (c :: real)"
  using mult_left_le_one_le [of c a] by simp

lemma line_x_bounds:
  assumes "i < n" "2 \<le> n" "80 \<le> w"
  shows "40 \<le> line_x w n i \<and> line_x w n i \<le> real w - 40"
proof -
  have "0 \<le> real i / (real n - 1)" "real i / (real n - 1) \<le> 1" using assms by (simp_all add: divide_le_eq_1)
  moreover have "0 \<le> real w - 2 * 40" using assms by simp
  ultimately show ?thesis using scaled_between [of "real i / (real n - 1)" "real w - 2 * 40"]
    by (simp add: line_x_def)
qed

lemma line_y_bounds:
  assumes "0 \<le> v" "v \<le> 100" "80 \<le> h"
  shows "40 \<le> line_y h v \<and> line_y h v \<le> real h - 40"
proof -
  have "0 \<le> v / 100" "v / 100 \<le> 1" using assms by simp_all
  moreover have "0 \<le> real h - 2 * 40" using assms by simp
  ultimately show ?thesis using scaled_between [of "v / 100" "real h - 2 * 40"]
    by (simp add: line_y_def)
qed

lemma drawLineChart_ok:
  "w \<noteq> 0 \<Longrightarrow> h \<noteq> 0 \<Longrightarrow> 2 \<le> length data \<Longrightarrow> fst (drawLineChart (Canvas w h) data) = True"
  by (simp add: drawLineChart_def)

text \<open>
  C38. \<open>drawLineChart\<close> draws exactly when there is a canvas of non-zero size and at
  least two values, and draws nothing otherwise; on a canvas of at least 80 by 80
  pixels, with values between 0 and 100, every vertex of the line lies inside the
  padded plot area.
\<close>

theorem drawLineChart_bounds:
  assumes "drawLineChart (Canvas w h) data = (ok, ops)"
  shows "(ok \<longleftrightarrow> w \<noteq> 0 \<and> h \<noteq> 0 \<and> 2 \<le> length data) \<and> (\<not> ok \<longrightarrow> ops = []) \<and>
         (80 \<le> w \<and> 80 \<le> h \<and> (\<forall>v \<in> set data. 0 \<le> v \<and> v \<le> 100) \<longrightarrow>
            (\<forall>x y. MoveTo x y \<in> set ops \<or> LineTo x y \<in> set ops \<longrightarrow>
               40 \<le> x \<and> x \<le> real w - 40 \<and> 40 \<le> y \<and> y \<le> real h - 40))"
proof -
  have g: "(ok \<longleftrightarrow> w \<noteq> 0 \<and> h \<noteq> 0 \<and> 2 \<le> length data) \<and> (\<not> ok \<longrightarrow> ops = [])"
    using assms by (auto simp: drawLineChart_def split: if_splits)
  have "40 \<le> x \<and> x \<le> real w - 40 \<and> 40 \<le> y \<and> y \<le> real h - 40"
    if b: "80 \<le> w \<and> 80 \<le> h \<and> (\<forall>v \<in> set data. 0 \<le> v \<and> v \<le> 100)"
      and m: "MoveTo x y \<in> set ops \<or> LineTo x y \<in> set ops" for x y
  proof -
    have n: "2 \<le> length data" using assms m by (auto simp: drawLineChart_def split: if_splits)
    from assms m b obtain i v where iv: "(i, v) \<in> set (enumerate 0 data)"
      and xy: "x = line_x w (length data) i" "y = line_y h v"
      by (auto simp: drawLineChart_def split: if_splits prod.splits)
    from iv have i: "i < length data" and "v = data ! i" by (auto simp: in_set_enumerate_eq)
    then have "v \<in> set data" by simp
    with b have "0 \<le> v" "v \<le> 100" by auto
    with b xy line_y_bounds line_x_bounds [OF i n] show ?thesis by auto
  qed
  with g show ?thesis by blast
qed

theorem drawLineChart_bounds_witness:
  "\<exists>x y. MoveTo x y \<in> set (snd (drawLineChart (Canvas 400 300) (monthlyProgress datosProgreso))) \<and>
         40 \<le> x \<and> x \<le> 360 \<and> 40 \<le> y \<and> y \<le> 260"
proof -
  obtain ok ops where e: "drawLineChart (Canvas 400 300) (monthlyProgress datosProgreso) = (ok, ops)" by fastforce
  have "\<forall>v \<in> set (monthlyProgress datosProgreso). 0 \<le> v \<and> v \<le> 100" by (simp add: datosProgreso_def)
  moreover have "\<exists>x y. MoveTo x y \<in> set ops"
    using e by (auto simp: drawLineChart_def datosProgreso_def)
  then obtain x y where m: "MoveTo x y \<in> set ops" by blast
  ultimately have "40 \<le> x \<and> x \<le> 360 \<and> 40 \<le> y \<and> y \<le> 260"
    using drawLineChart_bounds [OF e] by fastforce
  with m e show ?thesis by auto
qed

subsection \<open>The doughnut chart\<close>

lemma arc_spans_append [simp]: "arc_spans (xs @ ys) = arc_spans xs @ arc_spans ys"
  by (induction xs rule: arc_spans.induct) simp_all

lemma arc_spans_slices:
  "s \<noteq> 0 \<Longrightarrow> arc_spans (doughnut_slices s cx cy r a i vs) = slice_spans s a vs"
  by (induction vs arbitrary: a i) (simp_all add: Let_def)

lemma slice_spans_length [simp]: "length (slice_spans s a vs) = length vs"
  by (induction vs arbitrary: a) simp_all

lemma slice_spans_hd: "vs \<noteq> [] \<Longrightarrow> fst (hd (slice_spans s a vs)) = a"
  by (cases vs) simp_all

lemma slice_spans_Nil_iff [simp]: "slice_spans s a vs = [] \<longleftrightarrow> vs = []"
  by (cases vs) simp_all

lemma slice_spans_first [simp]: "vs \<noteq> [] \<Longrightarrow> fst (slice_spans s a vs ! 0) = a"
  by (cases vs) simp_all

lemma slice_spans_last:
  "vs \<noteq> [] \<Longrightarrow> snd (last (slice_spans s a vs)) = a + (sum_list vs / s) * 2 * pi"
proof (induction vs arbitrary: a)
  case Nil
  then show ?case by simp
next
  case (Cons v vs)
  show ?case
  proof (cases "vs = []")
    case True
    then show ?thesis by simp
  next
    case False
    with Cons.IH have "snd (last (slice_spans s (a + v / s * 2 * pi) vs)) = a + v / s * 2 * pi + sum_list vs / s * 2 * pi"
      by simp
    with False show ?thesis by (simp add: add_divide_distrib algebra_simps)
  qed
qed

lemma slice_spans_contiguous:
  "Suc i < length vs \<Longrightarrow> snd (slice_spans s a vs ! i) = fst (slice_spans s a vs ! Suc i)"
proof (induction vs arbitrary: a i)
  case Nil
  then show ?case by simp
next
  case (Cons v vs)
  then show ?case by (cases i) auto
qed

lemma slice_spans_width:
  "i < length vs \<Longrightarrow> snd (slice_spans s a vs ! i) - fst (slice_spans s a vs ! i) = (vs ! i / s) * 2 * pi"
  by (induction vs arbitrary: a i) (auto simp: nth_Cons split: nat.split)

lemma takeWhile_no_arc: "\<not> list_ex is_arc (takeWhile (\<lambda>op. \<not> is_arc op) ops)"
  by (induction ops) auto

text \<open>
  C39. The doughnut chart's slices tile the circle: when the values have a non-zero
  sum, one slice per value starts at \<open>-\<pi>/2\<close>, each starts where the previous ended,
  each spans its share of \<open>2\<pi>\<close>, and the last ends at \<open>3\<pi>/2\<close>, followed by the hole.
  On a canvas narrower or lower than 40 pixels the radius is negative and the first
  \<open>arc\<close> throws, so no slice is drawn.
\<close>

theorem drawDoughnutChart_slices:
  "(drawDoughnutChart (Canvas w h) data = Inr (True, ops) \<and> sum_list data \<noteq> 0 \<longrightarrow>
      (\<exists>spans. arc_spans ops = spans @ [(0, 2 * pi)] \<and> length spans = length data \<and>
         fst (hd spans) = - pi / 2 \<and> snd (last spans) = 3 * pi / 2 \<and>
         (\<forall>i. Suc i < length spans \<longrightarrow> snd (spans ! i) = fst (spans ! Suc i)) \<and>
         (\<forall>i < length spans. snd (spans ! i) - fst (spans ! i) = (data ! i / sum_list data) * 2 * pi))) \<and>
   (0 < w \<and> 0 < h \<and> data \<noteq> [] \<and> min w h < 40 \<longrightarrow>
      (\<exists>pre. drawDoughnutChart (Canvas w h) data = Inl pre \<and> \<not> list_ex is_arc pre))"
proof (intro conjI impI)
  assume a: "drawDoughnutChart (Canvas w h) data = Inr (True, ops) \<and> sum_list data \<noteq> 0"
  then have ne: "data \<noteq> []" and s: "sum_list data \<noteq> 0"
    by (auto simp: drawDoughnutChart_def split: if_splits)
  let ?spans = "slice_spans (sum_list data) (- pi / 2) data"
  from a have "arc_spans ops = ?spans @ [(0, 2 * pi)]"
    by (auto simp: drawDoughnutChart_def Let_def arc_spans_slices split: if_splits)
  moreover have "snd (last ?spans) = 3 * pi / 2" using slice_spans_last [OF ne] s by simp
  ultimately show "\<exists>spans. arc_spans ops = spans @ [(0, 2 * pi)] \<and> length spans = length data \<and>
         fst (hd spans) = - pi / 2 \<and> snd (last spans) = 3 * pi / 2 \<and>
         (\<forall>i. Suc i < length spans \<longrightarrow> snd (spans ! i) = fst (spans ! Suc i)) \<and>
         (\<forall>i < length spans. snd (spans ! i) - fst (spans ! i) = (data ! i / sum_list data) * 2 * pi)"
    using slice_spans_hd [OF ne] slice_spans_contiguous slice_spans_width by auto
next
  assume "0 < w \<and> 0 < h \<and> data \<noteq> [] \<and> min w h < 40"
  then have "min (real w / 2) (real h / 2) - 20 < 0" "w \<noteq> 0" "h \<noteq> 0" "data \<noteq> []" by auto
  then show "\<exists>pre. drawDoughnutChart (Canvas w h) data = Inl pre \<and> \<not> list_ex is_arc pre"
    by (simp add: drawDoughnutChart_def Let_def takeWhile_no_arc)
qed

theorem drawDoughnutChart_slices_witness:
  "\<exists>pre. drawDoughnutChart (Canvas 30 300) (categoryProgress datosProgreso) = Inl pre \<and> \<not> list_ex is_arc pre"
  using drawDoughnutChart_slices [of 30 300 "categoryProgress datosProgreso"] by (simp add: datosProgreso_def)

subsection \<open>Rendering\<close>

lemma progreso_render_tab_only:
  "(progreso_render t1 v d)\<lparr>tab_buttons := []\<rparr> = (progreso_render t2 v d)\<lparr>tab_buttons := []\<rparr>"
  by (simp add: progreso_render_def)

lemma tab_buttons_active:
  "t \<in> fst ` set tab_ids \<Longrightarrow>
   filter (\<lambda>(c, label). c = ''tab active'') (tab_buttons (progreso_render t v d)) = [(''tab active'', the (map_of tab_ids t))]"
  by (auto simp: progreso_render_def tab_ids_def tab_class_def)

lemma module_items_class:
  "i < length ms \<Longrightarrow>
   item_class (module_items v ms ! i) =
     (if v = ''compact'' \<and> 3 \<le> i then ''progress-item hidden'' else ''progress-item '')"
  by (simp add: module_items_def nth_enumerate_eq progress_item_class_def)

lemma module_items_length [simp]: "length (module_items v ms) = length ms"
  by (simp add: module_items_def)

lemma toggleView_twice: "v \<in> {''detailed'', ''compact''} \<Longrightarrow> fst (toggleView (fst (toggleView v))) = v"
  by (auto simp: toggleView_def)

lemma adjustColor_ignores_amount: "adjustColor c a = adjustColor c b"
  by (simp add: adjustColor_def)

lemma badge_gradients_distinct:
  "\<forall>b \<in> set (badge_list (progreso_render t v datosProgreso)). fst (badge_gradient b) \<noteq> snd (badge_gradient b)"
  by (simp add: progreso_render_def datosProgreso_def adjustColor_def colorMap_def)

lemma score_label_zero: "score_label (Some 0) = SinEvaluar"
  by (simp add: score_label_def)

end
