(* ===== verification/ProgressDom.thy ===== *)
theory ProgressDom
  imports ProgressPage ExamPage "HOL-Library.AList"
begin

text \<open>
  The imperative part of the progress page \<open>pages/Progreso.tsx\<close>: the mount effect
  that draws the four charts and starts the bar animation (lines 59--86), the bar
  animation itself (\<open>animateProgressBars\<close>, lines 241--251), the view toggle with its
  notification (\<open>toggleView\<close> and \<open>showNotification\<close>, lines 254--290) and the tab
  buttons (\<open>setActiveTab\<close>, lines 337--348).  These write to the document directly,
  so the model keeps an explicit heap of elements indexed by reference, the page's
  progress bars in document order, the children that \<open>showNotification\<close> appends
  to \<open>document.body\<close>, a clock in milliseconds and the pending \<open>setTimeout\<close>
  callbacks.  An exception thrown in a timer callback is uncaught: it is counted and
  the page goes on.
\<close>

section \<open>The document\<close>

record dom_el =
  el_class :: string
  el_data_progress :: "string option"
  el_text :: string
  el_style :: "(string \<times> string) list"

type_synonym dom_heap = "nat \<Rightarrow> dom_el option"

text \<open>\<open>element.style.prop = v\<close> replaces the property in place or adds it at the end.\<close>

definition set_style :: "string \<Rightarrow> string \<Rightarrow> dom_el \<Rightarrow> dom_el" where
  "set_style prop v el = el\<lparr>el_style := AList.update prop v (el_style el)\<rparr>"

definition map_el :: "(dom_el \<Rightarrow> dom_el) \<Rightarrow> nat \<Rightarrow> dom_heap \<Rightarrow> dom_heap" where
  "map_el f r h = (case h r of None \<Rightarrow> h | Some el \<Rightarrow> h(r \<mapsto> f el))"

text \<open>The class attribute is a list of tokens separated by ASCII white space.\<close>

definition html_space :: "char \<Rightarrow> bool" where
  "html_space c \<longleftrightarrow> c \<in> set [CHR '' '', CHR 0x09, CHR 0x0A, CHR 0x0C, CHR 0x0D]"

fun class_tokens_acc :: "string \<Rightarrow> string \<Rightarrow> string list" where
  "class_tokens_acc cur [] = (if cur = [] then [] else [cur])"
| "class_tokens_acc cur (c # cs) =
     (if html_space c then (if cur = [] then class_tokens_acc [] cs else cur # class_tokens_acc [] cs)
      else class_tokens_acc (cur @ [c]) cs)"

definition has_class :: "string \<Rightarrow> dom_el \<Rightarrow> bool" where
  "has_class cls el \<longleftrightarrow> cls \<in> set (class_tokens_acc [] (el_class el))"

definition querySelectorAll :: "string \<Rightarrow> dom_heap \<Rightarrow> nat list \<Rightarrow> nat list" where
  "querySelectorAll cls h nodes = filter (\<lambda>r. case h r of None \<Rightarrow> False | Some el \<Rightarrow> has_class cls el) nodes"

section \<open>Page state\<close>

datatype timer_cb = AnimateBars | NotifShow nat | NotifHide nat | NotifRemove nat

text \<open>
  \<open>pg_nodes\<close> are the progress bars of the mounted page in document order (the
  elements the page's own code selects); \<open>pg_body\<close> the notifications appended to
  \<open>document.body\<close> after the application root; \<open>pg_timers\<close> the pending callbacks
  with their due time, in the order they were scheduled; \<open>pg_canvas\<close> the calls the
  mount effect made on the four canvases.
\<close>

record progreso_dom =
  pg_mounted :: bool
  pg_activeTab :: string
  pg_currentView :: string
  pg_heap :: dom_heap
  pg_nodes :: "nat list"
  pg_body :: "nat list"
  pg_next :: nat
  pg_now :: nat
  pg_timers :: "(nat \<times> timer_cb) list"
  pg_canvas :: "canvas_op list list"
  pg_uncaught :: nat

definition alloc_els :: "dom_el list \<Rightarrow> progreso_dom \<Rightarrow> nat list \<times> progreso_dom" where
  "alloc_els els st =
     (let r = pg_next st; refs = [r..<r + length els]
      in (refs, st\<lparr>pg_heap := pg_heap st ++ map_of (zip refs els), pg_next := r + length els\<rparr>))"

text \<open>
  The bars as rendered: one per module with \<open>data-progress={module.progress}\<close>, one
  per upcoming evaluation with \<open>data-progress="0"\<close>, all at width \<open>0%\<close>.
\<close>

definition progress_bars :: "datos_progreso \<Rightarrow> dom_el list" where
  "progress_bars d =
     map (\<lambda>m. \<lparr>el_class = ''progress-fill'', el_data_progress = Some (js_int_str (mod_progress m)),
               el_text = [], el_style = [(''width'', ''0%'')]\<rparr>) (modules d) @
     map (\<lambda>e. \<lparr>el_class = ''progress-fill'', el_data_progress = Some ''0'', el_text = [],
               el_style = [(''width'', ''0%''), (''background'', ''#e0e0e0'')]\<rparr>) (upcoming d)"

section \<open>The mount effect\<close>

text \<open>
  The effect runs once per mount.  The four canvases are rendered, so every
  \<open>getContext('2d')\<close> gives a context and the data arrays are truthy: the four chart
  functions run in order on canvases of 400x200, 400x200, 300x200 and 300x200.  An
  exception of \<open>drawDoughnutChart\<close> ends the effect before \<open>animateProgressBars\<close>.
\<close>

definition progreso_effect :: "datos_progreso \<Rightarrow> canvas_op list list + canvas_op list list" where
  "progreso_effect d =
     (let line = snd (drawLineChart (Canvas 400 200) (monthlyProgress d));
          bars = snd (drawBarChart (Canvas 400 200) (performanceComparison d));
          time = snd (drawTimeChart (Canvas 300 200) (timeSpentData d))
      in case drawDoughnutChart (Canvas 300 200) (categoryProgress d) of
           Inl pre \<Rightarrow> Inl [line, bars, time, pre]
         | Inr (ok, ops) \<Rightarrow> Inr [line, bars, time, ops])"

text \<open>\<open>animateProgressBars\<close> only schedules its work, 500 ms later.\<close>

definition animateProgressBars :: "progreso_dom \<Rightarrow> progreso_dom" where
  "animateProgressBars st = st\<lparr>pg_timers := pg_timers st @ [(pg_now st + 500, AnimateBars)]\<rparr>"

definition mountPage :: "datos_progreso \<Rightarrow> progreso_dom \<Rightarrow> progreso_dom" where
  "mountPage d st =
     (if pg_mounted st then st
      else (let (refs, st1) = alloc_els (progress_bars d) st;
                st2 = st1\<lparr>pg_mounted := True, pg_activeTab := ''progress'', pg_currentView := ''detailed'',
                          pg_nodes := refs\<rparr>
            in case progreso_effect d of
                 Inl traces \<Rightarrow> st2\<lparr>pg_canvas := traces, pg_uncaught := Suc (pg_uncaught st2)\<rparr>
               | Inr traces \<Rightarrow> animateProgressBars (st2\<lparr>pg_canvas := traces\<rparr>)))"

text \<open>Leaving the page removes its elements; the pending timers stay scheduled.\<close>

definition unmountPage :: "progreso_dom \<Rightarrow> progreso_dom" where
  "unmountPage st = st\<lparr>pg_mounted := False, pg_nodes := []\<rparr>"

section \<open>The view toggle and its notification\<close>

definition notification_css :: "(string \<times> string) list" where
  "notification_css =
     [(''position'', ''fixed''), (''bottom'', ''20px''), (''right'', ''20px''), (''background'', ''#2a5298''),
      (''color'', ''white''), (''padding'', ''15px 20px''), (''border-radius'', ''8px''),
      (''box-shadow'', ''0 5px 15px rgba(0,0,0,0.2)''), (''z-index'', ''1000''),
      (''transform'', ''translateY(100px)''), (''opacity'', ''0''),
      (''transition'', ''transform 0.3s ease, opacity 0.3s ease'')]"

definition showNotification :: "string \<Rightarrow> progreso_dom \<Rightarrow> progreso_dom" where
  "showNotification message st =
     (let r = pg_next st
      in st\<lparr>pg_heap := (pg_heap st)(r \<mapsto> \<lparr>el_class = [], el_data_progress = None, el_text = message,
                                           el_style = notification_css\<rparr>),
            pg_next := Suc r, pg_body := pg_body st @ [r],
            pg_timers := pg_timers st @ [(pg_now st + 100, NotifShow r), (pg_now st + 3000, NotifHide r)]\<rparr>)"

text \<open>
  \<open>setCurrentView\<close> is applied at the next render; \<open>showNotification\<close> reads the
  view of the current render, so both use the same \<open>currentView\<close>.
\<close>

definition handleToggleView :: "progreso_dom \<Rightarrow> progreso_dom" where
  "handleToggleView st =
     (let (v, message) = toggleView (pg_currentView st) in showNotification message (st\<lparr>pg_currentView := v\<rparr>))"

section \<open>Timers\<close>

text \<open>The bar animation: a bar with a non-empty \<open>data-progress\<close> gets that width in percent.\<close>

definition animate_bar :: "dom_heap \<Rightarrow> nat \<Rightarrow> dom_heap" where
  "animate_bar h r =
     (case h r of None \<Rightarrow> h
      | Some el \<Rightarrow> (case el_data_progress el of None \<Rightarrow> h
                    | Some p \<Rightarrow> if p = [] then h else h(r \<mapsto> set_style ''width'' (p @ ''%'') el)))"

text \<open>
  \<open>removeChild\<close> of a node that is not a child of the body throws
  \<open>NotFoundError\<close>, which is uncaught in a timer callback.
\<close>

fun fire :: "timer_cb \<Rightarrow> progreso_dom \<Rightarrow> progreso_dom" where
  "fire AnimateBars st =
     st\<lparr>pg_heap := fold (\<lambda>r h. animate_bar h r)
                     (querySelectorAll ''progress-fill'' (pg_heap st) (pg_nodes st @ pg_body st)) (pg_heap st)\<rparr>"
| "fire (NotifShow r) st =
     st\<lparr>pg_heap := map_el (set_style ''opacity'' ''1'' \<circ> set_style ''transform'' ''translateY(0)'') r (pg_heap st)\<rparr>"
| "fire (NotifHide r) st =
     st\<lparr>pg_heap := map_el (set_style ''opacity'' ''0'' \<circ> set_style ''transform'' ''translateY(100px)'') r (pg_heap st),
        pg_timers := pg_timers st @ [(pg_now st + 300, NotifRemove r)]\<rparr>"
| "fire (NotifRemove r) st =
     (if r \<in> set (pg_body st) then st\<lparr>pg_body := remove1 r (pg_body st)\<rparr>
      else st\<lparr>pg_uncaught := Suc (pg_uncaught st)\<rparr>)"

text \<open>
  One millisecond: the clock advances and the callbacks now due run in the order they
  were scheduled; a callback scheduled by one of them is due 300 ms later at the
  earliest.
\<close>

definition tick_ms :: "progreso_dom \<Rightarrow> progreso_dom" where
  "tick_ms st =
     (let t = Suc (pg_now st)
      in fold (\<lambda>(d, cb). fire cb) (filter (\<lambda>(d, cb). d \<le> t) (pg_timers st))
              (st\<lparr>pg_now := t, pg_timers := filter (\<lambda>(d, cb). \<not> d \<le> t) (pg_timers st)\<rparr>))"

section \<open>Events\<close>

datatype progreso_event = MountProgreso | UnmountProgreso | ClickTab string | ClickCambiarVista | TickMs

fun progreso_step :: "progreso_event \<Rightarrow> progreso_dom \<Rightarrow> progreso_dom" where
  "progreso_step MountProgreso st = mountPage datosProgreso st"
| "progreso_step UnmountProgreso st = unmountPage st"
| "progreso_step (ClickTab t) st = (if pg_mounted st then st\<lparr>pg_activeTab := t\<rparr> else st)"
| "progreso_step ClickCambiarVista st = (if pg_mounted st then handleToggleView st else st)"
| "progreso_step TickMs st = tick_ms st"

definition progreso_initial :: progreso_dom where
  "progreso_initial =
     \<lparr>pg_mounted = False, pg_activeTab = ''progress'', pg_currentView = ''detailed'', pg_heap = Map.empty,
      pg_nodes = [], pg_body = [], pg_next = 0, pg_now = 0, pg_timers = [], pg_canvas = [], pg_uncaught = 0\<rparr>"

inductive progreso_reachable :: "progreso_dom \<Rightarrow> bool" where
  init: "progreso_reachable progreso_initial"
| step: "progreso_reachable st \<Longrightarrow> progreso_reachable (progreso_step e st)"

definition progreso_page_view :: "progreso_dom \<Rightarrow> progreso_view option" where
  "progreso_page_view st =
     (if pg_mounted st then Some (progreso_render (pg_activeTab st) (pg_currentView st) datosProgreso) else None)"

section \<open>Invariant\<close>

text \<open>
  The reference a hide or remove callback acts on; the latest moment a pending timer
  still has work to do (a hide callback schedules the removal 300 ms after it).
\<close>

fun notif_ref :: "timer_cb \<Rightarrow> nat option" where
  "notif_ref (NotifHide r) = Some r"
| "notif_ref (NotifRemove r) = Some r"
| "notif_ref _ = None"

definition deadline :: "nat \<times> timer_cb \<Rightarrow> nat" where
  "deadline t = (case snd t of NotifHide r \<Rightarrow> fst t + 300 | _ \<Rightarrow> fst t)"

definition notif_pending :: "nat \<Rightarrow> (nat \<times> timer_cb) list \<Rightarrow> nat" where
  "notif_pending r ts = length (filter (\<lambda>t. notif_ref (snd t) = Some r) ts)"

definition body_inv :: "progreso_dom \<Rightarrow> (nat \<times> timer_cb) list \<Rightarrow> bool" where
  "body_inv st ds \<longleftrightarrow>
     pg_uncaught st = 0 \<and> distinct (pg_body st) \<and> (\<forall>r \<in> set (pg_body st). r < pg_next st) \<and>
     (\<forall>r \<in> set (pg_body st). notif_pending r (pg_timers st @ ds) = 1) \<and>
     (\<forall>t \<in> set (pg_timers st @ ds). pred_option (\<lambda>r. r \<in> set (pg_body st)) (notif_ref (snd t)))"

definition timer_bounds :: "progreso_dom \<Rightarrow> bool" where
  "timer_bounds st \<longleftrightarrow> (\<forall>t \<in> set (pg_timers st). pg_now st < fst t \<and> deadline t \<le> pg_now st + 3300)"

definition progreso_inv :: "progreso_dom \<Rightarrow> bool" where
  "progreso_inv st \<longleftrightarrow> body_inv st [] \<and> timer_bounds st"

section \<open>Properties\<close>

subsection \<open>Notifications and timers\<close>

lemma notif_pending_Nil [simp]: "notif_pending r [] = 0"
  by (simp add: notif_pending_def)

lemma notif_pending_Cons [simp]:
  "notif_pending r (t # ts) = (if notif_ref (snd t) = Some r then Suc (notif_pending r ts) else notif_pending r ts)"
  by (simp add: notif_pending_def)

lemma notif_pending_append [simp]: "notif_pending r (xs @ ys) = notif_pending r xs + notif_pending r ys"
  by (simp add: notif_pending_def)

lemma notif_pending_zero_iff: "notif_pending r ts = 0 \<longleftrightarrow> (\<forall>t \<in> set ts. notif_ref (snd t) \<noteq> Some r)"
  by (simp add: notif_pending_def filter_empty_conv)

lemma notif_pending_partition:
  "notif_pending r (filter P ts) + notif_pending r (filter (\<lambda>t. \<not> P t) ts) = notif_pending r ts"
  by (induction ts) auto

lemma fire_now [simp]: "pg_now (fire cb st) = pg_now st"
  by (cases cb) simp_all

lemma fire_next [simp]: "pg_next (fire cb st) = pg_next st"
  by (cases cb) simp_all


lemma body_inv_heap [simp]: "body_inv (st\<lparr>pg_heap := h\<rparr>) ds = body_inv st ds"
  by (simp add: body_inv_def)

lemma body_inv_skip: "notif_ref cb = None \<Longrightarrow> body_inv st ((d, cb) # ds) \<Longrightarrow> body_inv st ds"
  by (simp add: body_inv_def)

lemma fire_hide_body_inv:
  assumes "body_inv st ((d, NotifHide r) # ds)"
  shows "body_inv (fire (NotifHide r) st) ds"
proof -
  have "r \<in> set (pg_body st)" using assms by (auto simp: body_inv_def)
  then show ?thesis using assms by (auto simp: body_inv_def)
qed

lemma fire_remove_body_inv:
  assumes "body_inv st ((d, NotifRemove r) # ds)"
  shows "body_inv (fire (NotifRemove r) st) ds"
proof -
  have r: "r \<in> set (pg_body st)" using assms by (auto simp: body_inv_def)
  then have "notif_pending r (pg_timers st @ (d, NotifRemove r) # ds) = 1"
    using assms unfolding body_inv_def by blast
  then have "notif_pending r (pg_timers st @ ds) = 0" by simp
  then have none: "\<forall>t \<in> set (pg_timers st @ ds). notif_ref (snd t) \<noteq> Some r"
    by (simp only: notif_pending_zero_iff)
  have "distinct (pg_body st)" using assms by (simp add: body_inv_def)
  then have body': "set (remove1 r (pg_body st)) = set (pg_body st) - {r}" by simp
  have "pred_option (\<lambda>r'. r' \<in> set (remove1 r (pg_body st))) (notif_ref (snd t))"
    if "t \<in> set (pg_timers st @ ds)" for t
  proof -
    have "pred_option (\<lambda>r'. r' \<in> set (pg_body st)) (notif_ref (snd t))"
      using assms that unfolding body_inv_def by fastforce
    moreover have "notif_ref (snd t) \<noteq> Some r" using none that by blast
    ultimately show ?thesis unfolding body' by (cases "notif_ref (snd t)") auto
  qed
  moreover have "notif_pending r' (pg_timers st @ ds) = 1" if "r' \<in> set (pg_body st) - {r}" for r'
    using assms that unfolding body_inv_def by auto
  ultimately show ?thesis using assms r unfolding body_inv_def by (simp add: body')
qed

lemma fire_body_inv:
  assumes "body_inv st ((d, cb) # ds)"
  shows "body_inv (fire cb st) ds"
proof (cases cb)
  case AnimateBars
  then show ?thesis using assms body_inv_skip [of cb st d ds] by simp
next
  case (NotifShow r)
  then show ?thesis using assms body_inv_skip [of cb st d ds] by simp
next
  case (NotifHide r)
  then show ?thesis using assms fire_hide_body_inv by blast
next
  case (NotifRemove r)
  then show ?thesis using assms fire_remove_body_inv by blast
qed

lemma fold_fire_body_inv: "body_inv st ds \<Longrightarrow> body_inv (fold (\<lambda>(d, cb). fire cb) ds st) []"
proof (induction ds arbitrary: st)
  case (Cons t ds)
  then show ?case by (cases t) (simp add: fire_body_inv)
qed simp


lemma notif_pending_due:
  "notif_pending r (filter (\<lambda>(d, cb). \<not> d \<le> t) ts) + notif_pending r (filter (\<lambda>(d, cb). d \<le> t) ts) =
   notif_pending r ts"
  by (induction ts) auto

lemma body_inv_due:
  assumes "body_inv st []"
  shows "body_inv (st\<lparr>pg_now := t, pg_timers := filter (\<lambda>(d, cb). \<not> d \<le> t) (pg_timers st)\<rparr>)
                  (filter (\<lambda>(d, cb). d \<le> t) (pg_timers st))"
  using assms unfolding body_inv_def by (auto simp: notif_pending_due)

lemma fold_fire_now [simp]: "pg_now (fold (\<lambda>(d, cb). fire cb) ds st) = pg_now st"
  by (induction ds arbitrary: st) auto

lemma fire_timer_bounds: "timer_bounds st \<Longrightarrow> timer_bounds (fire cb st)"
  by (cases cb) (auto simp: timer_bounds_def deadline_def)

lemma fold_fire_timer_bounds: "timer_bounds st \<Longrightarrow> timer_bounds (fold (\<lambda>(d, cb). fire cb) ds st)"
  by (induction ds arbitrary: st) (auto simp: fire_timer_bounds)

lemma tick_now [simp]: "pg_now (tick_ms st) = Suc (pg_now st)"
  by (simp add: tick_ms_def)

lemma tick_body_inv: "body_inv st [] \<Longrightarrow> body_inv (tick_ms st) []"
  unfolding tick_ms_def Let_def by (intro fold_fire_body_inv body_inv_due)

lemma tick_timer_bounds: "timer_bounds st \<Longrightarrow> timer_bounds (tick_ms st)"
  unfolding tick_ms_def Let_def
  by (rule fold_fire_timer_bounds) (auto simp: timer_bounds_def)

lemma tick_inv: "progreso_inv st \<Longrightarrow> progreso_inv (tick_ms st)"
  by (simp add: progreso_inv_def tick_body_inv tick_timer_bounds)

lemma fire_deadline_le:
  "\<forall>x \<in> set (pg_timers st). deadline x \<le> K \<Longrightarrow> deadline (pg_now st, cb) \<le> K \<Longrightarrow>
   \<forall>x \<in> set (pg_timers (fire cb st)). deadline x \<le> K"
  by (cases cb) (auto simp: deadline_def)

lemma fold_fire_deadline_le:
  "\<forall>x \<in> set (pg_timers st). deadline x \<le> K \<Longrightarrow> \<forall>x \<in> set ds. fst x = pg_now st \<and> deadline x \<le> K \<Longrightarrow>
   \<forall>x \<in> set (pg_timers (fold (\<lambda>(d, cb). fire cb) ds st)). deadline x \<le> K"
proof (induction ds arbitrary: st)
  case (Cons x ds)
  obtain d cb where x: "x = (d, cb)" by fastforce
  have "\<forall>y \<in> set (pg_timers (fire cb st)). deadline y \<le> K"
    using Cons.prems x by (intro fire_deadline_le) auto
  then show ?case using Cons.IH [of "fire cb st"] Cons.prems x by simp
qed simp

lemma tick_deadline_le:
  assumes "timer_bounds st" "\<forall>x \<in> set (pg_timers st). deadline x \<le> K"
  shows "\<forall>x \<in> set (pg_timers (tick_ms st)). deadline x \<le> K"
  unfolding tick_ms_def Let_def
proof (rule fold_fire_deadline_le)
  show "\<forall>x \<in> set (filter (\<lambda>(d, cb). d \<le> Suc (pg_now st)) (pg_timers st)).
          fst x = pg_now (st\<lparr>pg_now := Suc (pg_now st), pg_timers := filter (\<lambda>(d, cb). \<not> d \<le> Suc (pg_now st)) (pg_timers st)\<rparr>) \<and>
          deadline x \<le> K"
    using assms by (fastforce simp: timer_bounds_def)
qed (use assms in auto)

lemma ticks_inv:
  assumes "progreso_inv st"
  shows "progreso_inv ((tick_ms ^^ n) st) \<and> pg_now ((tick_ms ^^ n) st) = pg_now st + n \<and>
         (\<forall>x \<in> set (pg_timers ((tick_ms ^^ n) st)). deadline x \<le> pg_now st + 3300)"
proof (induction n)
  case 0
  then show ?case using assms by (simp add: progreso_inv_def timer_bounds_def)
next
  case (Suc n)
  let ?s = "(tick_ms ^^ n) st"
  have "body_inv ?s []" "timer_bounds ?s" "pg_now ?s = pg_now st + n"
    "\<forall>x \<in> set (pg_timers ?s). deadline x \<le> pg_now st + 3300"
    using Suc by (simp_all add: progreso_inv_def)
  then show ?case by (simp add: progreso_inv_def tick_body_inv tick_timer_bounds tick_deadline_le)
qed

lemma fst_le_deadline: "fst x \<le> deadline x"
  by (simp add: deadline_def split: timer_cb.split)

lemma quiescent_after:
  assumes "progreso_inv st"
  shows "pg_timers ((tick_ms ^^ 3300) st) = [] \<and> pg_body ((tick_ms ^^ 3300) st) = [] \<and>
         pg_uncaught ((tick_ms ^^ 3300) st) = 0"
proof -
  let ?s = "(tick_ms ^^ 3300) st"
  have i: "progreso_inv ?s" and n: "pg_now ?s = pg_now st + 3300"
    and dl: "\<forall>x \<in> set (pg_timers ?s). deadline x \<le> pg_now st + 3300"
    using ticks_inv [OF assms, of 3300] by simp_all
  have "pg_timers ?s = []"
  proof (rule ccontr)
    assume "pg_timers ?s \<noteq> []"
    then obtain x where x: "x \<in> set (pg_timers ?s)" by (cases "pg_timers ?s") auto
    then have "pg_now ?s < fst x" using i by (simp add: progreso_inv_def timer_bounds_def)
    moreover have "fst x \<le> pg_now st + 3300" using x dl fst_le_deadline [of x] by fastforce
    ultimately show False using n by simp
  qed
  moreover have "pg_body ?s = []"
  proof (rule ccontr)
    assume "pg_body ?s \<noteq> []"
    then obtain r where "r \<in> set (pg_body ?s)" by (cases "pg_body ?s") auto
    then show False using i \<open>pg_timers ?s = []\<close> by (simp add: progreso_inv_def body_inv_def)
  qed
  ultimately show ?thesis using i by (simp add: progreso_inv_def body_inv_def)
qed


subsection \<open>Mounting and the page events\<close>

lemma drawDoughnutChart_drawn:
  "40 \<le> w \<Longrightarrow> 40 \<le> h \<Longrightarrow> data \<noteq> [] \<Longrightarrow> \<exists>ops. drawDoughnutChart (Canvas w h) data = Inr (True, ops)"
  by (simp add: drawDoughnutChart_def Let_def)

lemma progreso_effect_datos: "\<exists>traces. progreso_effect datosProgreso = Inr traces"
proof -
  have "categoryProgress datosProgreso \<noteq> []" by (simp add: datosProgreso_def)
  then obtain ops where "drawDoughnutChart (Canvas 300 200) (categoryProgress datosProgreso) = Inr (True, ops)"
    using drawDoughnutChart_drawn [of 300 200] by fastforce
  then show ?thesis by (simp add: progreso_effect_def Let_def)
qed

lemma mountPage_datos_cases:
  obtains "pg_mounted st" "mountPage datosProgreso st = st"
  | traces where "\<not> pg_mounted st" "progreso_effect datosProgreso = Inr traces"
      "mountPage datosProgreso st =
         animateProgressBars ((snd (alloc_els (progress_bars datosProgreso) st))
           \<lparr>pg_mounted := True, pg_activeTab := ''progress'', pg_currentView := ''detailed'',
            pg_nodes := fst (alloc_els (progress_bars datosProgreso) st), pg_canvas := traces\<rparr>)"
  using progreso_effect_datos
  by (cases "pg_mounted st") (auto simp: mountPage_def split: prod.split)

lemma mountPage_mounted: "pg_mounted (mountPage datosProgreso st)"
  by (cases st rule: mountPage_datos_cases) (simp_all add: animateProgressBars_def alloc_els_def Let_def)

lemma mountPage_inv: "progreso_inv st \<Longrightarrow> progreso_inv (mountPage datosProgreso st)"
  by (cases st rule: mountPage_datos_cases)
     (fastforce simp: animateProgressBars_def alloc_els_def Let_def progreso_inv_def body_inv_def
                      timer_bounds_def deadline_def)+

lemma showNotification_inv:
  assumes "progreso_inv st"
  shows "progreso_inv (showNotification message st)"
proof -
  let ?r = "pg_next st"
  have fresh: "?r \<notin> set (pg_body st)" using assms by (auto simp: progreso_inv_def body_inv_def)
  have "\<forall>t \<in> set (pg_timers st). notif_ref (snd t) \<noteq> Some ?r"
  proof
    fix t assume "t \<in> set (pg_timers st)"
    then have "pred_option (\<lambda>r. r \<in> set (pg_body st)) (notif_ref (snd t))"
      using assms by (simp add: progreso_inv_def body_inv_def)
    then show "notif_ref (snd t) \<noteq> Some ?r" using fresh by auto
  qed
  then have none: "notif_pending ?r (pg_timers st) = 0" by (simp only: notif_pending_zero_iff)
  have b: "body_inv st []" and tb: "timer_bounds st" using assms by (simp_all add: progreso_inv_def)
  have "body_inv (showNotification message st) []"
    unfolding body_inv_def showNotification_def Let_def
    using b fresh none by (auto simp: body_inv_def elim: pred_option_weaken)
  moreover have "timer_bounds (showNotification message st)"
    using tb by (auto simp: timer_bounds_def showNotification_def deadline_def Let_def)
  ultimately show ?thesis by (simp add: progreso_inv_def)
qed

lemma progreso_step_inv:
  assumes i: "progreso_inv st"
  shows "progreso_inv (progreso_step e st)"
proof (cases e)
  case MountProgreso
  then show ?thesis using i by (simp add: mountPage_inv)
next
  case TickMs
  then show ?thesis using i by (simp add: tick_inv)
next
  case ClickCambiarVista
  have "progreso_inv (st\<lparr>pg_currentView := v\<rparr>)" for v
    using i by (simp add: progreso_inv_def body_inv_def timer_bounds_def)
  then show ?thesis using ClickCambiarVista i showNotification_inv
    by (simp add: handleToggleView_def split: prod.split)
qed (use i in \<open>simp_all add: unmountPage_def progreso_inv_def body_inv_def timer_bounds_def\<close>)

lemma reachable_progreso_inv: "progreso_reachable st \<Longrightarrow> progreso_inv st"
proof (induction rule: progreso_reachable.induct)
  case init
  show ?case by (simp add: progreso_initial_def progreso_inv_def body_inv_def timer_bounds_def)
qed (rule progreso_step_inv)


subsection \<open>The bar animation\<close>

lemma animate_bar_other: "r' \<noteq> r \<Longrightarrow> animate_bar h r r' = h r'"
  by (simp add: animate_bar_def split: option.split)

lemma animate_bar_local: "h r = h' r \<Longrightarrow> animate_bar h r r = animate_bar h' r r"
  by (simp add: animate_bar_def split: option.split)

lemma animate_bar_twice: "animate_bar (animate_bar h r) r r = animate_bar h r r"
  by (simp add: animate_bar_def set_style_def split: option.split)

lemma fold_animate_bar:
  "fold (\<lambda>r h. animate_bar h r) rs h r0 = (if r0 \<in> set rs then animate_bar h r0 r0 else h r0)"
proof (induction rs arbitrary: h)
  case (Cons r rs)
  show ?case
  proof (cases "r0 = r")
    case True
    then show ?thesis using Cons.IH [of "animate_bar h r"] animate_bar_twice [of h r] by simp
  next
    case False
    then have "animate_bar (animate_bar h r) r0 r0 = animate_bar h r0 r0"
      by (intro animate_bar_local) (simp add: animate_bar_other)
    then show ?thesis using Cons.IH [of "animate_bar h r"] False by (simp add: animate_bar_other)
  qed
qed simp

lemma fire_animate_heap:
  "pg_heap (fire AnimateBars st) r =
     (if r \<in> set (querySelectorAll ''progress-fill'' (pg_heap st) (pg_nodes st @ pg_body st))
      then animate_bar (pg_heap st) r r else pg_heap st r)"
  by (simp add: fold_animate_bar)

lemma tick_idle:
  "\<forall>t \<in> set (pg_timers st). Suc (pg_now st) < fst t \<Longrightarrow> tick_ms st = st\<lparr>pg_now := Suc (pg_now st)\<rparr>"
proof -
  assume a: "\<forall>t \<in> set (pg_timers st). Suc (pg_now st) < fst t"
  then have "filter (\<lambda>(d, cb). d \<le> Suc (pg_now st)) (pg_timers st) = []"
    by (fastforce simp: filter_empty_conv)
  moreover have "filter (\<lambda>(d, cb). \<not> d \<le> Suc (pg_now st)) (pg_timers st) = pg_timers st"
    using a by (fastforce simp: filter_id_conv)
  ultimately show ?thesis by (simp add: tick_ms_def)
qed

lemma ticks_idle:
  "\<forall>t \<in> set (pg_timers st). pg_now st + n < fst t \<Longrightarrow> (tick_ms ^^ n) st = st\<lparr>pg_now := pg_now st + n\<rparr>"
proof (induction n)
  case (Suc n)
  then have "(tick_ms ^^ n) st = st\<lparr>pg_now := pg_now st + n\<rparr>" by fastforce
  then show ?case using Suc.prems by (simp add: tick_idle)
qed simp

lemma mount_initial_state:
  "mountPage datosProgreso progreso_initial =
     progreso_initial\<lparr>pg_mounted := True, pg_heap := map_of (zip [0..<7] (progress_bars datosProgreso)),
        pg_nodes := [0..<7], pg_next := 7, pg_timers := [(500, AnimateBars)],
        pg_canvas := projr (progreso_effect datosProgreso)\<rparr>"
proof -
  have l: "length (progress_bars datosProgreso) = 7" by (simp add: progress_bars_def datosProgreso_def)
  show ?thesis
    by (cases progreso_initial rule: mountPage_datos_cases)
       (simp_all add: progreso_initial_def animateProgressBars_def alloc_els_def Let_def l)
qed

lemma bars_after_500:
  "map (\<lambda>r. map_of (el_style (the (pg_heap ((tick_ms ^^ 500) (progreso_step MountProgreso progreso_initial)) r))) ''width'')
       (pg_nodes ((tick_ms ^^ 500) (progreso_step MountProgreso progreso_initial))) =
   map Some [''100%'', ''100%'', ''75%'', ''60%'', ''40%'', ''0%'', ''0%'']"
proof -
  let ?m = "mountPage datosProgreso progreso_initial"
  have t: "pg_timers ?m = [(500, AnimateBars)]" "pg_now ?m = 0"
    unfolding mount_initial_state by (simp_all add: progreso_initial_def)
  have "(tick_ms ^^ 499) ?m = ?m\<lparr>pg_now := 499\<rparr>"
    using ticks_idle [of ?m 499] t by simp
  then have "(tick_ms ^^ 500) ?m = fire AnimateBars (?m\<lparr>pg_now := 500, pg_timers := []\<rparr>)"
    using funpow.simps(2) [of 499 tick_ms] t by (simp add: tick_ms_def)
  then have e: "(tick_ms ^^ 500) (progreso_step MountProgreso progreso_initial) =
                fire AnimateBars (?m\<lparr>pg_now := 500, pg_timers := []\<rparr>)" by simp
  show ?thesis
    unfolding e mount_initial_state
    by (simp add: progreso_initial_def upt_rec querySelectorAll_def has_class_def html_space_def
                  animate_bar_def set_style_def progress_bars_def datosProgreso_def js_int_str_def
                  nat_dec.simps [of 100] nat_dec.simps [of 10] nat_dec.simps [of 75] nat_dec.simps [of 60]
                  nat_dec.simps [of 40] nat_dec.simps [of 7] nat_dec.simps [of 6] nat_dec.simps [of 4]
                  nat_dec.simps [of 1] nat_dec.simps [of "Suc 0"] nat_dec.simps [of 0] dec_chars_def)
qed

subsection \<open>Claims\<close>

text \<open>
  C29. In every state the progress page can reach, no timer callback has thrown:
  each notification on the body is distinct and has exactly one pending hide or
  remove callback, so its \<open>removeChild\<close> finds it, and every pending callback is due
  in the future and has finished its work within 3300 ms.
\<close>

theorem progreso_notifications_safe:
  assumes "progreso_reachable st"
  shows "pg_uncaught st = 0 \<and> distinct (pg_body st) \<and>
         (\<forall>r \<in> set (pg_body st). notif_pending r (pg_timers st) = 1) \<and>
         (\<forall>t \<in> set (pg_timers st). pg_now st < fst t \<and> deadline t \<le> pg_now st + 3300)"
  using reachable_progreso_inv [OF assms] by (simp add: progreso_inv_def body_inv_def timer_bounds_def)

lemma toggled_state:
  "progreso_reachable (progreso_step ClickCambiarVista (progreso_step MountProgreso progreso_initial)) \<and>
   pg_body (progreso_step ClickCambiarVista (progreso_step MountProgreso progreso_initial)) = [7]"
proof
  show "progreso_reachable (progreso_step ClickCambiarVista (progreso_step MountProgreso progreso_initial))"
    by (intro progreso_reachable.step progreso_reachable.init)
  show "pg_body (progreso_step ClickCambiarVista (progreso_step MountProgreso progreso_initial)) = [7]"
    unfolding progreso_step.simps mount_initial_state
    by (simp add: progreso_initial_def handleToggleView_def showNotification_def toggleView_def)
qed

theorem progreso_notifications_safe_witness:
  "pg_body (progreso_step ClickCambiarVista (progreso_step MountProgreso progreso_initial)) = [7] \<and>
   notif_pending 7 (pg_timers (progreso_step ClickCambiarVista (progreso_step MountProgreso progreso_initial))) = 1 \<and>
   pg_uncaught (progreso_step ClickCambiarVista (progreso_step MountProgreso progreso_initial)) = 0"
  using progreso_notifications_safe [of "progreso_step ClickCambiarVista (progreso_step MountProgreso progreso_initial)"]
        toggled_state
  by simp

text \<open>
  C11. The page's timers always run out: from any reachable state, 3300 ms without a
  user event leave no pending callback and no notification on the body, and no
  callback has thrown.
\<close>

theorem progreso_quiescent:
  assumes "progreso_reachable st"
  shows "pg_timers ((tick_ms ^^ 3300) st) = [] \<and> pg_body ((tick_ms ^^ 3300) st) = [] \<and>
         pg_uncaught ((tick_ms ^^ 3300) st) = 0"
  using quiescent_after [OF reachable_progreso_inv [OF assms]] .

theorem progreso_quiescent_witness:
  "pg_body (progreso_step ClickCambiarVista (progreso_step MountProgreso progreso_initial)) = [7] \<and>
   pg_body ((tick_ms ^^ 3300) (progreso_step ClickCambiarVista (progreso_step MountProgreso progreso_initial))) = []"
  using progreso_quiescent [of "progreso_step ClickCambiarVista (progreso_step MountProgreso progreso_initial)"]
        toggled_state
  by simp

end
