(* ===== verification/Courses.thy ===== *)
theory Courses
  imports Prelude
begin

text \<open>
  The courses page \<open>pages/Cursos.tsx\<close>: the course data (\<open>Curso\<close>,
  \<open>Modulo\<close>, \<open>Tema\<close>), the set of expanded modules with \<open>toggleModulo\<close>, and
  what each row shows (the completed count of a module, the badge or button of a
  topic), the page's events and the cards it renders.  The progress label of the course is the literal text \<open>25%\<close>; the lemma
  \<open>course_progress_label_mismatch\<close> compares it with the data.
\<close>

datatype tema_tipo = Lectura | Evaluacion

record tema =
  tema_id :: nat
  tema_titulo :: string
  tipo :: tema_tipo
  completado :: bool

record modulo =
  modulo_id :: nat
  modulo_titulo :: string
  temas :: "tema list"

record curso =
  curso_id :: string
  cedula :: string
  curso_titulo :: string
  modulos :: "modulo list"

definition cursos :: "curso list" where
  "cursos = [\<lparr>curso_id = ''curso-1'', cedula = ''A'', curso_titulo = ''Cedula de Capacitacion A - Seguros'',
     modulos = [
       \<lparr>modulo_id = 1, modulo_titulo = ''Aspectos Generales'', temas = [
            \<lparr>tema_id = 1, tema_titulo = ''Aspectos Juridicos'', tipo = Lectura, completado = True\<rparr>,
            \<lparr>tema_id = 2, tema_titulo = ''Evaluacion - Aspectos Juridicos'', tipo = Evaluacion, completado = True\<rparr>,
            \<lparr>tema_id = 3, tema_titulo = ''Aspectos Tecnicos'', tipo = Lectura, completado = False\<rparr>,
            \<lparr>tema_id = 4, tema_titulo = ''Evaluacion - Aspectos Tecnicos'', tipo = Evaluacion, completado = False\<rparr>]\<rparr>,
       \<lparr>modulo_id = 2, modulo_titulo = ''Riesgos del Seguro de Personas'', temas = [
            \<lparr>tema_id = 5, tema_titulo = ''Bases Tecnicas'', tipo = Lectura, completado = False\<rparr>,
            \<lparr>tema_id = 6, tema_titulo = ''Planes del Seguro de Vida'', tipo = Lectura, completado = False\<rparr>,
            \<lparr>tema_id = 7, tema_titulo = ''Accidentes Personales'', tipo = Lectura, completado = False\<rparr>,
            \<lparr>tema_id = 8, tema_titulo = ''Gastos Medicos Mayores'', tipo = Lectura, completado = False\<rparr>,
            \<lparr>tema_id = 9, tema_titulo = ''Seguro de Salud'', tipo = Lectura, completado = False\<rparr>,
            \<lparr>tema_id = 10, tema_titulo = ''Evaluacion - Seguro de Personas'', tipo = Evaluacion, completado = False\<rparr>]\<rparr>,
       \<lparr>modulo_id = 3, modulo_titulo = ''Riesgos del Seguro de Danos'', temas = [
            \<lparr>tema_id = 11, tema_titulo = ''Seguro de Hogar'', tipo = Lectura, completado = False\<rparr>,
            \<lparr>tema_id = 12, tema_titulo = ''Seguro de Incendio'', tipo = Lectura, completado = False\<rparr>,
            \<lparr>tema_id = 13, tema_titulo = ''Seguro de Diversos'', tipo = Lectura, completado = False\<rparr>,
            \<lparr>tema_id = 14, tema_titulo = ''Responsabilidad Civil Familiar'', tipo = Lectura, completado = False\<rparr>,
            \<lparr>tema_id = 15, tema_titulo = ''Embarcaciones'', tipo = Lectura, completado = False\<rparr>,
            \<lparr>tema_id = 16, tema_titulo = ''Automoviles'', tipo = Lectura, completado = False\<rparr>,
            \<lparr>tema_id = 17, tema_titulo = ''Evaluacion - Seguro de Danos'', tipo = Evaluacion, completado = False\<rparr>]\<rparr>]\<rparr>]"

text \<open>The first module starts expanded.\<close>

definition modulos_initial :: "nat set" where
  "modulos_initial = {1}"

definition toggleModulo :: "nat \<Rightarrow> nat set \<Rightarrow> nat set" where
  "toggleModulo moduloId prev = (if moduloId \<in> prev then prev - {moduloId} else insert moduloId prev)"

text \<open>\<open>{completed}/{total} temas\<close> of a module row.\<close>

definition modulo_count :: "modulo \<Rightarrow> nat \<times> nat" where
  "modulo_count m = (length (filter completado (temas m)), length (temas m))"

definition curso_progress_label :: "curso \<Rightarrow> string" where
  "curso_progress_label c = ''Progreso: 25%''"

datatype tema_action = BadgeCompletado | ButtonIniciarLectura | ButtonPresentarEvaluacion

definition tema_action :: "tema \<Rightarrow> tema_action" where
  "tema_action t =
     (if completado t then BadgeCompletado
      else if tipo t = Evaluacion then ButtonPresentarEvaluacion else ButtonIniciarLectura)"

definition modulo_expanded :: "nat set \<Rightarrow> modulo \<Rightarrow> bool" where
  "modulo_expanded expandidos m \<longleftrightarrow> modulo_id m \<in> expandidos"

text \<open>
  The page's events: the back button navigates to \<open>/dashboard\<close>, a module header
  toggles the module.  The render follows lines 88--164: a card per course, a row per
  module with its arrow and count, and the topic rows of the expanded modules.  The
  arrows and the topic icons are non-ASCII glyphs, named here by constructors.
\<close>

datatype cursos_event = ClickVolver | ClickModulo nat

definition cursos_step :: "cursos_event \<Rightarrow> nat set \<Rightarrow> nat set \<times> string option" where
  "cursos_step ev expandidos =
     (case ev of ClickVolver \<Rightarrow> (expandidos, Some ''/dashboard'')
      | ClickModulo moduloId \<Rightarrow> (toggleModulo moduloId expandidos, None))"

datatype toggle_glyph = GlyphExpanded | GlyphCollapsed

record tema_row =
  tema_row_class :: string
  tema_icon_class :: string
  tema_icon :: tema_tipo
  tema_row_title :: string
  tema_row_action :: tema_action

definition render_tema :: "tema \<Rightarrow> tema_row" where
  "render_tema t =
     \<lparr>tema_row_class = ''tema-item '' @ (if completado t then ''completado'' else []),
      tema_icon_class = ''tema-icon '' @ (if tipo t = Evaluacion then ''evaluacion'' else ''lectura''),
      tema_icon = tipo t, tema_row_title = tema_titulo t, tema_row_action = tema_action t\<rparr>"

record modulo_row =
  row_glyph :: toggle_glyph
  row_title :: string
  row_count :: "nat \<times> nat"
  row_temas :: "tema_row list option"

definition render_modulo :: "nat set \<Rightarrow> modulo \<Rightarrow> modulo_row" where
  "render_modulo expandidos m =
     \<lparr>row_glyph = (if modulo_expanded expandidos m then GlyphExpanded else GlyphCollapsed),
      row_title = modulo_titulo m, row_count = modulo_count m,
      row_temas = (if modulo_expanded expandidos m then Some (map render_tema (temas m)) else None)\<rparr>"

record curso_card =
  curso_card_cedula :: string
  curso_card_titulo :: string
  curso_card_progress :: string
  curso_card_modulos :: "modulo_row list"

definition cursos_render :: "nat set \<Rightarrow> curso_card list" where
  "cursos_render expandidos =
     map (\<lambda>c. \<lparr>curso_card_cedula = cedula c, curso_card_titulo = curso_titulo c,
               curso_card_progress = curso_progress_label c,
               curso_card_modulos = map (render_modulo expandidos) (modulos c)\<rparr>) cursos"

lemma toggleModulo_involution: "toggleModulo i (toggleModulo i s) = s"
  by (auto simp: toggleModulo_def)

lemma toggleModulo_other: "j \<noteq> i \<Longrightarrow> (j \<in> toggleModulo i s \<longleftrightarrow> j \<in> s)"
  by (auto simp: toggleModulo_def)

lemma toggleModulo_flips: "(i \<in> toggleModulo i s) \<longleftrightarrow> i \<notin> s"
  by (auto simp: toggleModulo_def)

text \<open>
  The data: module and topic ids are distinct, two of the seventeen topics are
  completed, which is 12 percent rounded, not the 25 percent of the label.
\<close>

lemma course_progress_label_mismatch:
  "distinct (map modulo_id (modulos (hd cursos))) \<and>
   distinct (concat (map (map tema_id o temas) (modulos (hd cursos)))) \<and>
   map modulo_count (modulos (hd cursos)) = [(2, 4), (0, 6), (0, 7)] \<and>
   js_percent 2 17 = Num 12 \<and> curso_progress_label (hd cursos) = ''Progreso: 25%''"
  by (simp add: cursos_def modulo_count_def curso_progress_label_def)


lemma render_modulo_toggle_other:
  "modulo_id m \<noteq> i \<Longrightarrow> render_modulo (fst (cursos_step (ClickModulo i) s)) m = render_modulo s m"
  by (simp add: cursos_step_def render_modulo_def modulo_expanded_def toggleModulo_def)

lemma render_modulo_topics:
  "row_temas (render_modulo s m) \<noteq> None \<longleftrightarrow> modulo_id m \<in> s"
  by (simp add: render_modulo_def modulo_expanded_def)

lemma cursos_render_toggle_twice:
  "cursos_render (fst (cursos_step (ClickModulo i) (fst (cursos_step (ClickModulo i) s)))) = cursos_render s"
  by (simp add: cursos_step_def toggleModulo_involution)

lemma cursos_initial_render:
  "map (\<lambda>r. (row_glyph r, map_option (map tema_row_action) (row_temas r)))
       (curso_card_modulos (hd (cursos_render modulos_initial))) =
   [(GlyphExpanded, Some [BadgeCompletado, BadgeCompletado, ButtonIniciarLectura, ButtonPresentarEvaluacion]),
    (GlyphCollapsed, None), (GlyphCollapsed, None)]"
  by (simp add: cursos_render_def cursos_def render_modulo_def modulo_expanded_def modulos_initial_def
                render_tema_def tema_action_def)

lemma fold_toggleModulo:
  "i \<in> fold (\<lambda>ev s. fst (cursos_step ev s)) evs s \<longleftrightarrow> (i \<in> s) \<noteq> odd (count_list evs (ClickModulo i))"
proof (induction evs arbitrary: s)
  case Nil
  then show ?case by simp
next
  case (Cons ev evs)
  then show ?case
    by (cases ev) (auto simp: cursos_step_def toggleModulo_def)
qed

text \<open>
  C10. After any sequence of clicks on the page, a module is expanded exactly when
  the number of clicks on its header has the parity that flips its initial state
  (the first module starts expanded, the others collapsed); its topic rows are shown
  exactly then.  The back button changes nothing.
\<close>

theorem cursos_expanded_parity:
  "fold (\<lambda>ev s. fst (cursos_step ev s)) evs modulos_initial =
     {i. (i = 1) \<noteq> odd (count_list evs (ClickModulo i))} \<and>
   (row_temas (render_modulo (fold (\<lambda>ev s. fst (cursos_step ev s)) evs modulos_initial) m) \<noteq> None \<longleftrightarrow>
     (modulo_id m = 1) \<noteq> odd (count_list evs (ClickModulo (modulo_id m))))"
  unfolding render_modulo_topics by (auto simp: fold_toggleModulo modulos_initial_def)

end
