(* ===== verification/UserAvatar.thy ===== *)
theory UserAvatar
  imports SecureId
begin

text \<open>
  \<open>components/UserAvatar.tsx\<close>: \<open>getDefaultAvatar\<close> picks one of five images from
  a user id, and the component shows a custom image when one is given.  The id is a
  string or a number (\<open>avatar_key\<close>); a string goes through
  \<open>parseInt(userId, 10)\<close>, written out as \<open>js_parseInt10\<close> (leading white space,
  an optional sign, the longest run of decimal digits; \<open>NaN\<close>, here \<open>None\<close>, when
  there is no digit).  Indexing the array with \<open>NaN\<close> gives \<open>undefined\<close>, the
  result \<open>None\<close>.  Numbers are exact integers here; JavaScript rounds a digit run
  longer than fifteen digits, which changes the remainder modulo 5 for such ids.
  No page renders \<open>UserAvatar\<close> at present; the ids the session store creates are
  hexadecimal, and for those that begin with a letter the default avatar is
  \<open>undefined\<close> (\<open>getDefaultAvatar_hex_letter\<close>).
\<close>

datatype avatar_key = KeyMissing | KeyString string | KeyNumber int

definition defaultAvatars :: "string list" where
  "defaultAvatars = [''avatar1.png'', ''avatar2.png'', ''avatar3.svg'', ''avatar4.svg'', ''avatar5.svg'']"

definition dec_digits :: string where
  "dec_digits = ''0123456789''"

definition dec_value :: "string \<Rightarrow> int" where
  "dec_value ds = foldl (\<lambda>acc c. 10 * acc + int (the (find_idx (\<lambda>d. d = c) dec_digits))) 0 ds"

definition js_parseInt10 :: "string \<Rightarrow> int option" where
  "js_parseInt10 s =
     (let t = dropWhile js_is_space s;
          (sign, rest) = (case t of
                            [] \<Rightarrow> (1, [])
                          | c # r \<Rightarrow> if c = CHR ''-'' then (-1, r) else if c = CHR ''+'' then (1, r) else (1, t));
          ds = takeWhile (\<lambda>c. c \<in> set dec_digits) rest
      in if ds = [] then None else Some (sign * dec_value ds))"

definition getDefaultAvatar :: "avatar_key \<Rightarrow> string option" where
  "getDefaultAvatar userId =
     (case userId of
        KeyMissing \<Rightarrow> Some (defaultAvatars ! 0)
      | KeyString s \<Rightarrow>
          if s = [] then Some (defaultAvatars ! 0)
          else (case js_parseInt10 s of
                  None \<Rightarrow> None
                | Some idNum \<Rightarrow> Some (defaultAvatars ! nat (\<bar>idNum\<bar> mod int (length defaultAvatars))))
      | KeyNumber idNum \<Rightarrow>
          if idNum = 0 then Some (defaultAvatars ! 0)
          else Some (defaultAvatars ! nat (\<bar>idNum\<bar> mod int (length defaultAvatars))))"

datatype avatar_size = SizeSmall | SizeMedium | SizeLarge | SizeXLarge

definition size_name :: "avatar_size \<Rightarrow> string" where
  "size_name sz = (case sz of SizeSmall \<Rightarrow> ''small'' | SizeMedium \<Rightarrow> ''medium'' | SizeLarge \<Rightarrow> ''large'' | SizeXLarge \<Rightarrow> ''xlarge'')"

text \<open>The image source and the size class of the rendered component.\<close>

definition avatarSrc :: "string option \<Rightarrow> avatar_key \<Rightarrow> string option" where
  "avatarSrc customImage userId =
     (case customImage of Some c \<Rightarrow> if c \<noteq> [] then Some c else getDefaultAvatar userId
      | None \<Rightarrow> getDefaultAvatar userId)"

definition sizeClass :: "avatar_size \<Rightarrow> string" where
  "sizeClass sz = ''avatar-'' @ size_name sz"

text \<open>
  The component (lines 45--68): a container whose class joins the size class and
  \<open>className\<close>, and an image with the chosen source, whose title repeats its
  \<open>alt\<close>.  Absent props take their defaults: \<open>size = 'medium'\<close>,
  \<open>alt = 'Avatar de usuario'\<close>, \<open>className = ''\<close>.  A source of \<open>undefined\<close>
  (\<open>None\<close>) renders an image without \<open>src\<close>.
\<close>

record avatar_view =
  container_class :: string
  img_src :: "string option"
  img_alt :: string
  img_title :: string

definition UserAvatar ::
  "string option \<Rightarrow> avatar_key \<Rightarrow> avatar_size option \<Rightarrow> string option \<Rightarrow> string option \<Rightarrow> avatar_view" where
  "UserAvatar customImage userId sz alt className =
     (let sz' = (case sz of None \<Rightarrow> SizeMedium | Some z \<Rightarrow> z);
          alt' = (case alt of None \<Rightarrow> ''Avatar de usuario'' | Some a \<Rightarrow> a);
          className' = (case className of None \<Rightarrow> [] | Some c \<Rightarrow> c)
      in \<lparr>container_class = ''user-avatar-container '' @ sizeClass sz' @ '' '' @ className',
          img_src = avatarSrc customImage userId, img_alt = alt', img_title = alt'\<rparr>)"

lemma getDefaultAvatar_number:
  "idNum \<noteq> 0 \<Longrightarrow> getDefaultAvatar (KeyNumber idNum) = Some (defaultAvatars ! nat (\<bar>idNum\<bar> mod 5))"
  by (simp add: getDefaultAvatar_def defaultAvatars_def)

lemma getDefaultAvatar_defined_number: "getDefaultAvatar (KeyNumber idNum) \<noteq> None"
  by (simp add: getDefaultAvatar_def)

lemma generateSecureId_ne: "bs \<noteq> [] \<Longrightarrow> generateSecureId bs \<noteq> []"
  using generateSecureId_length [of bs] by auto

lemma getDefaultAvatar_hex_letter:
  assumes "bs \<noteq> []" "hd (generateSecureId bs) \<notin> set dec_digits"
  shows "getDefaultAvatar (KeyString (generateSecureId bs)) = None"
proof -
  let ?s = "generateSecureId bs"
  obtain c r where s: "?s = c # r" using generateSecureId_ne [OF assms(1)] by (cases ?s) auto
  have "c \<in> set hex_digits" using generateSecureId_hex_chars [of bs] s by auto
  with assms(2) s have "\<not> js_is_space c" "c \<noteq> CHR ''-''" "c \<noteq> CHR ''+''" "c \<notin> set dec_digits"
    by (auto simp: hex_digits_def js_is_space_def)
  with s show ?thesis by (simp add: getDefaultAvatar_def js_parseInt10_def)
qed

lemma getDefaultAvatar_examples:
  "getDefaultAvatar (KeyString (generateSecureId [0xab])) = None \<and>
   getDefaultAvatar (KeyString (generateSecureId [0x3f])) = Some ''avatar4.svg'' \<and>
   getDefaultAvatar (KeyString '' 42'') = Some ''avatar3.svg''"
  by (simp add: getDefaultAvatar_def generateSecureId_def byte_hex_digits hex_digits_def js_parseInt10_def
      js_is_space_def dec_digits_def dec_value_def defaultAvatars_def)


lemma UserAvatar_defaults:
  "UserAvatar None KeyMissing None None None =
     \<lparr>container_class = ''user-avatar-container avatar-medium '', img_src = Some ''avatar1.png'',
      img_alt = ''Avatar de usuario'', img_title = ''Avatar de usuario''\<rparr>"
  by (simp add: UserAvatar_def sizeClass_def size_name_def avatarSrc_def getDefaultAvatar_def defaultAvatars_def Let_def)

lemma UserAvatar_title_is_alt: "img_title (UserAvatar c k sz alt cls) = img_alt (UserAvatar c k sz alt cls)"
  by (simp add: UserAvatar_def Let_def)

lemma UserAvatar_custom_image:
  "c \<noteq> [] \<Longrightarrow> img_src (UserAvatar (Some c) k sz alt cls) = Some c"
  by (simp add: UserAvatar_def avatarSrc_def Let_def)

lemma hex_digit_decimal: "k < 16 \<Longrightarrow> hex_digits ! k \<in> set dec_digits \<longleftrightarrow> k < 10"
  by (auto simp: hex_digits_def dec_digits_def less_Suc_eq numeral_eq_Suc)

text \<open>
  C40. For an identifier the session store creates, \<open>getDefaultAvatar\<close> is
  \<open>undefined\<close> exactly when the first random byte is at least \<open>0xA0\<close> (the id
  then begins with a hexadecimal letter and \<open>parseInt\<close> gives \<open>NaN\<close>); otherwise it
  is one of the five default images, the index never leaving the array.
\<close>

theorem session_avatar_undefined:
  assumes "bs \<noteq> []"
  shows "(getDefaultAvatar (KeyString (generateSecureId bs)) = None \<longleftrightarrow> 0xA0 \<le> hd bs) \<and>
         set_option (getDefaultAvatar (KeyString (generateSecureId bs))) \<subseteq> set defaultAvatars"
proof -
  obtain b rest where bs: "bs = b # rest" using assms by (cases bs) auto
  let ?k = "unat b div 16"
  have "unat b < 256" using unsigned_less [of b] by simp
  then have k: "?k < 16" by simp
  have s: "generateSecureId bs = hex_digits ! ?k # hex_digits ! (unat b mod 16) # generateSecureId rest"
    by (simp add: bs generateSecureId_def byte_hex_digits)
  have le: "0xA0 \<le> b \<longleftrightarrow> 10 \<le> ?k" by (simp add: word_le_nat_alt) linarith
  show ?thesis
  proof (cases "?k < 10")
    case False
    then have "hd (generateSecureId bs) \<notin> set dec_digits" using hex_digit_decimal [OF k] s by simp
    from getDefaultAvatar_hex_letter [OF assms this] False le bs show ?thesis by simp
  next
    case True
    let ?c = "hex_digits ! ?k"
    have c: "?c \<in> set dec_digits" using hex_digit_decimal [OF k] True by simp
    then have "\<not> js_is_space ?c" "?c \<noteq> CHR ''-''" "?c \<noteq> CHR ''+''"
      by (auto simp: dec_digits_def js_is_space_def)
    with c s obtain n where n: "js_parseInt10 (generateSecureId bs) = Some n"
      by (simp add: js_parseInt10_def)
    have "nat (\<bar>n\<bar> mod int (length defaultAvatars)) < length defaultAvatars"
      by (simp add: defaultAvatars_def nat_less_iff)
    with n s True le bs show ?thesis by (simp add: getDefaultAvatar_def)
  qed
qed

theorem session_avatar_undefined_witness:
  "getDefaultAvatar (KeyString (generateSecureId [0xab])) = None"
  using session_avatar_undefined [of "[0xab]"] by simp

end
