(* ===== verification/App.thy ===== *)
theory App
  imports Dashboard
begin

text \<open>
  The application \<open>App.tsx\<close>: the routes inside the splash screen, over the one
  session store.  The state is the splash screen's state, the session store with its
  pending logins, the URL, and the form of the login page (local state of the
  \<open>Login\<close> component, fresh at each mount).  An event is a splash event, a change
  of URL, an event of the login page or of the dashboard (only while that page is on
  screen), the session store's login timer, or a reload of the page.  After each
  event the router follows its \<open><Navigate replace>\<close> elements, which rewrites the
  URL; while the splash is shown the routes are not rendered and nothing is followed.
  The other pages keep their own state and are not composed here.
\<close>

record app_state =
  app_splash :: splash_state
  app_session :: "auth_state \<times> login_credentials list"
  app_path :: string
  app_form :: login_credentials

definition app_initial :: "string \<Rightarrow> app_state" where
  "app_initial path =
     \<lparr>app_splash = splash_initial, app_session = (auth_initial, []), app_path = path,
      app_form = form login_page_initial\<rparr>"

definition app_route :: "app_state \<Rightarrow> (app_page \<times> string) option" where
  "app_route st = navigate 2 (isAuthenticated (fst (app_session st))) (app_path st)"

datatype app_screen = ShowSplash | ShowPage app_page | ShowNothing

definition app_screen :: "app_state \<Rightarrow> app_screen" where
  "app_screen st =
     (case splash_render (app_splash st) of
        ChildrenView \<Rightarrow> (case app_route st of Some (pg, final) \<Rightarrow> ShowPage pg | None \<Rightarrow> ShowNothing)
      | SplashView logo title subtitle loading \<Rightarrow> ShowSplash)"

text \<open>
  Rendering after an event: the URL becomes the path of the page reached, and a login
  page that was not on screen before mounts with an empty form.
\<close>

definition app_settle :: "app_screen \<Rightarrow> app_state \<Rightarrow> app_state" where
  "app_settle before st =
     (case (app_screen st, app_route st) of
        (ShowPage pg, Some (pg', final)) \<Rightarrow>
          st\<lparr>app_path := final,
             app_form := (if pg = LoginPage \<and> before \<noteq> ShowPage LoginPage then form login_page_initial
                          else app_form st)\<rparr>
      | _ \<Rightarrow> st)"

datatype app_event =
    OnSplash splash_event
  | GoTo string
  | OnLogin login_event
  | OnDashboard dashboard_event
  | LoginTimerFires "8 word list"
  | ReloadPage

fun app_handle :: "app_event \<Rightarrow> app_state \<Rightarrow> app_state" where
  "app_handle (OnSplash ev) st = st\<lparr>app_splash := splash_step ev (app_splash st)\<rparr>"
| "app_handle (GoTo path) st = st\<lparr>app_path := path\<rparr>"
| "app_handle (OnLogin ev) st =
     (if app_screen st = ShowPage LoginPage
      then (let p = login_page_step ev \<lparr>form = app_form st, session = app_session st\<rparr>
            in st\<lparr>app_form := form p, app_session := session p\<rparr>)
      else st)"
| "app_handle (OnDashboard ev) st =
     (if app_screen st = ShowPage DashboardPage
      then (case dashboard_handler ev (app_session st) of
              (s', target) \<Rightarrow> st\<lparr>app_session := s', app_path := (case target of None \<Rightarrow> app_path st | Some p \<Rightarrow> p)\<rparr>)
      else st)"
| "app_handle (LoginTimerFires bytes) st = st\<lparr>app_session := auth_step (LoginResume bytes) (app_session st)\<rparr>"
| "app_handle ReloadPage st = st\<lparr>app_splash := splash_initial, app_session := auth_step Reload (app_session st)\<rparr>"

definition app_step :: "app_event \<Rightarrow> app_state \<Rightarrow> app_state" where
  "app_step ev st = app_settle (app_screen st) (app_handle ev st)"

fun app_event_ok :: "app_event \<Rightarrow> bool" where
  "app_event_ok (LoginTimerFires bytes) = (length bytes = 16)"
| "app_event_ok (OnLogin (TimerResume bytes)) = (length bytes = 16)"
| "app_event_ok _ = True"

inductive app_reachable :: "app_state \<Rightarrow> bool" where
  init: "app_reachable (app_initial path)"
| step: "app_reachable st \<Longrightarrow> app_event_ok ev \<Longrightarrow> app_reachable (app_step ev st)"

definition app_inv :: "app_state \<Rightarrow> bool" where
  "app_inv st \<longleftrightarrow>
     auth_inv (fst (app_session st)) \<and> one_login (app_session st) \<and>
     (snd (app_session st) \<noteq> [] \<longrightarrow> \<not> isAuthenticated (fst (app_session st)))"

lemma navigate_page:
  "\<exists>pg final. navigate 2 a path = Some (pg, final) \<and> (pg = LoginPage \<longleftrightarrow> \<not> a) \<and>
     navigate 2 a final = Some (pg, final)"
proof (cases "path = ''/login''")
  case True
  then show ?thesis by (simp add: numeral_2_eq_2)
next
  case False
  show ?thesis
  proof (cases "map_of protected_routes path")
    case None
    with False have "app_routes a path = NavigateTo (if a then ''/dashboard'' else ''/login'')"
      by (simp add: app_routes_def)
    then show ?thesis by (cases a) (simp_all add: numeral_2_eq_2)
  next
    case (Some q)
    with protected_routes_pages [OF Some] False show ?thesis
      by (simp add: app_routes_def ProtectedRoute_def numeral_2_eq_2)
  qed
qed


lemma app_screen_page:
  "app_screen st = ShowPage pg \<Longrightarrow> (pg = LoginPage \<longleftrightarrow> \<not> isAuthenticated (fst (app_session st)))"
  using navigate_page [of "isAuthenticated (fst (app_session st))" "app_path st"]
  by (auto simp: app_screen_def app_route_def split: splash_view.splits)

lemma app_screen_not_nothing: "app_screen st \<noteq> ShowNothing"
  using navigate_page [of "isAuthenticated (fst (app_session st))" "app_path st"]
  by (auto simp: app_screen_def app_route_def split: splash_view.splits)

lemma app_settle_session [simp]: "app_session (app_settle before st) = app_session st"
  by (simp add: app_settle_def split: prod.split app_screen.split option.split)

lemma login_page_step_auth_inv:
  assumes "auth_inv (fst (session p))" "app_event_ok (OnLogin ev)"
  shows "auth_inv (fst (session (login_page_step ev p)))"
proof -
  obtain a q where sp: "session p = (a, q)" by fastforce
  show ?thesis
  proof (cases ev)
    case (Change fld v)
    then show ?thesis using assms sp auth_inv_step [of a ClearError q]
      by (simp add: handleChange_def Let_def)
  next
    case Submit
    then show ?thesis using assms sp auth_inv_step [of a "Login (form p)" q]
      by (simp add: handleSubmit_def)
  next
    case (TimerResume bytes)
    then show ?thesis using assms sp auth_inv_step [of a "LoginResume bytes" q] by simp
  qed (use assms sp in \<open>simp_all add: handleDemoAccess_def handleQuickDemo_def\<close>)
qed

lemma app_login_inv:
  assumes "app_inv st" "app_event_ok (OnLogin lev)"
  shows "app_inv (app_handle (OnLogin lev) st)"
proof (cases "app_screen st = ShowPage LoginPage")
  case True
  let ?p = "\<lparr>form = app_form st, session = app_session st\<rparr>"
  have "\<not> isAuthenticated (fst (session ?p))" using app_screen_page [OF True] by simp
  moreover have "one_login (session ?p)" using assms(1) by (simp add: app_inv_def)
  ultimately have "one_login (session (login_page_step lev ?p))"
    "snd (session (login_page_step lev ?p)) \<noteq> [] \<longrightarrow> \<not> isAuthenticated (fst (session (login_page_step lev ?p)))"
    using login_page_step_one_login login_page_step_auth by blast+
  moreover have "auth_inv (fst (session (login_page_step lev ?p)))"
    using login_page_step_auth_inv [of ?p lev] assms by (simp add: app_inv_def)
  ultimately show ?thesis using True by (simp add: app_inv_def Let_def)
qed (use assms(1) in simp)

lemma app_dashboard_inv:
  assumes "app_inv st"
  shows "app_inv (app_handle (OnDashboard dev) st)"
proof (cases "app_screen st = ShowPage DashboardPage")
  case True
  obtain a q where sp: "app_session st = (a, q)" by fastforce
  from assms sp have ai: "auth_inv a" and ol: "one_login (a, q)" and na: "q \<noteq> [] \<longrightarrow> \<not> isAuthenticated a"
    by (simp_all add: app_inv_def)
  have "isAuthenticated a" using app_screen_page [OF True] sp by simp
  with na ol have q: "q = []" "\<not> isLoading a" by (auto simp: one_login_def)
  show ?thesis
  proof (cases dev)
    case ClickLogout
    then show ?thesis using True sp q ai auth_inv_step [of a Logout "[]"]
      by (simp add: app_inv_def dashboard_handler_def handleLogout_def one_login_def logout_def)
  qed (use True assms in \<open>simp_all add: dashboard_handler_def app_inv_def\<close>)
qed (use assms in simp)

lemma app_handle_inv:
  assumes "app_inv st" "app_event_ok ev"
  shows "app_inv (app_handle ev st)"
proof -
  obtain a q where sp: "app_session st = (a, q)" by fastforce
  from assms(1) sp have ai: "auth_inv a" and ol: "one_login (a, q)"
    by (simp_all add: app_inv_def)
  show ?thesis
  proof (cases ev)
    case (LoginTimerFires bytes)
    then show ?thesis using sp ai ol assms(2) auth_inv_step [of a "LoginResume bytes" q]
      by (auto simp: app_inv_def one_login_def login_finish_def Let_def split: list.splits)
  next
    case ReloadPage
    then show ?thesis using sp ai auth_inv_step [of a Reload q]
      by (simp add: app_inv_def one_login_def auth_rehydrate_def auth_initial_def)
  qed (use assms app_login_inv app_dashboard_inv in \<open>simp_all add: app_inv_def\<close>)
qed

lemma app_step_inv: "app_inv st \<Longrightarrow> app_event_ok ev \<Longrightarrow> app_inv (app_step ev st)"
  using app_handle_inv by (simp add: app_step_def app_inv_def)

lemma reachable_app_inv: "app_reachable st \<Longrightarrow> app_inv st"
proof (induction rule: app_reachable.induct)
  case (init path)
  show ?case
    by (simp add: app_inv_def app_initial_def auth_inv_def auth_initial_def one_login_def)
qed (rule app_step_inv)


lemma app_splash_done:
  "app_screen (app_step (OnSplash SplashTimerFires) (app_step (OnSplash (EffectRuns 0)) (app_initial ''/''))) =
     ShowPage LoginPage \<and>
   app_path (app_step (OnSplash SplashTimerFires) (app_step (OnSplash (EffectRuns 0)) (app_initial ''/''))) =
     ''/login''"
  by (simp add: app_step_def app_initial_def app_screen_def app_settle_def app_route_def splash_initial_def
                splash_effect_def splash_timer_fires_def hideSplash_def SPLASH_DURATION_def splash_render_def
                auth_initial_def app_routes_def protected_routes_def numeral_2_eq_2 Let_def)

text \<open>
  C32. In every state the application reaches, the screen is the splash or a page
  (never empty); the login page is on screen exactly without a session and the
  protected pages exactly with one; the session holds a user exactly when
  authenticated; at most one login is in flight, \<open>isLoading\<close> exactly while it is;
  and while the dashboard is on screen no login is in flight, so the dashboard's
  logout can never overlap a login's \<open>await\<close>.
\<close>

theorem app_reachable_safe:
  assumes "app_reachable st"
  shows "app_screen st \<noteq> ShowNothing \<and>
         (\<forall>pg. app_screen st = ShowPage pg \<longrightarrow> (pg = LoginPage \<longleftrightarrow> \<not> isAuthenticated (fst (app_session st)))) \<and>
         (isAuthenticated (fst (app_session st)) \<longleftrightarrow> user (fst (app_session st)) \<noteq> None) \<and>
         length (snd (app_session st)) \<le> 1 \<and>
         (isLoading (fst (app_session st)) \<longleftrightarrow> snd (app_session st) \<noteq> []) \<and>
         (app_screen st = ShowPage DashboardPage \<longrightarrow> snd (app_session st) = [])"
proof -
  have i: "app_inv st" using reachable_app_inv [OF assms] .
  have "app_screen st = ShowPage DashboardPage \<longrightarrow> snd (app_session st) = []"
    using i app_screen_page [of st DashboardPage] by (auto simp: app_inv_def)
  then show ?thesis using i app_screen_page [of st] app_screen_not_nothing [of st]
    by (auto simp: app_inv_def auth_inv_def one_login_def)
qed

theorem app_reachable_safe_witness:
  "app_screen (app_step (OnSplash SplashTimerFires) (app_step (OnSplash (EffectRuns 0)) (app_initial ''/''))) =
     ShowPage LoginPage \<and>
   \<not> isAuthenticated (fst (app_session
       (app_step (OnSplash SplashTimerFires) (app_step (OnSplash (EffectRuns 0)) (app_initial ''/'')))))"
proof -
  let ?s = "app_step (OnSplash SplashTimerFires) (app_step (OnSplash (EffectRuns 0)) (app_initial ''/''))"
  have r: "app_reachable ?s" by (intro app_reachable.step app_reachable.init) simp_all
  show ?thesis using app_reachable_safe [OF r] app_splash_done by simp
qed


lemma login_screen:
  "app_path st = ''/login'' \<Longrightarrow> \<not> isAuthenticated (fst (app_session st)) \<Longrightarrow> \<not> showSplash (app_splash st) \<Longrightarrow>
   app_screen st = ShowPage LoginPage \<and> app_route st = Some (LoginPage, ''/login'')"
  by (simp add: app_screen_def app_route_def splash_render_def numeral_2_eq_2)

lemma app_step_login:
  assumes "app_path st = ''/login''" "\<not> isAuthenticated (fst (app_session st))" "\<not> showSplash (app_splash st)"
    "\<not> isAuthenticated (fst (session (login_page_step ev \<lparr>form = app_form st, session = app_session st\<rparr>)))"
  shows "app_step (OnLogin ev) st =
           st\<lparr>app_form := form (login_page_step ev \<lparr>form = app_form st, session = app_session st\<rparr>),
              app_session := session (login_page_step ev \<lparr>form = app_form st, session = app_session st\<rparr>)\<rparr>"
proof -
  let ?st' = "st\<lparr>app_form := form (login_page_step ev \<lparr>form = app_form st, session = app_session st\<rparr>),
                 app_session := session (login_page_step ev \<lparr>form = app_form st, session = app_session st\<rparr>)\<rparr>"
  have "app_screen st = ShowPage LoginPage" using login_screen [OF assms(1-3)] by simp
  moreover have "app_screen ?st' = ShowPage LoginPage \<and> app_route ?st' = Some (LoginPage, ''/login'')"
    using login_screen [of ?st'] assms by simp
  ultimately show ?thesis using assms by (simp add: app_step_def app_settle_def Let_def)
qed

lemma app_login_flow:
  "app_screen (fold app_step [OnSplash (EffectRuns 0), OnSplash SplashTimerFires, OnLogin QuickDemo,
      OnLogin (Change PasswordField ''Capacita#2025x''), OnLogin Submit, LoginTimerFires (replicate 16 0)]
      (app_initial ''/'')) = ShowPage DashboardPage \<and>
   app_path (fold app_step [OnSplash (EffectRuns 0), OnSplash SplashTimerFires, OnLogin QuickDemo,
      OnLogin (Change PasswordField ''Capacita#2025x''), OnLogin Submit, LoginTimerFires (replicate 16 0)]
      (app_initial ''/'')) = ''/dashboard''"
proof -
  define s2 where "s2 = app_step (OnSplash SplashTimerFires) (app_step (OnSplash (EffectRuns 0)) (app_initial ''/''))"
  have p2: "app_path s2 = ''/login''" using app_splash_done by (simp add: s2_def)
  have a2: "app_session s2 = (auth_initial, [])"
    by (simp add: s2_def app_step_def app_initial_def)
  have h2: "\<not> showSplash (app_splash s2)"
    by (simp add: s2_def app_step_def app_initial_def app_settle_def splash_initial_def splash_effect_def
                  splash_timer_fires_def hideSplash_def SPLASH_DURATION_def Let_def split: prod.split app_screen.split option.split)
  define s3 where "s3 = app_step (OnLogin QuickDemo) s2"
  have s3: "s3 = s2\<lparr>app_form := \<lparr>cred_email = ''demo@gnp.com'', cred_password = [], cred_company = ''GNP''\<rparr>\<rparr>"
    unfolding s3_def using app_step_login [OF p2 _ h2, of QuickDemo] a2
    by (simp add: handleQuickDemo_def auth_initial_def)
  define s4 where "s4 = app_step (OnLogin (Change PasswordField ''Capacita#2025x'')) s3"
  have s4: "s4 = s2\<lparr>app_form := demo_credentials\<rparr>"
    unfolding s4_def using app_step_login [of s3 "Change PasswordField ''Capacita#2025x''"] p2 a2 h2 s3
    by (simp add: handleChange_def auth_initial_def demo_credentials_def)
  define s5 where "s5 = app_step (OnLogin Submit) s4"
  have s5: "s5 = s2\<lparr>app_form := demo_credentials,
                     app_session := (auth_initial\<lparr>isLoading := True, error := None\<rparr>, [demo_credentials])\<rparr>"
    unfolding s5_def using app_step_login [of s4 Submit] p2 a2 h2 s4
    by (simp add: handleSubmit_def auth_initial_def demo_login_begin)
  obtain u where fin: "login_finish demo_credentials (replicate 16 0) (auth_initial\<lparr>isLoading := True, error := None\<rparr>) =
      (auth_initial\<lparr>isLoading := True, error := None\<rparr>)\<lparr>user := Some u, isAuthenticated := True, isLoading := False\<rparr>"
    using login_finish_accepts demo_credentials_pass by blast
  have "app_screen s5 = ShowPage LoginPage" using login_screen [of s5] s5 p2 h2 by (simp add: auth_initial_def)
  then have "app_step (LoginTimerFires (replicate 16 0)) s5 =
      s5\<lparr>app_session := (auth_initial\<lparr>user := Some u, isAuthenticated := True, isLoading := False\<rparr>, []),
         app_path := ''/dashboard''\<rparr>"
    using s5 p2 h2 fin
    by (simp add: app_step_def app_settle_def app_screen_def app_route_def splash_render_def numeral_2_eq_2
                  auth_initial_def)
  then show ?thesis using h2 s5
    by (simp add: s5_def s4_def s3_def s2_def [symmetric] app_screen_def app_route_def splash_render_def
                  numeral_2_eq_2)
qed

end
