(* ===== verification/Spec2Isabelle.thy ===== *)
theory Spec2Isabelle
  imports ExamStore AuthStore ExamPage Security Navigation Dashboard HelpChat ProgressPage ProgressDom Courses UserAvatar Splash App
begin

text \<open>
  \<^bold>\<open>A verification library for GProA Capacitacion (src/capacita-seguros).\<close>

  The repository is a React single-page application for insurance and banking staff
  training.  Its behaviour lives in two state containers, the pages that drive them,
  and a handful of pure helpers:
  \<^item> the exam attempt store \<open>useExamStore\<close> (\<open>store/examStore.ts\<close>): one timed attempt
    of an exam (start, answer, navigate, tick, complete, reset), which on completion
    stamps the acting user from the session store and appends the result to a capped
    history in \<open>localStorage\<close>;
  \<^item> the session store \<open>useAuthStore\<close> (\<open>store/authStore.ts\<close>): login with local
    format and strength checks around an 800 ms \<open>await\<close>, logout, and the user the
    exam store reads;
  \<^item> the pages: the simulator (\<open>pages/SimuladorExamen.tsx\<close>, the only caller of the
    exam store), the login page, the dashboard, the help chat (\<open>pages/Ayuda.tsx\<close>),
    the progress page with its canvas charts, the courses page; the router
    (\<open>App.tsx\<close>, \<open>components/ProtectedRoute.tsx\<close>); the splash screen and the
    avatar component; the unused helpers of \<open>utils/security.ts\<close>.

  \<^bold>\<open>Theories.\<close>
  \<^item> \<open>Prelude\<close>: the JavaScript built-ins the code calls, as executable functions
    (\<open>Math.round\<close> of a percentage as \<open>js_percent\<close>, with \<open>NaN\<close> and the
    infinities of a division by zero in \<open>js_num\<close>; \<open>findIndex\<close>; \<open>slice(-n)\<close>;
    \<open>padStart\<close>; \<open>||\<close> on strings; \<open>replace\<close> of a character; \<open>split(c)[0]\<close>;
    \<open>trim\<close>, \<open>toLowerCase\<close>, \<open>includes\<close>) and shared list lemmas.
  \<^item> \<open>ExamTypes\<close>, \<open>AuthTypes\<close>: the interfaces of \<open>types/\<close> as records and
    datatypes, and the sample exam.
  \<^item> \<open>SecureId\<close>: \<open>generateSecureId\<close>, the random bytes as input, with a decoder.
  \<^item> \<open>ExamHistory\<close>: the \<open>'examResults'\<close> key, the append-and-cap step and its
    caught read and write failures.
  \<^item> \<open>ExamStore\<close>: \<open>exam_state\<close>, one definition per action, the calls as
    \<open>exam_event\<close> with \<open>exam_step\<close>, the reachable states \<open>exam_reachable\<close>.
  \<^item> \<open>AuthStore\<close>: the e-mail pattern as an executable scan, the strength check, the
    sanitizer, \<open>login\<close> split at its \<open>await\<close> into \<open>login_begin\<close> and
    \<open>login_finish\<close>, the other actions, interleavings as \<open>auth_step\<close> over a FIFO of
    pending logins, reloads through the \<open>persist\<close> middleware, \<open>auth_reachable\<close>.
  \<^item> \<open>ExamPage\<close>: the simulator page (handlers, the interval and the auto-complete
    effect, the screen it renders and the buttons each screen offers,
    \<open>page_reachable\<close>) and the selectors \<open>useExamProgress\<close>, \<open>useFormattedTime\<close>.
  \<^item> \<open>Security\<close>: \<open>utils/security.ts\<close>.
  \<^item> \<open>Navigation\<close>: routes, the guard, redirects followed with fuel (\<open>navigate\<close>),
    the dashboard's navigation and the login page driving the session store, with
    what the login page renders.
  \<^item> \<open>Dashboard\<close>: \<open>STATS_DATA\<close>, \<open>getVariantClass\<close>, the click and Enter-key
    handlers of the quick-action cards and the logout button, the page each event
    leads to, and the rendered header, greeting and cards.
  \<^item> \<open>HelpChat\<close>: the chat with React state updates queued by a handler and
    applied in order, so that handlers read the state of their render.
  \<^item> \<open>ProgressPage\<close>: the progress data, the four chart functions as traces of
    canvas calls, and the view rendered from \<open>activeTab\<close> and \<open>currentView\<close>.
  \<^item> \<open>ProgressDom\<close>: the progress page's imperative side over an explicit DOM heap
    (elements by reference, the page's bars, the children appended to the body), a
    millisecond clock and the pending \<open>setTimeout\<close> callbacks: the mount effect,
    \<open>animateProgressBars\<close>, \<open>showNotification\<close>, the tab clicks, leaving the page,
    and \<open>progreso_reachable\<close>.
  \<^item> \<open>Courses\<close>, \<open>UserAvatar\<close>, \<open>Splash\<close>: the courses page with its
    rendered cards, the avatar component with \<open>parseInt\<close> and its markup, the
    splash timer with \<open>components/Logo.tsx\<close>.
  \<^item> \<open>App\<close>: \<open>App.tsx\<close>, the routes inside the splash screen over the one session
    store, with the login page and the dashboard acting only while on screen, the
    store's login timer, page reloads, and the URL rewritten by the router after each
    event (\<open>app_step\<close>, \<open>app_reachable\<close>).
  This theory imports them all and holds the property that spans the two stores.

  \<^bold>\<open>What is proved.\<close>  The exam store's invariant holds in every reachable state
  (rule induction over per-action preservation lemmas); results are consistent;
  \<open>answerQuestion\<close> refines a map update; navigation and the timer are characterised
  for any number of calls; the history keeps the last hundred results in order and
  survives storage failures; identifiers decode back to their bytes.  The session
  store's invariant (authenticated exactly with a user, whose id is 32 hex digits)
  holds across interleaved logins, logouts and reloads; the e-mail scan equals the
  regular language; the sanitizer decodes back and leaves no markup character; a
  completed result carries the logged-in user's id or \<open>'anonymous'\<close>; the score is
  the percentage rounded to nearest, halves up, for any answers; an address the
  pattern accepts passes the sanitizer unchanged; with such an address every password
  shorter than twelve characters is rejected with the length message.  Through the
  simulator page the history grows by one result per attempt, the timer completes
  every running attempt, the page never renders \<open>null\<close>, the pass flag is seven
  out of ten, and the clock text reads back to the seconds.  Every path of the router
  reaches a page within two matches, the login page exactly without a session.  The
  chat's sanitizer agrees with the store's, every question is answered or pending,
  no message holds markup, and once the pending timers fire every question has its
  reply, in order.  On the courses page a module is expanded exactly when the clicks
  on its header have the right parity.  The chart vertices lie in the plot area and the doughnut
  slices tile the circle.  On the progress page no timer callback ever throws (each
  notification has exactly one pending hide or remove), 3300 ms without events leave
  no timer and no notification, and 500 ms after mounting every bar has the width of
  its \<open>data-progress\<close>.  Each quick action of the dashboard, by click or Enter,
  leads to its page with a session and to the login page without.  The login page
  never has two logins in flight, since its submit button is disabled while one runs;
  across the whole application no login is in flight while the dashboard is on
  screen, so a logout overlapping a login's \<open>await\<close>, which the store allows, cannot
  be reached through the pages.  On the login page, quick demo, a password, submit
  and the timer authenticate the GNP demo user exactly when the password passes the
  strength check, for every password; from \<open>/\<close> that flow leads to the dashboard.
  Proved defects: a second \<open>completeExam\<close> duplicates the
  history entry; a completed attempt still accepts answers; a logout during the
  login's \<open>await\<close> is undone; the documented demo password cannot log in; a failed
  login keeps the previous user; \<open>sanitizeString\<close> lets markup through; the chat's
  suggestion buttons send the previous input; a small canvas makes the doughnut chart
  throw; the progress page's tabs change only the active button, not the content; a
  module score of 0 reads as not evaluated; the default avatar of a session id is
  \<open>undefined\<close> exactly when its first random byte is at least \<open>0xA0\<close>.

  \<^bold>\<open>Modelling choices and bounds.\<close>  JavaScript numbers the code uses as integers
  are \<open>int\<close>; chart coordinates are \<open>real\<close>, exact where the browser rounds.
  \<open>Math.round(c / t * 100)\<close> is computed in exact rational arithmetic: for
  \<open>0 \<le> c \<le> t\<close> the floating-point error is far below the distance \<open>1/(2t)\<close> from a
  rounding boundary, except when \<open>100 c / t\<close> is exactly a half-integer whose
  quotient \<open>c / t\<close> is not a binary fraction.  Randomness, the clock and the outcome of
  storage writes are inputs of the calls.  Strings are HOL strings of 8-bit
  characters; texts with accents are transliterated to ASCII, which no operation
  reads.  The only loop that needs a bound is the router's redirect chain: two route
  matches reach every page (\<open>navigate_terminates\<close>), so the fuel 2 is enough and
  more changes nothing.  Timers are events: the simulator's interval only while an
  attempt runs, the 800 ms login timers and the chat's one-second timers in the order
  they were set (they have equal delays).  The progress page's timers run on a clock
  of milliseconds, each tick firing the callbacks due in the order they were set;
  every delay there is positive, so a callback never schedules one due in the same
  tick, and the longest chain (hide at 3000 ms, removal 300 ms later) bounds the
  quiescence time by 3300 ms.

  \<^bold>\<open>Not modelled.\<close>  The styling of the pages (CSS, class names that no code
  reads), background images, icons and static texts without behaviour; the
  \<open>useNavigate\<close> of the progress page, which is never called; React's
  reconciliation beyond the state each page keeps.  None of them computes anything the
  rest of the program reads.
\<close>

section \<open>Properties across the two stores\<close>

text \<open>
  \<open>completeExam\<close> reads the session store with \<open>useAuthStore.getState()\<close>;
  the session invariant of \<open>AuthStore\<close> is what makes the \<open>|| 'anonymous'\<close>
  default fall back exactly when nobody is logged in.
\<close>

lemma session_user_id:
  assumes "auth_reachable (a, p)"
  shows "js_str_or (case user a of None \<Rightarrow> [] | Some u \<Rightarrow> user_id u) ''anonymous'' =
         (case user a of None \<Rightarrow> ''anonymous'' | Some u \<Rightarrow> user_id u)"
  using reachable_auth_inv [OF assms] by (auto simp: auth_inv_def js_str_or_def split: option.split)

text \<open>
  C21. Completing an exam stamps the result with the id of the logged-in user, a
  32-character hexadecimal identifier, and with \<open>'anonymous'\<close> exactly when the
  session store holds no user (never logged in, or logged out), whatever logins are
  still pending.
\<close>

theorem completeExam_stamps_session_user:
  assumes "auth_reachable (a, p)" "currentExam st = Some e"
  shows "\<exists>r. results (fst (completeExam a bytes now w st h)) = Some r \<and>
           (case user a of
              None \<Rightarrow> userId r = ''anonymous'' \<and> \<not> isAuthenticated a
            | Some u \<Rightarrow> userId r = user_id u \<and> length (userId r) = 32 \<and>
                        set (userId r) \<subseteq> set hex_digits \<and> isAuthenticated a)"
proof -
  have inv: "auth_inv a" using reachable_auth_inv [OF assms(1)] by simp
  have "userId (completeExam_result a bytes now e st) =
        (case user a of None \<Rightarrow> ''anonymous'' | Some u \<Rightarrow> user_id u)"
    using session_user_id [OF assms(1)] by (simp add: completeExam_result_def Let_def)
  with inv show ?thesis
    by (auto simp: completeExam_completes [OF assms(2)] auth_inv_def split: option.split)
qed

theorem completeExam_stamps_session_user_witness:
  "userId (the (results (fst (completeExam
      (fst (auth_run [Login demo_credentials, LoginResume (replicate 16 0), Logout] (auth_initial, [])))
      (replicate 16 0) ''2025-01-01'' True (startExam None (exam_initial None)) NoHistory)))) = ''anonymous''"
proof -
  let ?s = "auth_run [Login demo_credentials, LoginResume (replicate 16 0), Logout] (auth_initial, [])"
  have r: "auth_reachable ?s"
    by (rule auth_reachable_run [OF auth_reachable.init]) simp
  have e: "currentExam (startExam None (exam_initial None)) = Some sampleExam"
    by (simp add: startExam_def)
  have "user (fst ?s) = None"
    by (simp add: demo_login_begin logout_def split: prod.split)
  with completeExam_stamps_session_user [of "fst ?s" "snd ?s", OF _ e, of "replicate 16 0" "''2025-01-01''" True NoHistory] r
  show ?thesis by auto
qed

end
